theory Spec2Isabelle
  imports Main
begin

section \<open>Python values\<close>

text \<open>
  The auditors and the playbook work on the dictionaries that boto3 and nmap3 return.
  A payload is a JSON-like value: dictionary keys are strings and keep their insertion
  order; a dictionary is an association list with distinct keys. Strings are ASCII. A
  datetime leaf of a boto3 response is given by the text that \<open>str()\<close> prints for it.
\<close>

datatype pyval =
    PNone
  | PBool bool
  | PInt int
  | PStr string
  | PList "pyval list"
  | PDict "(string \<times> pyval) list"

datatype error =
    KeyError pyval
  | IndexError
  | TypeError
  | ValueError
  | AttributeError
  | ParserError
  | ClientError string

text \<open>Sequencing of computations that may raise: the first exception wins.\<close>

definition bindE :: "error + 'a \<Rightarrow> ('a \<Rightarrow> error + 'b) \<Rightarrow> error + 'b" where
  "bindE m f = (case m of Inl e \<Rightarrow> Inl e | Inr v \<Rightarrow> f v)"

text \<open>Truth value testing, as \<open>if response:\<close> and \<open>or\<close> do it.\<close>

fun truthy :: "pyval \<Rightarrow> bool" where
  "truthy PNone = False"
| "truthy (PBool b) = b"
| "truthy (PInt i) = (i \<noteq> 0)"
| "truthy (PStr s) = (s \<noteq> [])"
| "truthy (PList xs) = (xs \<noteq> [])"
| "truthy (PDict d) = (d \<noteq> [])"

definition py_or :: "pyval \<Rightarrow> pyval \<Rightarrow> pyval" where
  "py_or a b = (if truthy a then a else b)"

text \<open>
  \<open>==\<close>: a bool compares as the integer 0 or 1; otherwise values of different kinds are
  unequal. Every comparison in the modelled code has a string, an integer or \<open>None\<close> on
  its right-hand side.
\<close>

fun py_eq :: "pyval \<Rightarrow> pyval \<Rightarrow> bool" where
  "py_eq (PBool b) (PInt i) = ((if b then 1 else 0) = i)"
| "py_eq (PInt i) (PBool b) = (i = (if b then 1 else 0))"
| "py_eq a b = (a = b)"

definition py_ne :: "pyval \<Rightarrow> pyval \<Rightarrow> bool" where
  "py_ne a b = (\<not> py_eq a b)"

text \<open>Indexing a sequence: negative indices count from the end, out of range raises.\<close>

definition list_index :: "'a list \<Rightarrow> int \<Rightarrow> error + 'a" where
  "list_index xs i =
     (if 0 \<le> i \<and> i < int (length xs) then Inr (xs ! nat i)
      else if i < 0 \<and> - int (length xs) \<le> i then Inr (xs ! nat (int (length xs) + i))
      else Inl IndexError)"

text \<open>\<open>v[k]\<close> for a dictionary, a list or a string.\<close>

fun subscript :: "pyval \<Rightarrow> pyval \<Rightarrow> error + pyval" where
  "subscript (PDict d) (PStr k) =
     (case map_of d k of None \<Rightarrow> Inl (KeyError (PStr k)) | Some v \<Rightarrow> Inr v)"
| "subscript (PDict d) (PList ks) = Inl TypeError"
| "subscript (PDict d) (PDict kd) = Inl TypeError"
| "subscript (PDict d) k = Inl (KeyError k)"
| "subscript (PList xs) (PInt i) = list_index xs i"
| "subscript (PList xs) (PBool b) = list_index xs (if b then 1 else 0)"
| "subscript (PList xs) k = Inl TypeError"
| "subscript (PStr s) (PInt i) = map_sum id (\<lambda>c. PStr [c]) (list_index s i)"
| "subscript (PStr s) (PBool b) =
     map_sum id (\<lambda>c. PStr [c]) (list_index s (if b then 1 else 0))"
| "subscript (PStr s) k = Inl TypeError"
| "subscript v k = Inl TypeError"

definition getitem :: "pyval \<Rightarrow> string \<Rightarrow> error + pyval" where
  "getitem v k = subscript v (PStr k)"

text \<open>Iteration of a \<open>for\<close> loop: a list gives its items, a dictionary its keys, a string
  its characters; anything else is not iterable.\<close>

fun py_iter :: "pyval \<Rightarrow> error + pyval list" where
  "py_iter (PList xs) = Inr xs"
| "py_iter (PDict d) = Inr (map (\<lambda>kv. PStr (fst kv)) d)"
| "py_iter (PStr s) = Inr (map (\<lambda>c. PStr [c]) s)"
| "py_iter v = Inl TypeError"

subsection \<open>Rendering: \<open>str()\<close>, f-string fields, \<open>repr()\<close> inside containers\<close>

fun dec_digits :: "nat \<Rightarrow> string" where
  "dec_digits n =
     (if n < 10 then [''0123456789'' ! n]
      else dec_digits (n div 10) @ [''0123456789'' ! (n mod 10)])"

declare dec_digits.simps [simp del]

definition str_int :: "int \<Rightarrow> string" where
  "str_int i = (if i < 0 then CHR ''-'' # dec_digits (nat (- i)) else dec_digits (nat i))"

definition hex2 :: "nat \<Rightarrow> string" where
  "hex2 n = [''0123456789abcdef'' ! (n div 16), ''0123456789abcdef'' ! (n mod 16)]"

definition repr_char :: "char \<Rightarrow> char \<Rightarrow> string" where
  "repr_char q c =
     (if c = q \<or> c = CHR 0x5C then [CHR 0x5C, c]
      else if c = CHR 0x09 then [CHR 0x5C, CHR ''t'']
      else if c = CHR 0x0A then [CHR 0x5C, CHR ''n'']
      else if c = CHR 0x0D then [CHR 0x5C, CHR ''r'']
      else if (of_char c :: nat) < 32 \<or> 127 \<le> (of_char c :: nat)
        then [CHR 0x5C, CHR ''x''] @ hex2 (of_char c)
      else [c])"

definition repr_str :: "string \<Rightarrow> string" where
  "repr_str s =
     (let q = (if CHR 0x27 \<in> set s \<and> CHR 0x22 \<notin> set s then CHR 0x22 else CHR 0x27)
      in [q] @ concat (map (repr_char q) s) @ [q])"

fun join :: "string \<Rightarrow> string list \<Rightarrow> string" where
  "join sep [] = []"
| "join sep [x] = x"
| "join sep (x # y # ys) = x @ sep @ join sep (y # ys)"

primrec py_repr :: "pyval \<Rightarrow> string" where
  "py_repr PNone = ''None''"
| "py_repr (PBool b) = (if b then ''True'' else ''False'')"
| "py_repr (PInt i) = str_int i"
| "py_repr (PStr s) = repr_str s"
| "py_repr (PList xs) = ''['' @ join '', '' (map py_repr xs) @ '']''"
| "py_repr (PDict d) =
     ''{'' @ join '', '' (map (\<lambda>kr. repr_str (fst kr) @ '': '' @ snd kr)
                              (map (map_prod id py_repr) d)) @ ''}''"

definition py_str :: "pyval \<Rightarrow> string" where
  "py_str v = (case v of PStr s \<Rightarrow> s | _ \<Rightarrow> py_repr v)"

subsection \<open>\<open>int()\<close> and \<open>str.upper()\<close>\<close>

text \<open>The white space that \<open>int()\<close> skips around the digits, for a string of code points
  below 256: tab, line feed, vertical tab, form feed, carriage return and space, and
  beyond ASCII the next-line character \<open>0x85\<close> and the no-break space \<open>0xA0\<close>. The
  separators \<open>0x1C\<close> to \<open>0x1F\<close> are not skipped.\<close>

definition py_isspace :: "char \<Rightarrow> bool" where
  "py_isspace c = ((of_char c :: nat) \<in> {9, 10, 11, 12, 13, 32, 133, 160})"

definition py_isdigit :: "char \<Rightarrow> bool" where
  "py_isdigit c = (48 \<le> (of_char c :: nat) \<and> (of_char c :: nat) \<le> 57)"

definition py_strip :: "string \<Rightarrow> string" where
  "py_strip s = rev (dropWhile py_isspace (rev (dropWhile py_isspace s)))"

text \<open>Decimal digits, a single underscore allowed between two digits.\<close>

fun parse_digits :: "nat \<Rightarrow> bool \<Rightarrow> string \<Rightarrow> nat option" where
  "parse_digits acc prev [] = (if prev then Some acc else None)"
| "parse_digits acc prev (c # cs) =
     (if py_isdigit c then parse_digits (acc * 10 + (of_char c - 48)) True cs
      else if c = CHR ''_'' \<and> prev \<and> cs \<noteq> [] \<and> py_isdigit (hd cs)
        then parse_digits acc False cs
      else None)"

definition int_of_string :: "string \<Rightarrow> error + int" where
  "int_of_string s =
     (case py_strip s of
        [] \<Rightarrow> Inl ValueError
      | c # cs \<Rightarrow>
          if c = CHR ''-'' then
            (case parse_digits 0 False cs of None \<Rightarrow> Inl ValueError | Some n \<Rightarrow> Inr (- int n))
          else if c = CHR ''+'' then
            (case parse_digits 0 False cs of None \<Rightarrow> Inl ValueError | Some n \<Rightarrow> Inr (int n))
          else
            (case parse_digits 0 False (c # cs) of
               None \<Rightarrow> Inl ValueError | Some n \<Rightarrow> Inr (int n)))"

fun py_int :: "pyval \<Rightarrow> error + int" where
  "py_int (PInt i) = Inr i"
| "py_int (PBool b) = Inr (if b then 1 else 0)"
| "py_int (PStr s) = int_of_string s"
| "py_int v = Inl TypeError"

definition upper_char :: "char \<Rightarrow> char" where
  "upper_char c =
     (case map_of (zip ''abcdefghijklmnopqrstuvwxyz'' ''ABCDEFGHIJKLMNOPQRSTUVWXYZ'') c of
        None \<Rightarrow> c | Some u \<Rightarrow> u)"

definition upper :: "string \<Rightarrow> string" where
  "upper s = map upper_char s"

section \<open>The execution cache and its accessors\<close>

text \<open>
  One run shares one \<open>cache\<close> dictionary between all its checks. The record also keeps
  what the run did to the outside: the requests sent to the resource provider, oldest
  first, and the lines printed.
\<close>

record run_state =
  cache :: "string \<rightharpoonup> pyval"
  api_calls :: "string list"
  stdout :: "string list"

text \<open>A provider operation answers a request; its answer may depend on how many
  requests the run has already sent.\<close>

type_synonym provider = "nat \<Rightarrow> error + pyval"

definition cache_get :: "run_state \<Rightarrow> string \<Rightarrow> pyval" where
  "cache_get s k = (case cache s k of None \<Rightarrow> PNone | Some v \<Rightarrow> v)"

definition request :: "string \<Rightarrow> run_state \<Rightarrow> run_state" where
  "request name s = s\<lparr>api_calls := api_calls s @ [name]\<rparr>"

text \<open>\<open>describe_clusters(cache)\<close> of the DAX auditor.\<close>

definition describe_clusters :: "provider \<Rightarrow> run_state \<Rightarrow> (error + pyval) \<times> run_state" where
  "describe_clusters dax_describe_clusters s =
     (let response = cache_get s ''describe_clusters'' in
      if truthy response then (Inr response, s)
      else
        (case dax_describe_clusters (length (api_calls s)) of
           Inl e \<Rightarrow> (Inl e, request ''dax.describe_clusters'' s)
         | Inr r \<Rightarrow>
             (Inr r, (request ''dax.describe_clusters'' s)
                       \<lparr>cache := (cache s)(''describe_clusters'' \<mapsto> r)\<rparr>)))"

text \<open>\<open>describe_load_balancers(cache)\<close> of the attack surface auditor.\<close>

definition describe_load_balancers ::
  "provider \<Rightarrow> run_state \<Rightarrow> (error + pyval) \<times> run_state" where
  "describe_load_balancers elbv2_describe_load_balancers s =
     (let response = cache_get s ''describe_load_balancers'' in
      if truthy response then (Inr response, s)
      else
        (case elbv2_describe_load_balancers (length (api_calls s)) of
           Inl e \<Rightarrow> (Inl e, request ''elbv2.describe_load_balancers'' s)
         | Inr r \<Rightarrow>
             (Inr r, (request ''elbv2.describe_load_balancers'' s)
                       \<lparr>cache := (cache s)(''describe_load_balancers'' \<mapsto> r)\<rparr>)))"

text \<open>
  \<open>ec2_paginate(cache)\<close>. \<open>ec2.get_paginator\<close> gives the paginator (or a false value);
  \<open>paginate\<close> with the running-instances filter gives the pages, here one request.
  The three nested loops collect every instance of every reservation of every page.
\<close>

fun collect_instances :: "pyval list \<Rightarrow> pyval list \<Rightarrow> error + pyval list" where
  "collect_instances instanceList [] = Inr instanceList"
| "collect_instances instanceList (r # rs) =
     bindE (getitem r ''Instances'') (\<lambda>insts.
     bindE (py_iter insts) (\<lambda>is.
     collect_instances (instanceList @ is) rs))"

fun collect_pages :: "pyval list \<Rightarrow> pyval list \<Rightarrow> error + pyval list" where
  "collect_pages instanceList [] = Inr instanceList"
| "collect_pages instanceList (page # pages) =
     bindE (getitem page ''Reservations'') (\<lambda>res.
     bindE (py_iter res) (\<lambda>rs.
     bindE (collect_instances instanceList rs) (\<lambda>instanceList'.
     collect_pages instanceList' pages)))"

definition ec2_paginate ::
  "(nat \<Rightarrow> error + pyval list) option \<Rightarrow> run_state \<Rightarrow> (error + pyval) \<times> run_state" where
  "ec2_paginate paginator s =
     (let response = cache_get s ''instances'' in
      if truthy response then (Inr response, s)
      else
        (case paginator of
           None \<Rightarrow> (Inr PNone, s)
         | Some paginate \<Rightarrow>
             (case paginate (length (api_calls s)) of
                Inl e \<Rightarrow> (Inl e, request ''ec2.describe_instances'' s)
              | Inr pages \<Rightarrow>
                  (case collect_pages [] pages of
                     Inl e \<Rightarrow> (Inl e, request ''ec2.describe_instances'' s)
                   | Inr instanceList \<Rightarrow>
                       (Inr (PList instanceList),
                        (request ''ec2.describe_instances'' s)
                          \<lparr>cache := (cache s)(''instances'' \<mapsto> PList instanceList)\<rparr>)))))"

text \<open>
  A check is a generator: it yields findings one by one and may raise after some of them.
  Its result is the findings yielded so far with the exception that ended it, if any.
  \<open>for_each\<close> is the \<open>for\<close> loop of a generator body over the items of a list.
\<close>

type_synonym yields = "pyval list \<times> error option"

fun for_each ::
  "('a \<Rightarrow> run_state \<Rightarrow> yields \<times> run_state) \<Rightarrow> 'a list \<Rightarrow> run_state \<Rightarrow> yields \<times> run_state" where
  "for_each body [] s = (([], None), s)"
| "for_each body (x # xs) s =
     (case body x s of
        ((fs, Some e), s') \<Rightarrow> ((fs, Some e), s')
      | ((fs, None), s') \<Rightarrow>
          (case for_each body xs s' of ((gs, r), s'') \<Rightarrow> ((fs @ gs, r), s'')))"

text \<open>One finding or an exception, as the part of a generator run that one item gives.\<close>

definition yield1 :: "error + pyval \<Rightarrow> yields" where
  "yield1 r = (case r of Inl e \<Rightarrow> ([], Some e) | Inr finding \<Rightarrow> ([finding], None))"

section \<open>Amazon DAX auditor\<close>

text \<open>
  The \<open>Resources\<close> entry is the same literal in the four findings of the auditor. Its
  items are evaluated in the order written, so the first missing attribute raises.
\<close>

definition dax_cluster_resources ::
  "string \<Rightarrow> string \<Rightarrow> pyval \<Rightarrow> pyval \<Rightarrow> pyval \<Rightarrow> error + pyval" where
  "dax_cluster_resources awsRegion awsPartition cluster clusterName clusterArn =
     bindE (getitem cluster ''TotalNodes'') (\<lambda>totalNodes.
     bindE (getitem cluster ''NodeType'') (\<lambda>nodeType.
     bindE (getitem cluster ''Status'') (\<lambda>status.
     bindE (bindE (getitem cluster ''ClusterDiscoveryEndpoint'') (\<lambda>ep. getitem ep ''Address''))
       (\<lambda>address.
     bindE (bindE (getitem cluster ''ClusterDiscoveryEndpoint'') (\<lambda>ep. getitem ep ''Port''))
       (\<lambda>port.
     bindE (bindE (getitem cluster ''ClusterDiscoveryEndpoint'') (\<lambda>ep. getitem ep ''URL''))
       (\<lambda>url.
     bindE (getitem cluster ''SubnetGroup'') (\<lambda>subnetGroup.
     bindE (bindE (getitem cluster ''SecurityGroups'') (\<lambda>sgs.
            bindE (subscript sgs (PInt 0)) (\<lambda>sg. getitem sg ''SecurityGroupIdentifier'')))
       (\<lambda>securityGroupIdentifier.
     bindE (getitem cluster ''IamRoleArn'') (\<lambda>iamRoleArn.
     bindE (bindE (getitem cluster ''ParameterGroup'') (\<lambda>pg. getitem pg ''ParameterGroupName''))
       (\<lambda>parameterGroupName.
     Inr (PList [
       PDict [
         (''Type'', PStr ''AwsDaxCluster''),
         (''Id'', clusterArn),
         (''Partition'', PStr awsPartition),
         (''Region'', PStr awsRegion),
         (''Details'', PDict [
           (''Other'', PDict [
             (''ClusterName'', clusterName),
             (''TotalNodes'', PStr (py_str totalNodes)),
             (''NodeType'', nodeType),
             (''Status'', status),
             (''Address'', address),
             (''Port'', PStr (py_str port)),
             (''URL'', url),
             (''SubnetGroup'', subnetGroup),
             (''SecurityGroupIdentifier'', securityGroupIdentifier),
             (''IamRoleArn'', iamRoleArn),
             (''ParameterGroupName'', parameterGroupName)
           ])
         ])
       ]
     ])))))))))))"

definition product_arn :: "string \<Rightarrow> string \<Rightarrow> string \<Rightarrow> string" where
  "product_arn awsPartition awsRegion awsAccountId =
     ''arn:'' @ awsPartition @ '':securityhub:'' @ awsRegion @ '':'' @ awsAccountId
       @ '':product/'' @ awsAccountId @ ''/default''"

subsection \<open>[DAX.1] \<open>dax_encryption_at_rest_check\<close>\<close>

definition dax1_remediation :: pyval where
  "dax1_remediation =
     PDict [(''Recommendation'', PDict [
       (''Text'', PStr ''You cannot enable or disable encryption at rest after a cluster has been created. You must re-create the cluster to enable encryption at rest if it was not enabled at creation. For more information refer to the DAX encryption at rest section of the Amazon DynamoDB Developer Guide''),
       (''Url'', PStr ''https://docs.aws.amazon.com/amazondynamodb/latest/developerguide/DAXEncryptionAtRest.html'')
     ])]"

definition dax1_related_requirements :: pyval where
  "dax1_related_requirements =
     PList [
       PStr ''NIST CSF PR.DS-1'',
       PStr ''NIST SP 800-53 MP-8'',
       PStr ''NIST SP 800-53 SC-12'',
       PStr ''NIST SP 800-53 SC-28'',
       PStr ''AICPA TSC CC6.1'',
       PStr ''ISO 27001:2013 A.8.2.3''
     ]"

text \<open>The finding of the failing branch and the finding of the passing branch.\<close>

definition dax1_failing_finding ::
  "string \<Rightarrow> string \<Rightarrow> string \<Rightarrow> string \<Rightarrow> pyval \<Rightarrow> pyval \<Rightarrow> pyval \<Rightarrow> pyval" where
  "dax1_failing_finding iso8601Time awsAccountId awsRegion awsPartition
       clusterName clusterArn resources =
     PDict [
       (''SchemaVersion'', PStr ''2018-10-08''),
       (''Id'', PStr (py_str clusterArn @ ''/dax-encryption-at-rest-check'')),
       (''ProductArn'', PStr (product_arn awsPartition awsRegion awsAccountId)),
       (''GeneratorId'', clusterArn),
       (''AwsAccountId'', PStr awsAccountId),
       (''Types'', PList [PStr ''Software and Configuration Checks/AWS Security Best Practices'']),
       (''FirstObservedAt'', PStr iso8601Time),
       (''CreatedAt'', PStr iso8601Time),
       (''UpdatedAt'', PStr iso8601Time),
       (''Severity'', PDict [(''Label'', PStr ''HIGH'')]),
       (''Confidence'', PInt 99),
       (''Title'', PStr ''[DAX.1] DynamoDB Accelerator (DAX) clusters should be encrypted at rest''),
       (''Description'', PStr (''DynamoDB Accelerator (DAX) cluster '' @ py_str clusterName @ '' is not encrypted at rest. Amazon DynamoDB Accelerator (DAX) encryption at rest provides an additional layer of data protection by helping secure your data from unauthorized access to the underlying storage. Organizational policies, industry or government regulations, and compliance requirements might require the use of encryption at rest to protect your data. You can use encryption to increase the data security of your applications that are deployed in the cloud. With encryption at rest, the data persisted by DAX on disk is encrypted using 256-bit Advanced Encryption Standard, also known as AES-256 encryption. DAX writes data to disk as part of propagating changes from the primary node to read replicas. Refer to the remediation instructions if this configuration is not intended.'')),
       (''Remediation'', dax1_remediation),
       (''ProductFields'', PDict [(''Product Name'', PStr ''ElectricEye'')]),
       (''Resources'', resources),
       (''Compliance'', PDict [
         (''Status'', PStr ''FAILED''),
         (''RelatedRequirements'', dax1_related_requirements)
       ]),
       (''Workflow'', PDict [(''Status'', PStr ''NEW'')]),
       (''RecordState'', PStr ''ACTIVE'')
     ]"

definition dax1_passing_finding ::
  "string \<Rightarrow> string \<Rightarrow> string \<Rightarrow> string \<Rightarrow> pyval \<Rightarrow> pyval \<Rightarrow> pyval \<Rightarrow> pyval" where
  "dax1_passing_finding iso8601Time awsAccountId awsRegion awsPartition
       clusterName clusterArn resources =
     PDict [
       (''SchemaVersion'', PStr ''2018-10-08''),
       (''Id'', PStr (py_str clusterArn @ ''/dax-encryption-at-rest-check'')),
       (''ProductArn'', PStr (product_arn awsPartition awsRegion awsAccountId)),
       (''GeneratorId'', clusterArn),
       (''AwsAccountId'', PStr awsAccountId),
       (''Types'', PList [PStr ''Software and Configuration Checks/AWS Security Best Practices'']),
       (''FirstObservedAt'', PStr iso8601Time),
       (''CreatedAt'', PStr iso8601Time),
       (''UpdatedAt'', PStr iso8601Time),
       (''Severity'', PDict [(''Label'', PStr ''INFORMATIONAL'')]),
       (''Confidence'', PInt 99),
       (''Title'', PStr ''[DAX.1] DynamoDB Accelerator (DAX) clusters should be encrypted at rest''),
       (''Description'', PStr (''DynamoDB Accelerator (DAX) cluster '' @ py_str clusterName @ '' is encrypted at rest.'')),
       (''Remediation'', dax1_remediation),
       (''ProductFields'', PDict [(''Product Name'', PStr ''ElectricEye'')]),
       (''Resources'', resources),
       (''Compliance'', PDict [
         (''Status'', PStr ''PASSED''),
         (''RelatedRequirements'', dax1_related_requirements)
       ]),
       (''Workflow'', PDict [(''Status'', PStr ''RESOLVED'')]),
       (''RecordState'', PStr ''ARCHIVED'')
     ]"

text \<open>The loop body: the guard of the source, then the finding of the branch taken.\<close>

definition dax_encryption_at_rest_cluster ::
  "string \<Rightarrow> string \<Rightarrow> string \<Rightarrow> string \<Rightarrow> pyval \<Rightarrow> error + pyval" where
  "dax_encryption_at_rest_cluster iso8601Time awsAccountId awsRegion awsPartition cluster =
     bindE (getitem cluster ''ClusterName'') (\<lambda>clusterName.
     bindE (getitem cluster ''ClusterArn'') (\<lambda>clusterArn.
     bindE (bindE (getitem cluster ''SSEDescription'') (\<lambda>sse. getitem sse ''Status''))
       (\<lambda>sseStatus.
     if py_ne sseStatus (py_or (PStr ''ENABLING'') (PStr ''ENABLED'')) then
       bindE (dax_cluster_resources awsRegion awsPartition cluster clusterName clusterArn)
         (\<lambda>resources.
       Inr (dax1_failing_finding iso8601Time awsAccountId awsRegion awsPartition
              clusterName clusterArn resources))
     else
       bindE (dax_cluster_resources awsRegion awsPartition cluster clusterName clusterArn)
         (\<lambda>resources.
       Inr (dax1_passing_finding iso8601Time awsAccountId awsRegion awsPartition
              clusterName clusterArn resources)))))"

text \<open>The check: the clusters come from the cache accessor, \<open>iso8601Time\<close> from the clock.\<close>

definition dax_encryption_at_rest_check ::
  "provider \<Rightarrow> string \<Rightarrow> run_state \<Rightarrow> string \<Rightarrow> string \<Rightarrow> string \<Rightarrow> yields \<times> run_state" where
  "dax_encryption_at_rest_check dax_describe_clusters iso8601Time cache0
       awsAccountId awsRegion awsPartition =
     (case describe_clusters dax_describe_clusters cache0 of
        (Inl e, s) \<Rightarrow> (([], Some e), s)
      | (Inr response, s) \<Rightarrow>
          (case bindE (getitem response ''Clusters'') py_iter of
             Inl e \<Rightarrow> (([], Some e), s)
           | Inr clusters \<Rightarrow>
               for_each
                 (\<lambda>cluster s'.
                    (yield1 (dax_encryption_at_rest_cluster iso8601Time awsAccountId awsRegion
                               awsPartition cluster), s'))
                 clusters s))"

subsection \<open>[DAX.2] \<open>dax_encryption_in_transit_check\<close>\<close>

definition dax2_remediation :: pyval where
  "dax2_remediation =
     PDict [(''Recommendation'', PDict [
       (''Text'', PStr ''Encryption in transit cannot be enabled on an existing DAX cluster. To use encryption in transit in an existing DAX application, create a new cluster with encryption in transit enabled, shift your application's traffic to it, then delete the old cluster. For more information on DAX encryption in transit refer to the DAX encryption in transit section of the Amazon DynamoDB Developer Guide''),
       (''Url'', PStr ''https://docs.aws.amazon.com/amazondynamodb/latest/developerguide/DAXEncryptionInTransit.html'')
     ])]"

definition dax2_related_requirements :: pyval where
  "dax2_related_requirements =
     PList [
       PStr ''NIST CSF PR.DS-2'',
       PStr ''NIST SP 800-53 SC-8'',
       PStr ''NIST SP 800-53 SC-11'',
       PStr ''NIST SP 800-53 SC-12'',
       PStr ''AICPA TSC CC6.1'',
       PStr ''ISO 27001:2013 A.8.2.3'',
       PStr ''ISO 27001:2013 A.13.1.1'',
       PStr ''ISO 27001:2013 A.13.2.1'',
       PStr ''ISO 27001:2013 A.13.2.3'',
       PStr ''ISO 27001:2013 A.14.1.2'',
       PStr ''ISO 27001:2013 A.14.1.3''
     ]"

definition dax2_failing_finding ::
  "string \<Rightarrow> string \<Rightarrow> string \<Rightarrow> string \<Rightarrow> pyval \<Rightarrow> pyval \<Rightarrow> pyval \<Rightarrow> pyval" where
  "dax2_failing_finding iso8601Time awsAccountId awsRegion awsPartition
       clusterName clusterArn resources =
     PDict [
       (''SchemaVersion'', PStr ''2018-10-08''),
       (''Id'', PStr (py_str clusterArn @ ''/dax-encryption-in-transit-check'')),
       (''ProductArn'', PStr (product_arn awsPartition awsRegion awsAccountId)),
       (''GeneratorId'', clusterArn),
       (''AwsAccountId'', PStr awsAccountId),
       (''Types'', PList [PStr ''Software and Configuration Checks/AWS Security Best Practices'']),
       (''FirstObservedAt'', PStr iso8601Time),
       (''CreatedAt'', PStr iso8601Time),
       (''UpdatedAt'', PStr iso8601Time),
       (''Severity'', PDict [(''Label'', PStr ''HIGH'')]),
       (''Confidence'', PInt 99),
       (''Title'', PStr ''[DAX.2] DynamoDB Accelerator (DAX) clusters should enforce encryption in transit''),
       (''Description'', PStr (''DynamoDB Accelerator (DAX) cluster '' @ py_str clusterName @ '' does not enforce encryption in transit. Amazon DynamoDB Accelerator (DAX) supports encryption in transit of data between your application and your DAX cluster, enabling you to use DAX in applications with stringent encryption requirements. Regardless of whether or not you choose encryption in transit, traffic between your application and your DAX cluster remains in your Amazon VPC. DAX encryption in transit adds to this baseline level of confidentiality, ensuring that all requests and responses between the application and the cluster are encrypted by transport level security (TLS), and connections to the cluster can be authenticated by verification of a cluster x509 certificate. Refer to the remediation instructions if this configuration is not intended.'')),
       (''Remediation'', dax2_remediation),
       (''ProductFields'', PDict [(''Product Name'', PStr ''ElectricEye'')]),
       (''Resources'', resources),
       (''Compliance'', PDict [
         (''Status'', PStr ''FAILED''),
         (''RelatedRequirements'', dax2_related_requirements)
       ]),
       (''Workflow'', PDict [(''Status'', PStr ''NEW'')]),
       (''RecordState'', PStr ''ACTIVE'')
     ]"

definition dax2_passing_finding ::
  "string \<Rightarrow> string \<Rightarrow> string \<Rightarrow> string \<Rightarrow> pyval \<Rightarrow> pyval \<Rightarrow> pyval \<Rightarrow> pyval" where
  "dax2_passing_finding iso8601Time awsAccountId awsRegion awsPartition
       clusterName clusterArn resources =
     PDict [
       (''SchemaVersion'', PStr ''2018-10-08''),
       (''Id'', PStr (py_str clusterArn @ ''/dax-encryption-in-transit-check'')),
       (''ProductArn'', PStr (product_arn awsPartition awsRegion awsAccountId)),
       (''GeneratorId'', clusterArn),
       (''AwsAccountId'', PStr awsAccountId),
       (''Types'', PList [PStr ''Software and Configuration Checks/AWS Security Best Practices'']),
       (''FirstObservedAt'', PStr iso8601Time),
       (''CreatedAt'', PStr iso8601Time),
       (''UpdatedAt'', PStr iso8601Time),
       (''Severity'', PDict [(''Label'', PStr ''INFORMATIONAL'')]),
       (''Confidence'', PInt 99),
       (''Title'', PStr ''[DAX.2] DynamoDB Accelerator (DAX) clusters should enforce encryption in transit''),
       (''Description'', PStr (''DynamoDB Accelerator (DAX) cluster '' @ py_str clusterName @ '' enforces encryption in transit.'')),
       (''Remediation'', dax2_remediation),
       (''ProductFields'', PDict [(''Product Name'', PStr ''ElectricEye'')]),
       (''Resources'', resources),
       (''Compliance'', PDict [
         (''Status'', PStr ''PASSED''),
         (''RelatedRequirements'', dax2_related_requirements)
       ]),
       (''Workflow'', PDict [(''Status'', PStr ''RESOLVED'')]),
       (''RecordState'', PStr ''ARCHIVED'')
     ]"

definition dax_encryption_in_transit_cluster ::
  "string \<Rightarrow> string \<Rightarrow> string \<Rightarrow> string \<Rightarrow> pyval \<Rightarrow> error + pyval" where
  "dax_encryption_in_transit_cluster iso8601Time awsAccountId awsRegion awsPartition cluster =
     bindE (getitem cluster ''ClusterName'') (\<lambda>clusterName.
     bindE (getitem cluster ''ClusterArn'') (\<lambda>clusterArn.
     bindE (getitem cluster ''ClusterEndpointEncryptionType'') (\<lambda>encryptionType.
     if py_eq encryptionType (PStr ''NONE'') then
       bindE (dax_cluster_resources awsRegion awsPartition cluster clusterName clusterArn)
         (\<lambda>resources.
       Inr (dax2_failing_finding iso8601Time awsAccountId awsRegion awsPartition
              clusterName clusterArn resources))
     else
       bindE (dax_cluster_resources awsRegion awsPartition cluster clusterName clusterArn)
         (\<lambda>resources.
       Inr (dax2_passing_finding iso8601Time awsAccountId awsRegion awsPartition
              clusterName clusterArn resources)))))"

definition dax_encryption_in_transit_check ::
  "provider \<Rightarrow> string \<Rightarrow> run_state \<Rightarrow> string \<Rightarrow> string \<Rightarrow> string \<Rightarrow> yields \<times> run_state" where
  "dax_encryption_in_transit_check dax_describe_clusters iso8601Time cache0
       awsAccountId awsRegion awsPartition =
     (case describe_clusters dax_describe_clusters cache0 of
        (Inl e, s) \<Rightarrow> (([], Some e), s)
      | (Inr response, s) \<Rightarrow>
          (case bindE (getitem response ''Clusters'') py_iter of
             Inl e \<Rightarrow> (([], Some e), s)
           | Inr clusters \<Rightarrow>
               for_each
                 (\<lambda>cluster s'.
                    (yield1 (dax_encryption_in_transit_cluster iso8601Time awsAccountId awsRegion
                               awsPartition cluster), s'))
                 clusters s))"

section \<open>Attack surface auditor (EC2 and ELBv2)\<close>

text \<open>
  Outside the repository: the nmap3 scanner \<open>nmap_tcp_scan(host, args)\<close>, and
  \<open>parse(text).isoformat()\<close> of dateutil, here \<open>parse_isoformat\<close>. Both are parameters
  of the checks and both may raise.
\<close>

type_synonym scanner = "pyval \<Rightarrow> string \<Rightarrow> error + pyval"

text \<open>\<open>scan_host\<close>: a \<open>KeyError\<close> of the scan gives \<open>None\<close>, any other exception goes on.\<close>

definition scan_host ::
  "scanner \<Rightarrow> pyval \<Rightarrow> string \<Rightarrow> run_state \<Rightarrow> (error + pyval) \<times> run_state" where
  "scan_host nmap_tcp_scan host_ip instance_id s =
     (case nmap_tcp_scan host_ip
             ''-Pn -p 21,22,23,25,80,110,139,445,3389,1433,3306,2049,2375,1521,5432,5601,8182,8080,8089,10250,6379,9092,27017,5672,4040'' of
        Inr results \<Rightarrow>
          (Inr results,
           s\<lparr>stdout := stdout s @
               [''Scanning EC2 instance '' @ instance_id @ '' on '' @ py_str host_ip]\<rparr>)
      | Inl (KeyError k) \<Rightarrow> (Inr PNone, s)
      | Inl e \<Rightarrow> (Inl e, s))"

text \<open>The service name of a scanned port, the same \<open>if\<close> chain in both checks.\<close>

definition service_name :: "int \<Rightarrow> pyval \<Rightarrow> error + string" where
  "service_name portNumber p =
     (if portNumber = 8089 then Inr ''SPLUNKD''
      else if portNumber = 10250 then Inr ''KUBERNETES-API''
      else if portNumber = 5672 then Inr ''RABBITMQ''
      else if portNumber = 4040 then Inr ''SPARK-WEBUI''
      else bindE (bindE (getitem p ''service'') (\<lambda>service. getitem service ''name''))
             (\<lambda>name. Inr (upper (py_str name))))"

definition attack_surface_related_requirements :: pyval where
  "attack_surface_related_requirements =
     PList [
       PStr ''NIST CSF PR.AC-3'',
       PStr ''NIST SP 800-53 AC-1'',
       PStr ''NIST SP 800-53 AC-17'',
       PStr ''NIST SP 800-53 AC-19'',
       PStr ''NIST SP 800-53 AC-20'',
       PStr ''NIST SP 800-53 SC-15'',
       PStr ''AICPA TSC CC6.6'',
       PStr ''ISO 27001:2013 A.6.2.1'',
       PStr ''ISO 27001:2013 A.6.2.2'',
       PStr ''ISO 27001:2013 A.11.2.6'',
       PStr ''ISO 27001:2013 A.13.1.1'',
       PStr ''ISO 27001:2013 A.13.2.1''
     ]"

subsection \<open>\<open>ec2_attack_surface_open_tcp_port_check\<close>\<close>

text \<open>The attributes of one instance that every finding of the instance carries.\<close>

record ec2_instance_info =
  instanceId :: string
  instanceArn :: string
  instanceType :: string
  instanceImage :: string
  subnetId :: string
  vpcId :: string
  instanceLaunchedAt :: string

definition ec2_remediation :: pyval where
  "ec2_remediation =
     PDict [(''Recommendation'', PDict [
       (''Text'', PStr ''EC2 Instances should only have the minimum necessary ports open to achieve their purposes, allow traffic from authorized sources, and use other defense-in-depth and hardening strategies. For a basic view on traffic authorization into your instances refer to the Authorize inbound traffic for your Linux instances section of the Amazon Elastic Compute Cloud User Guide''),
       (''Url'', PStr ''https://docs.aws.amazon.com/AWSEC2/latest/UserGuide/authorizing-access-to-an-instance.html'')
     ])]"

definition ec2_resources :: "string \<Rightarrow> string \<Rightarrow> ec2_instance_info \<Rightarrow> string \<Rightarrow> pyval" where
  "ec2_resources awsRegion awsPartition inst launchedAt =
     PList [
       PDict [
         (''Type'', PStr ''AwsEc2Instance''),
         (''Id'', PStr (instanceArn inst)),
         (''Partition'', PStr awsPartition),
         (''Region'', PStr awsRegion),
         (''Details'', PDict [
           (''AwsEc2Instance'', PDict [
             (''Type'', PStr (instanceType inst)),
             (''ImageId'', PStr (instanceImage inst)),
             (''VpcId'', PStr (vpcId inst)),
             (''SubnetId'', PStr (subnetId inst)),
             (''LaunchedAt'', PStr launchedAt)
           ])
         ])
       ]
     ]"

definition ec2_failing_finding ::
  "string \<Rightarrow> string \<Rightarrow> string \<Rightarrow> string \<Rightarrow> ec2_instance_info \<Rightarrow> string \<Rightarrow> int \<Rightarrow> string
     \<Rightarrow> string \<Rightarrow> pyval" where
  "ec2_failing_finding iso8601Time awsAccountId awsRegion awsPartition inst
       checkIdNumber portNumber serviceName launchedAt =
     PDict [
       (''SchemaVersion'', PStr ''2018-10-08''),
       (''Id'', PStr (instanceArn inst @ ''/attack-surface-ec2-open-'' @ serviceName @ ''-check'')),
       (''ProductArn'', PStr (product_arn awsPartition awsRegion awsAccountId)),
       (''GeneratorId'', PStr (instanceArn inst)),
       (''AwsAccountId'', PStr awsAccountId),
       (''Types'', PList [
         PStr ''Software and Configuration Checks/AWS Security Best Practices/Network Reachability'',
         PStr ''TTPs/Discovery''
       ]),
       (''FirstObservedAt'', PStr iso8601Time),
       (''CreatedAt'', PStr iso8601Time),
       (''UpdatedAt'', PStr iso8601Time),
       (''Severity'', PDict [(''Label'', PStr ''HIGH'')]),
       (''Confidence'', PInt 99),
       (''Title'', PStr (''[AttackSurface.EC2.'' @ checkIdNumber @ ''] EC2 Instances should not be publicly reachable on '' @ serviceName)),
       (''Description'', PStr (''EC2 instance '' @ instanceId inst @ '' is publicly reachable on port '' @ str_int portNumber @ '' which corresponds to the '' @ serviceName @ '' service. When Services are successfully fingerprinted by the ElectricEye Attack Surface Management Auditor it means the instance is Public, has an open Secuirty Group rule, and a running service on the host which adversaries can also see. Refer to the remediation insturctions for an example of a way to secure EC2 instances.'')),
       (''Remediation'', ec2_remediation),
       (''ProductFields'', PDict [(''Product Name'', PStr ''ElectricEye'')]),
       (''Resources'', ec2_resources awsRegion awsPartition inst launchedAt),
       (''Compliance'', PDict [
         (''Status'', PStr ''FAILED''),
         (''RelatedRequirements'', attack_surface_related_requirements)
       ]),
       (''Workflow'', PDict [(''Status'', PStr ''NEW'')]),
       (''RecordState'', PStr ''ACTIVE'')
     ]"

definition ec2_passing_finding ::
  "string \<Rightarrow> string \<Rightarrow> string \<Rightarrow> string \<Rightarrow> ec2_instance_info \<Rightarrow> string \<Rightarrow> int \<Rightarrow> string
     \<Rightarrow> string \<Rightarrow> string \<Rightarrow> pyval" where
  "ec2_passing_finding iso8601Time awsAccountId awsRegion awsPartition inst
       checkIdNumber portNumber serviceName serviceStateReason launchedAt =
     PDict [
       (''SchemaVersion'', PStr ''2018-10-08''),
       (''Id'', PStr (instanceArn inst @ ''/attack-surface-ec2-open-'' @ serviceName @ ''-check'')),
       (''ProductArn'', PStr (product_arn awsPartition awsRegion awsAccountId)),
       (''GeneratorId'', PStr (instanceArn inst)),
       (''AwsAccountId'', PStr awsAccountId),
       (''Types'', PList [
         PStr ''Software and Configuration Checks/AWS Security Best Practices/Network Reachability'',
         PStr ''TTPs/Discovery''
       ]),
       (''FirstObservedAt'', PStr iso8601Time),
       (''CreatedAt'', PStr iso8601Time),
       (''UpdatedAt'', PStr iso8601Time),
       (''Severity'', PDict [(''Label'', PStr ''INFORMATIONAL'')]),
       (''Confidence'', PInt 99),
       (''Title'', PStr (''[AttackSurface.EC2.'' @ checkIdNumber @ ''] EC2 Instances should not be publicly reachable on '' @ serviceName)),
       (''Description'', PStr (''EC2 instance '' @ instanceId inst @ '' is not publicly reachable on port '' @ str_int portNumber @ '' which corresponds to the '' @ serviceName @ '' service due to '' @ serviceStateReason @ ''. Instances and their respective Security Groups should still be reviewed for minimum necessary access.'')),
       (''Remediation'', ec2_remediation),
       (''ProductFields'', PDict [(''Product Name'', PStr ''ElectricEye'')]),
       (''Resources'', ec2_resources awsRegion awsPartition inst launchedAt),
       (''Compliance'', PDict [
         (''Status'', PStr ''PASSED''),
         (''RelatedRequirements'', attack_surface_related_requirements)
       ]),
       (''Workflow'', PDict [(''Status'', PStr ''RESOLVED'')]),
       (''RecordState'', PStr ''ARCHIVED'')
     ]"

text \<open>The body of the loop over the scanned ports, for the port \<open>p\<close> at position \<open>index\<close>.\<close>

definition ec2_open_tcp_port ::
  "(string \<Rightarrow> error + string) \<Rightarrow> string \<Rightarrow> string \<Rightarrow> string \<Rightarrow> string \<Rightarrow> ec2_instance_info
     \<Rightarrow> nat \<times> pyval \<Rightarrow> error + pyval" where
  "ec2_open_tcp_port parse_isoformat iso8601Time awsAccountId awsRegion awsPartition inst ip =
     (case ip of (index, p) \<Rightarrow>
       (let checkIdNumber = str_int (int index + 1) in
        bindE (bindE (getitem p ''portid'') py_int) (\<lambda>portNumber.
        bindE (service_name portNumber p) (\<lambda>serviceName.
        bindE (getitem p ''reason'') (\<lambda>reason.
        bindE (getitem p ''state'') (\<lambda>state.
        let serviceStateReason = py_str reason; serviceState = py_str state in
        if serviceState = ''open'' then
          bindE (parse_isoformat (instanceLaunchedAt inst)) (\<lambda>launchedAt.
          Inr (ec2_failing_finding iso8601Time awsAccountId awsRegion awsPartition inst
                 checkIdNumber portNumber serviceName launchedAt))
        else
          bindE (parse_isoformat (instanceLaunchedAt inst)) (\<lambda>launchedAt.
          Inr (ec2_passing_finding iso8601Time awsAccountId awsRegion awsPartition inst
                 checkIdNumber portNumber serviceName serviceStateReason launchedAt))))))))"

text \<open>The launch time: the attach time of the first block device, or on a \<open>KeyError\<close>
  the \<open>LaunchTime\<close> of the instance.\<close>

definition ec2_launched_at :: "pyval \<Rightarrow> error + string" where
  "ec2_launched_at i =
     (case bindE (getitem i ''BlockDeviceMappings'') (\<lambda>mappings.
           bindE (subscript mappings (PInt 0)) (\<lambda>mapping.
           bindE (getitem mapping ''Ebs'') (\<lambda>ebs. getitem ebs ''AttachTime''))) of
        Inr attachTime \<Rightarrow> Inr (py_str attachTime)
      | Inl (KeyError k) \<Rightarrow> bindE (getitem i ''LaunchTime'') (\<lambda>t. Inr (py_str t))
      | Inl e \<Rightarrow> Inl e)"

definition ec2_instance_attributes ::
  "string \<Rightarrow> string \<Rightarrow> string \<Rightarrow> pyval \<Rightarrow> error + ec2_instance_info" where
  "ec2_instance_attributes awsAccountId awsRegion awsPartition i =
     bindE (getitem i ''InstanceId'') (\<lambda>iid.
     bindE (getitem i ''InstanceType'') (\<lambda>itype.
     bindE (getitem i ''ImageId'') (\<lambda>image.
     bindE (getitem i ''SubnetId'') (\<lambda>subnet.
     bindE (getitem i ''VpcId'') (\<lambda>vpc.
     bindE (ec2_launched_at i) (\<lambda>launched.
     Inr \<lparr>instanceId = py_str iid,
          instanceArn = ''arn:'' @ awsPartition @ '':ec2:'' @ awsRegion @ '':'' @ awsAccountId
                          @ '':instance/'' @ py_str iid,
          instanceType = py_str itype,
          instanceImage = py_str image,
          subnetId = py_str subnet,
          vpcId = py_str vpc,
          instanceLaunchedAt = launched\<rparr>))))))"

text \<open>The body of the loop over the instances. A missing \<open>PublicIpAddress\<close> and a
  \<open>None\<close> address or scan result skip the instance.\<close>

definition ec2_instance ::
  "scanner \<Rightarrow> (string \<Rightarrow> error + string) \<Rightarrow> string \<Rightarrow> string \<Rightarrow> string \<Rightarrow> string
     \<Rightarrow> pyval \<Rightarrow> run_state \<Rightarrow> yields \<times> run_state" where
  "ec2_instance nmap_tcp_scan parse_isoformat iso8601Time awsAccountId awsRegion awsPartition i s =
     (case ec2_instance_attributes awsAccountId awsRegion awsPartition i of
        Inl e \<Rightarrow> (([], Some e), s)
      | Inr inst \<Rightarrow>
          (case getitem i ''PublicIpAddress'' of
             Inl (KeyError k) \<Rightarrow> (([], None), s)
           | Inl e \<Rightarrow> (([], Some e), s)
           | Inr hostIp \<Rightarrow>
               if py_eq hostIp (py_or (PStr []) PNone) then (([], None), s)
               else
                 (case scan_host nmap_tcp_scan hostIp (instanceId inst) s of
                    (Inl e, s') \<Rightarrow> (([], Some e), s')
                  | (Inr scanner, s') \<Rightarrow>
                      if py_eq scanner PNone then (([], None), s')
                      else
                        (case bindE (bindE (subscript scanner hostIp)
                                       (\<lambda>host. getitem host ''ports'')) py_iter of
                           Inl e \<Rightarrow> (([], Some e), s')
                         | Inr ports \<Rightarrow>
                             for_each
                               (\<lambda>ip s''.
                                  (yield1 (ec2_open_tcp_port parse_isoformat iso8601Time
                                             awsAccountId awsRegion awsPartition inst ip), s''))
                               (enumerate 0 ports) s'))))"

definition ec2_attack_surface_open_tcp_port_check ::
  "(nat \<Rightarrow> error + pyval list) option \<Rightarrow> scanner \<Rightarrow> (string \<Rightarrow> error + string) \<Rightarrow> string
     \<Rightarrow> run_state \<Rightarrow> string \<Rightarrow> string \<Rightarrow> string \<Rightarrow> yields \<times> run_state" where
  "ec2_attack_surface_open_tcp_port_check paginator nmap_tcp_scan parse_isoformat iso8601Time
       cache0 awsAccountId awsRegion awsPartition =
     (case ec2_paginate paginator cache0 of
        (Inl e, s) \<Rightarrow> (([], Some e), s)
      | (Inr instances, s) \<Rightarrow>
          (case py_iter instances of
             Inl e \<Rightarrow> (([], Some e), s)
           | Inr is \<Rightarrow>
               for_each
                 (ec2_instance nmap_tcp_scan parse_isoformat iso8601Time
                    awsAccountId awsRegion awsPartition)
                 is s))"

subsection \<open>\<open>elbv2_attack_surface_open_tcp_port_check\<close>\<close>

record elbv2_info =
  elbv2Arn :: string
  elbv2Name :: string
  elbv2DnsName :: string
  elbv2LbType :: string
  elbv2Scheme :: string
  elbv2VpcId :: string
  elbv2IpAddressType :: string

definition elbv2_remediation :: pyval where
  "elbv2_remediation =
     PDict [(''Recommendation'', PDict [
       (''Text'', PStr ''For more information on ALB security group reccomendations refer to the Security groups for your Application Load Balancer section of the Application Load Balancers User Guide.''),
       (''Url'', PStr ''https://docs.aws.amazon.com/elasticloadbalancing/latest/application/load-balancer-update-security-groups.html#security-group-recommended-rules'')
     ])]"

definition elbv2_resources :: "string \<Rightarrow> string \<Rightarrow> elbv2_info \<Rightarrow> pyval" where
  "elbv2_resources awsRegion awsPartition lb =
     PList [
       PDict [
         (''Type'', PStr ''AwsElbv2LoadBalancer''),
         (''Id'', PStr (elbv2Arn lb)),
         (''Partition'', PStr awsPartition),
         (''Region'', PStr awsRegion),
         (''Details'', PDict [
           (''AwsElbv2LoadBalancer'', PDict [
             (''DNSName'', PStr (elbv2DnsName lb)),
             (''IpAddressType'', PStr (elbv2IpAddressType lb)),
             (''Scheme'', PStr (elbv2Scheme lb)),
             (''Type'', PStr (elbv2LbType lb)),
             (''VpcId'', PStr (elbv2VpcId lb))
           ])
         ])
       ]
     ]"

definition elbv2_failing_finding ::
  "string \<Rightarrow> string \<Rightarrow> string \<Rightarrow> string \<Rightarrow> elbv2_info \<Rightarrow> string \<Rightarrow> int \<Rightarrow> string \<Rightarrow> pyval" where
  "elbv2_failing_finding iso8601Time awsAccountId awsRegion awsPartition lb
       checkIdNumber portNumber serviceName =
     PDict [
       (''SchemaVersion'', PStr ''2018-10-08''),
       (''Id'', PStr (elbv2Arn lb @ ''/attack-surface-elbv2-open-'' @ serviceName @ ''-check'')),
       (''ProductArn'', PStr (product_arn awsPartition awsRegion awsAccountId)),
       (''GeneratorId'', PStr (elbv2Arn lb)),
       (''AwsAccountId'', PStr awsAccountId),
       (''Types'', PList [
         PStr ''Software and Configuration Checks/AWS Security Best Practices/Network Reachability'',
         PStr ''TTPs/Discovery''
       ]),
       (''FirstObservedAt'', PStr iso8601Time),
       (''CreatedAt'', PStr iso8601Time),
       (''UpdatedAt'', PStr iso8601Time),
       (''Severity'', PDict [(''Label'', PStr ''HIGH'')]),
       (''Confidence'', PInt 99),
       (''Title'', PStr (''[AttackSurface.ELBv2.'' @ checkIdNumber @ ''] Application Load Balancers should not be publicly reachable on '' @ serviceName)),
       (''Description'', PStr (''Application load balancer '' @ elbv2Name lb @ '' is publicly reachable on port '' @ str_int portNumber @ '' which corresponds to the '' @ serviceName @ '' service. When Services are successfully fingerprinted by the ElectricEye Attack Surface Management Auditor it means the instance is Public, has an open Secuirty Group rule, and a running service on the host which adversaries can also see. Refer to the remediation insturctions for an example of a way to secure EC2 instances.'')),
       (''Remediation'', elbv2_remediation),
       (''ProductFields'', PDict [(''Product Name'', PStr ''ElectricEye'')]),
       (''Resources'', elbv2_resources awsRegion awsPartition lb),
       (''Compliance'', PDict [
         (''Status'', PStr ''FAILED''),
         (''RelatedRequirements'', attack_surface_related_requirements)
       ]),
       (''Workflow'', PDict [(''Status'', PStr ''NEW'')]),
       (''RecordState'', PStr ''ACTIVE'')
     ]"

definition elbv2_passing_finding ::
  "string \<Rightarrow> string \<Rightarrow> string \<Rightarrow> string \<Rightarrow> elbv2_info \<Rightarrow> string \<Rightarrow> int \<Rightarrow> string \<Rightarrow> string
     \<Rightarrow> pyval" where
  "elbv2_passing_finding iso8601Time awsAccountId awsRegion awsPartition lb
       checkIdNumber portNumber serviceName serviceStateReason =
     PDict [
       (''SchemaVersion'', PStr ''2018-10-08''),
       (''Id'', PStr (elbv2Arn lb @ ''/attack-surface-elbv2-open-'' @ serviceName @ ''-check'')),
       (''ProductArn'', PStr (product_arn awsPartition awsRegion awsAccountId)),
       (''GeneratorId'', PStr (elbv2Arn lb)),
       (''AwsAccountId'', PStr awsAccountId),
       (''Types'', PList [
         PStr ''Software and Configuration Checks/AWS Security Best Practices/Network Reachability'',
         PStr ''TTPs/Discovery''
       ]),
       (''FirstObservedAt'', PStr iso8601Time),
       (''CreatedAt'', PStr iso8601Time),
       (''UpdatedAt'', PStr iso8601Time),
       (''Severity'', PDict [(''Label'', PStr ''INFORMATIONAL'')]),
       (''Confidence'', PInt 99),
       (''Title'', PStr (''[AttackSurface.ELBv2.'' @ checkIdNumber @ ''] Application Load Balancers should not be publicly reachable on '' @ serviceName)),
       (''Description'', PStr (''Application load balancer '' @ elbv2Name lb @ '' is not publicly reachable on port '' @ str_int portNumber @ '' which corresponds to the '' @ serviceName @ '' service due to '' @ serviceStateReason @ ''. ALBs and their respective Security Groups should still be reviewed for minimum necessary access.'')),
       (''Remediation'', elbv2_remediation),
       (''ProductFields'', PDict [(''Product Name'', PStr ''ElectricEye'')]),
       (''Resources'', elbv2_resources awsRegion awsPartition lb),
       (''Compliance'', PDict [
         (''Status'', PStr ''PASSED''),
         (''RelatedRequirements'', attack_surface_related_requirements)
       ]),
       (''Workflow'', PDict [(''Status'', PStr ''RESOLVED'')]),
       (''RecordState'', PStr ''ARCHIVED'')
     ]"

definition elbv2_open_tcp_port ::
  "string \<Rightarrow> string \<Rightarrow> string \<Rightarrow> string \<Rightarrow> elbv2_info \<Rightarrow> nat \<times> pyval \<Rightarrow> error + pyval" where
  "elbv2_open_tcp_port iso8601Time awsAccountId awsRegion awsPartition lb ip =
     (case ip of (index, p) \<Rightarrow>
       (let checkIdNumber = str_int (int index + 1) in
        bindE (bindE (getitem p ''portid'') py_int) (\<lambda>portNumber.
        bindE (service_name portNumber p) (\<lambda>serviceName.
        bindE (getitem p ''reason'') (\<lambda>reason.
        bindE (getitem p ''state'') (\<lambda>state.
        let serviceStateReason = py_str reason; serviceState = py_str state in
        if serviceState = ''open'' then
          Inr (elbv2_failing_finding iso8601Time awsAccountId awsRegion awsPartition lb
                 checkIdNumber portNumber serviceName)
        else
          Inr (elbv2_passing_finding iso8601Time awsAccountId awsRegion awsPartition lb
                 checkIdNumber portNumber serviceName serviceStateReason)))))))"

definition elbv2_attributes :: "pyval \<Rightarrow> error + elbv2_info" where
  "elbv2_attributes lb =
     bindE (getitem lb ''LoadBalancerArn'') (\<lambda>arn.
     bindE (getitem lb ''LoadBalancerName'') (\<lambda>name.
     bindE (getitem lb ''DNSName'') (\<lambda>dns.
     bindE (getitem lb ''Type'') (\<lambda>lbType.
     bindE (getitem lb ''Scheme'') (\<lambda>scheme.
     bindE (getitem lb ''VpcId'') (\<lambda>vpc.
     bindE (getitem lb ''IpAddressType'') (\<lambda>ipType.
     Inr \<lparr>elbv2Arn = py_str arn,
          elbv2Name = py_str name,
          elbv2DnsName = py_str dns,
          elbv2LbType = py_str lbType,
          elbv2Scheme = py_str scheme,
          elbv2VpcId = py_str vpc,
          elbv2IpAddressType = py_str ipType\<rparr>)))))))"

text \<open>\<open>list(scanner.keys())[0]\<close>: only a dictionary has \<open>keys\<close>.\<close>

definition first_key :: "pyval \<Rightarrow> error + pyval" where
  "first_key scanner =
     (case scanner of
        PDict d \<Rightarrow> list_index (map (\<lambda>kv. PStr (fst kv)) d) 0
      | _ \<Rightarrow> Inl AttributeError)"

definition elbv2_load_balancer ::
  "scanner \<Rightarrow> string \<Rightarrow> string \<Rightarrow> string \<Rightarrow> string \<Rightarrow> pyval \<Rightarrow> run_state
     \<Rightarrow> yields \<times> run_state" where
  "elbv2_load_balancer nmap_tcp_scan iso8601Time awsAccountId awsRegion awsPartition lb0 s =
     (case elbv2_attributes lb0 of
        Inl e \<Rightarrow> (([], Some e), s)
      | Inr lb \<Rightarrow>
          if elbv2Scheme lb = ''internet-facing'' \<and> elbv2LbType lb = ''application'' then
            (case scan_host nmap_tcp_scan (PStr (elbv2DnsName lb)) (elbv2Name lb) s of
               (Inl e, s') \<Rightarrow> (([], Some e), s')
             | (Inr scanner, s') \<Rightarrow>
                 if py_eq scanner PNone then (([], None), s')
                 else
                   (case bindE (first_key scanner) (\<lambda>hostIp.
                         bindE (bindE (subscript scanner hostIp)
                                  (\<lambda>host. getitem host ''ports'')) py_iter) of
                      Inl e \<Rightarrow> (([], Some e), s')
                    | Inr ports \<Rightarrow>
                        for_each
                          (\<lambda>ip s''.
                             (yield1 (elbv2_open_tcp_port iso8601Time awsAccountId awsRegion
                                        awsPartition lb ip), s''))
                          (enumerate 0 ports) s'))
          else (([], None), s))"

definition elbv2_attack_surface_open_tcp_port_check ::
  "provider \<Rightarrow> scanner \<Rightarrow> string \<Rightarrow> run_state \<Rightarrow> string \<Rightarrow> string \<Rightarrow> string
     \<Rightarrow> yields \<times> run_state" where
  "elbv2_attack_surface_open_tcp_port_check elbv2_describe_load_balancers nmap_tcp_scan
       iso8601Time cache0 awsAccountId awsRegion awsPartition =
     (case describe_load_balancers elbv2_describe_load_balancers cache0 of
        (Inl e, s) \<Rightarrow> (([], Some e), s)
      | (Inr response, s) \<Rightarrow>
          (case bindE (getitem response ''LoadBalancers'') py_iter of
             Inl e \<Rightarrow> (([], Some e), s)
           | Inr lbs \<Rightarrow>
               for_each
                 (elbv2_load_balancer nmap_tcp_scan iso8601Time awsAccountId awsRegion
                    awsPartition)
                 lbs s))"

section \<open>VPC flow logs playbook\<close>

subsection \<open>\<open>json.dumps\<close> and \<open>str.replace\<close>\<close>

definition json_char :: "char \<Rightarrow> string" where
  "json_char c =
     (if c = CHR 0x22 then [CHR 0x5C, CHR 0x22]
      else if c = CHR 0x5C then [CHR 0x5C, CHR 0x5C]
      else if c = CHR 0x0A then [CHR 0x5C, CHR ''n'']
      else if c = CHR 0x0D then [CHR 0x5C, CHR ''r'']
      else if c = CHR 0x09 then [CHR 0x5C, CHR ''t'']
      else if c = CHR 0x08 then [CHR 0x5C, CHR ''b'']
      else if c = CHR 0x0C then [CHR 0x5C, CHR ''f'']
      else if (of_char c :: nat) < 32 \<or> 126 < (of_char c :: nat)
        then [CHR 0x5C, CHR ''u'', CHR ''0'', CHR ''0''] @ hex2 (of_char c)
      else [c])"

definition json_string :: "string \<Rightarrow> string" where
  "json_string s = [CHR 0x22] @ concat (map json_char s) @ [CHR 0x22]"

primrec json_dumps :: "pyval \<Rightarrow> string" where
  "json_dumps PNone = ''null''"
| "json_dumps (PBool b) = (if b then ''true'' else ''false'')"
| "json_dumps (PInt i) = str_int i"
| "json_dumps (PStr s) = json_string s"
| "json_dumps (PList xs) = ''['' @ join '', '' (map json_dumps xs) @ '']''"
| "json_dumps (PDict d) =
     ''{'' @ join '', '' (map (\<lambda>kr. json_string (fst kr) @ '': '' @ snd kr)
                              (map (map_prod id json_dumps) d)) @ ''}''"

text \<open>\<open>s.replace(old, new)\<close>: every occurrence, left to right, without overlap. The
  playbook only replaces a non-empty \<open>old\<close>.\<close>

function str_replace :: "string \<Rightarrow> string \<Rightarrow> string \<Rightarrow> string" where
  "str_replace old new [] = []"
| "str_replace old new (c # cs) =
     (if old \<noteq> [] \<and> take (length old) (c # cs) = old
      then new @ str_replace old new (drop (length old) (c # cs))
      else c # str_replace old new cs)"
  by pat_completeness auto
termination
  by (relation "measure (\<lambda>(old, new, s). length s)") auto

subsection \<open>Effects of the handler\<close>

text \<open>
  A boto3 client is a service name with the credentials it was created with: the ambient
  identity of the function, or the access key, secret key and session token passed to
  \<open>boto3.client\<close>. The handler's effects are kept as a trace, oldest first: requests
  sent through a client, values printed, and sleeps.
\<close>

datatype credentials = Ambient | Session pyval pyval pyval

datatype client = Client string credentials

datatype event =
    Called client string pyval
  | Printed "error + pyval"
  | Slept nat

text \<open>The services answer a request; the answer may depend on everything that happened
  before.\<close>

type_synonym world = "event list \<Rightarrow> client \<Rightarrow> string \<Rightarrow> pyval \<Rightarrow> error + pyval"

type_synonym 'a action = "event list \<Rightarrow> (error + 'a) \<times> event list"

definition returnS :: "'a \<Rightarrow> 'a action" where
  "returnS v tr = (Inr v, tr)"

definition liftE :: "error + 'a \<Rightarrow> 'a action" where
  "liftE r tr = (r, tr)"

definition bindS :: "'a action \<Rightarrow> ('a \<Rightarrow> 'b action) \<Rightarrow> 'b action" where
  "bindS m f tr = (case m tr of (Inl e, tr') \<Rightarrow> (Inl e, tr') | (Inr v, tr') \<Rightarrow> f v tr')"

definition invoke :: "world \<Rightarrow> client \<Rightarrow> string \<Rightarrow> pyval \<Rightarrow> pyval action" where
  "invoke aws c operation kwargs tr = (aws tr c operation kwargs, tr @ [Called c operation kwargs])"

definition print_value :: "pyval \<Rightarrow> unit action" where
  "print_value v tr = (Inr (), tr @ [Printed (Inr v)])"

definition sleep :: "nat \<Rightarrow> unit action" where
  "sleep n tr = (Inr (), tr @ [Slept n])"

text \<open>\<open>try: ... except Exception as e: print(e); raise\<close>\<close>

definition try_print_raise :: "'a action \<Rightarrow> 'a action" where
  "try_print_raise m tr =
     (case m tr of
        (Inl e, tr') \<Rightarrow> (Inl e, tr' @ [Printed (Inl e)])
      | (Inr v, tr') \<Rightarrow> (Inr v, tr'))"

text \<open>\<open>try: ... except Exception as e: print(e)\<close>\<close>

definition try_print :: "unit action \<Rightarrow> unit action" where
  "try_print m tr =
     (case m tr of
        (Inl e, tr') \<Rightarrow> (Inr (), tr' @ [Printed (Inl e)])
      | (Inr v, tr') \<Rightarrow> (Inr (), tr'))"

fun for_do :: "('a \<Rightarrow> unit action) \<Rightarrow> 'a list \<Rightarrow> unit action" where
  "for_do body [] tr = (Inr (), tr)"
| "for_do body (x # xs) tr =
     (case body x tr of
        (Inl e, tr') \<Rightarrow> (Inl e, tr')
      | (Inr u, tr') \<Rightarrow> for_do body xs tr')"

subsection \<open>The two branches of \<open>lambda_handler\<close>\<close>

text \<open>The provisioning steps of the branch taken when the finding belongs to another
  account, given the clients that the branch created.\<close>

definition cross_account_pipeline ::
  "world \<Rightarrow> client \<Rightarrow> client \<Rightarrow> client \<Rightarrow> client \<Rightarrow> string \<Rightarrow> string \<Rightarrow> string \<Rightarrow> unit action" where
  "cross_account_pipeline aws logs iam ec2 securityhub lambdaFunctionName findingId vpcId' =
     bindS (try_print_raise
       (bindS (invoke aws logs ''create_log_group''
                 (PDict [(''logGroupName'', PStr (''VPCFlowLogs/'' @ vpcId'))])) (\<lambda>response.
        bindS (print_value response) (\<lambda>u.
        sleep 5)))) (\<lambda>u.
     bindS (try_print_raise
       (bindS (invoke aws logs ''describe_log_groups''
                 (PDict [(''logGroupNamePrefix'', PStr (''VPCFlowLogs/'' @ vpcId'))])) (\<lambda>response.
        bindS (liftE (bindE (getitem response ''logGroups'') (\<lambda>groups.
                      bindE (subscript groups (PInt 0)) (\<lambda>g. getitem g ''arn'')))) (\<lambda>arn.
        bindS (liftE (bindE (getitem response ''logGroups'') (\<lambda>groups.
                      bindE (subscript groups (PInt 0)) (\<lambda>g. getitem g ''logGroupName''))))
          (\<lambda>name.
        returnS (py_str arn, py_str name)))))) (\<lambda>(logGroupArn, logGroupName).
     let vpcFlowCwlPolicy = PDict [
           (''Version'', PStr ''2012-10-17''),
           (''Statement'', PList [
             PDict [
               (''Action'', PList [
                 PStr ''logs:CreateLogGroup'',
                 PStr ''logs:CreateLogStream'',
                 PStr ''logs:PutLogEvents'',
                 PStr ''logs:DescribeLogGroups'',
                 PStr ''logs:DescribeLogStreams''
               ]),
               (''Effect'', PStr ''Allow''),
               (''Resource'', PStr (logGroupArn @ ''*''))
             ]
           ])
         ];
         flowLogTrustPolicy = PDict [
           (''Version'', PStr ''2012-10-17''),
           (''Statement'', PList [
             PDict [
               (''Sid'', PStr []),
               (''Effect'', PStr ''Allow''),
               (''Principal'', PDict [(''Service'', PStr ''vpc-flow-logs.amazonaws.com'')]),
               (''Action'', PStr ''sts:AssumeRole'')
             ]
           ])
         ]
     in
     bindS (try_print_raise
       (bindS (invoke aws iam ''create_policy''
                 (PDict [
                   (''PolicyName'', PStr (''VPCFlowLogsPolicy-'' @ vpcId')),
                   (''PolicyDocument'', PStr (json_dumps vpcFlowCwlPolicy)),
                   (''Description'',
                      PStr (''Allows '' @ vpcId' @ '' to publish logs to CloudWatch''))
                 ])) (\<lambda>response.
        bindS (liftE (bindE (getitem response ''Policy'') (\<lambda>policy. getitem policy ''Arn'')))
          (\<lambda>arn.
        returnS (py_str arn))))) (\<lambda>cwlPolicyArn.
     bindS (try_print_raise
       (bindS (invoke aws iam ''create_role''
                 (PDict [
                   (''RoleName'', PStr (''VPCFlowLogsRole-'' @ vpcId')),
                   (''AssumeRolePolicyDocument'', PStr (json_dumps flowLogTrustPolicy)),
                   (''Description'',
                      PStr (''Allows '' @ vpcId' @ '' to publish logs to CloudWatch''))
                 ])) (\<lambda>response.
        bindS (liftE (bindE (getitem response ''Role'') (\<lambda>role. getitem role ''RoleName'')))
          (\<lambda>roleName.
        bindS (liftE (bindE (getitem response ''Role'') (\<lambda>role. getitem role ''Arn'')))
          (\<lambda>roleArn.
        returnS (py_str roleName, py_str roleArn)))))) (\<lambda>(cwlRoleName, cwlRoleArn).
     bindS (try_print_raise
       (bindS (invoke aws iam ''attach_role_policy''
                 (PDict [(''RoleName'', PStr cwlRoleName), (''PolicyArn'', PStr cwlPolicyArn)]))
          (\<lambda>response.
        print_value response))) (\<lambda>u.
     try_print_raise
       (bindS (invoke aws ec2 ''create_flow_logs''
                 (PDict [
                   (''DryRun'', PBool False),
                   (''DeliverLogsPermissionArn'', PStr cwlRoleArn),
                   (''LogGroupName'', PStr logGroupName),
                   (''ResourceIds'', PList [PStr vpcId']),
                   (''ResourceType'', PStr ''VPC''),
                   (''TrafficType'', PStr ''REJECT''),
                   (''LogDestinationType'', PStr ''cloud-watch-logs''),
                   (''MaxAggregationInterval'', PInt 60)
                 ])) (\<lambda>response.
        bindS (print_value response) (\<lambda>u.
        try_print
          (bindS (invoke aws securityhub ''update_findings''
                    (PDict [
                      (''Filters'', PDict [(''Id'', PList [
                         PDict [(''Value'', PStr findingId), (''Comparison'', PStr ''EQUALS'')]])]),
                      (''Note'', PDict [
                         (''Text'', PStr (''A new CloudWatch logs group and IAM role was created for the VPC and flow logs are enabled and being sent to '' @ logGroupName @ '' and the finding was archived.'')),
                         (''UpdatedBy'', PStr lambdaFunctionName)]),
                      (''RecordState'', PStr ''ARCHIVED'')
                    ])) (\<lambda>response.
           print_value response))))))))))"

text \<open>The provisioning steps of the branch taken when the finding belongs to the
  account of the function itself, given the clients that the branch created.\<close>

definition local_pipeline ::
  "world \<Rightarrow> client \<Rightarrow> client \<Rightarrow> client \<Rightarrow> client \<Rightarrow> string \<Rightarrow> string \<Rightarrow> string \<Rightarrow> unit action" where
  "local_pipeline aws logs iam ec2 securityhub lambdaFunctionName findingId vpcId' =
     bindS (try_print_raise
       (bindS (invoke aws logs ''create_log_group''
                 (PDict [(''logGroupName'', PStr (''VPCFlowLogs/'' @ vpcId'))])) (\<lambda>response.
        bindS (print_value response) (\<lambda>u.
        sleep 5)))) (\<lambda>u.
     bindS (try_print_raise
       (bindS (invoke aws logs ''describe_log_groups''
                 (PDict [(''logGroupNamePrefix'', PStr (''VPCFlowLogs/'' @ vpcId'))])) (\<lambda>response.
        bindS (liftE (bindE (getitem response ''logGroups'') (\<lambda>groups.
                      bindE (subscript groups (PInt 0)) (\<lambda>g. getitem g ''arn'')))) (\<lambda>arn.
        bindS (liftE (bindE (getitem response ''logGroups'') (\<lambda>groups.
                      bindE (subscript groups (PInt 0)) (\<lambda>g. getitem g ''logGroupName''))))
          (\<lambda>name.
        returnS (py_str arn, py_str name)))))) (\<lambda>(logGroupArn, logGroupName).
     let vpcFlowCwlPolicy = PDict [
           (''Version'', PStr ''2012-10-17''),
           (''Statement'', PList [
             PDict [
               (''Action'', PList [
                 PStr ''logs:CreateLogGroup'',
                 PStr ''logs:CreateLogStream'',
                 PStr ''logs:PutLogEvents'',
                 PStr ''logs:DescribeLogGroups'',
                 PStr ''logs:DescribeLogStreams''
               ]),
               (''Effect'', PStr ''Allow''),
               (''Resource'', PStr (logGroupArn @ ''*''))
             ]
           ])
         ];
         flowLogTrustPolicy = PDict [
           (''Version'', PStr ''2012-10-17''),
           (''Statement'', PList [
             PDict [
               (''Sid'', PStr []),
               (''Effect'', PStr ''Allow''),
               (''Principal'', PDict [(''Service'', PStr ''vpc-flow-logs.amazonaws.com'')]),
               (''Action'', PStr ''sts:AssumeRole'')
             ]
           ])
         ]
     in
     bindS (try_print_raise
       (bindS (invoke aws iam ''create_policy''
                 (PDict [
                   (''PolicyName'', PStr (''VPCFlowLogsPolicy-'' @ vpcId')),
                   (''PolicyDocument'', PStr (json_dumps vpcFlowCwlPolicy)),
                   (''Description'',
                      PStr (''Allows '' @ vpcId' @ '' to publish logs to CloudWatch''))
                 ])) (\<lambda>response.
        bindS (liftE (bindE (getitem response ''Policy'') (\<lambda>policy. getitem policy ''Arn'')))
          (\<lambda>arn.
        returnS (py_str arn))))) (\<lambda>cwlPolicyArn.
     bindS (try_print_raise
       (bindS (invoke aws iam ''create_role''
                 (PDict [
                   (''RoleName'', PStr (''VPCFlowLogsRole-'' @ vpcId')),
                   (''AssumeRolePolicyDocument'', PStr (json_dumps flowLogTrustPolicy)),
                   (''Description'',
                      PStr (''Allows '' @ vpcId' @ '' to publish logs to CloudWatch''))
                 ])) (\<lambda>response.
        bindS (liftE (bindE (getitem response ''Role'') (\<lambda>role. getitem role ''RoleName'')))
          (\<lambda>roleName.
        bindS (liftE (bindE (getitem response ''Role'') (\<lambda>role. getitem role ''Arn'')))
          (\<lambda>roleArn.
        returnS (py_str roleName, py_str roleArn)))))) (\<lambda>(cwlRoleName, cwlRoleArn).
     bindS (try_print_raise
       (bindS (invoke aws iam ''attach_role_policy''
                 (PDict [(''RoleName'', PStr cwlRoleName), (''PolicyArn'', PStr cwlPolicyArn)]))
          (\<lambda>response.
        print_value response))) (\<lambda>u.
     try_print_raise
       (bindS (invoke aws ec2 ''create_flow_logs''
                 (PDict [
                   (''DryRun'', PBool False),
                   (''DeliverLogsPermissionArn'', PStr cwlRoleArn),
                   (''LogGroupName'', PStr logGroupName),
                   (''ResourceIds'', PList [PStr vpcId']),
                   (''ResourceType'', PStr ''VPC''),
                   (''TrafficType'', PStr ''REJECT''),
                   (''LogDestinationType'', PStr ''cloud-watch-logs''),
                   (''MaxAggregationInterval'', PInt 60)
                 ])) (\<lambda>response.
        bindS (print_value response) (\<lambda>u.
        try_print
          (bindS (invoke aws securityhub ''update_findings''
                    (PDict [
                      (''Filters'', PDict [(''Id'', PList [
                         PDict [(''Value'', PStr findingId), (''Comparison'', PStr ''EQUALS'')]])]),
                      (''Note'', PDict [
                         (''Text'', PStr (''A new CloudWatch logs group and IAM role was created for the VPC and flow logs are enabled and being sent to '' @ logGroupName @ '' and the finding was archived.'')),
                         (''UpdatedBy'', PStr lambdaFunctionName)]),
                      (''RecordState'', PStr ''ARCHIVED'')
                    ])) (\<lambda>response.
           print_value response))))))))))"

subsection \<open>\<open>lambda_handler\<close>\<close>

text \<open>The body of the loop over the resources of one finding: the VPC id, then the
  branch for a finding of another account or the branch for the account of the function.\<close>

definition remediate_resource ::
  "world \<Rightarrow> client \<Rightarrow> client \<Rightarrow> string \<Rightarrow> string \<Rightarrow> pyval \<Rightarrow> string \<Rightarrow> string \<Rightarrow> pyval
     \<Rightarrow> unit action" where
  "remediate_resource aws sts securityhub awsRegion lambdaFunctionName masterAccountId
       findingId findingOwner resources =
     bindS (liftE (getitem resources ''Id'')) (\<lambda>rid.
     let resourceId = py_str rid;
         vpcId' = str_replace (''arn:aws:ec2:'' @ awsRegion @ '':'' @ findingOwner @ '':vpc/'') []
                    resourceId
     in
     if py_ne (PStr findingOwner) masterAccountId then
       bindS (invoke aws sts ''assume_role''
                (PDict [
                  (''RoleArn'',
                     PStr (''arn:aws:iam::'' @ findingOwner @ '':role/XA-ElectricEye-Response'')),
                  (''RoleSessionName'', PStr ''x_acct_sechub'')
                ])) (\<lambda>memberAcct.
       bindS (liftE (bindE (getitem memberAcct ''Credentials'')
                       (\<lambda>creds. getitem creds ''AccessKeyId''))) (\<lambda>xAcctAccessKey.
       bindS (liftE (bindE (getitem memberAcct ''Credentials'')
                       (\<lambda>creds. getitem creds ''SecretAccessKey''))) (\<lambda>xAcctSecretKey.
       bindS (liftE (bindE (getitem memberAcct ''Credentials'')
                       (\<lambda>creds. getitem creds ''SessionToken''))) (\<lambda>xAcctSeshToken.
       let logs = Client ''logs'' (Session xAcctAccessKey xAcctSecretKey xAcctSeshToken);
           iam = Client ''iam'' (Session xAcctAccessKey xAcctSecretKey xAcctSeshToken);
           ec2 = Client ''ec2'' (Session xAcctAccessKey xAcctSecretKey xAcctSeshToken)
       in cross_account_pipeline aws logs iam ec2 securityhub lambdaFunctionName findingId
            vpcId'))))
     else
       let logs = Client ''logs'' Ambient;
           iam = Client ''iam'' Ambient;
           ec2 = Client ''ec2'' Ambient
       in local_pipeline aws logs iam ec2 securityhub lambdaFunctionName findingId vpcId')"

text \<open>The body of the loop over the findings of the event.\<close>

definition remediate_finding ::
  "world \<Rightarrow> client \<Rightarrow> client \<Rightarrow> string \<Rightarrow> string \<Rightarrow> pyval \<Rightarrow> pyval \<Rightarrow> unit action" where
  "remediate_finding aws sts securityhub awsRegion lambdaFunctionName masterAccountId findings =
     bindS (liftE (getitem findings ''Id'')) (\<lambda>fid.
     bindS (liftE (getitem findings ''AwsAccountId'')) (\<lambda>owner.
     let findingId = py_str fid; findingOwner = py_str owner in
     bindS (liftE (bindE (getitem findings ''Resources'') py_iter)) (\<lambda>rs.
     for_do (remediate_resource aws sts securityhub awsRegion lambdaFunctionName
               masterAccountId findingId findingOwner) rs)))"

text \<open>\<open>lambda_handler(event, context)\<close>, with \<open>os.environ\<close> as a map.\<close>

definition environ_get :: "(string \<rightharpoonup> string) \<Rightarrow> string \<Rightarrow> error + string" where
  "environ_get environ k =
     (case environ k of None \<Rightarrow> Inl (KeyError (PStr k)) | Some v \<Rightarrow> Inr v)"

definition lambda_handler :: "world \<Rightarrow> (string \<rightharpoonup> string) \<Rightarrow> pyval \<Rightarrow> unit action" where
  "lambda_handler aws environ event =
     (let sts = Client ''sts'' Ambient;
          securityhub = Client ''securityhub'' Ambient
      in
      bindS (liftE (environ_get environ ''AWS_REGION'')) (\<lambda>awsRegion.
      bindS (liftE (environ_get environ ''AWS_LAMBDA_FUNCTION_NAME'')) (\<lambda>lambdaFunctionName.
      bindS (invoke aws sts ''get_caller_identity'' (PDict [])) (\<lambda>identity.
      bindS (liftE (getitem identity ''Account'')) (\<lambda>masterAccountId.
      bindS (liftE (bindE (getitem event ''detail'') (\<lambda>detail. getitem detail ''findings'')))
        (\<lambda>securityHubEvent.
      bindS (liftE (py_iter securityHubEvent)) (\<lambda>fs.
      for_do (remediate_finding aws sts securityhub awsRegion lambdaFunctionName
                masterAccountId) fs)))))))"

section \<open>Observations and example data\<close>

text \<open>What is read off a finding: the four fields that carry the verdict.\<close>

definition field2 :: "pyval \<Rightarrow> string \<Rightarrow> string \<Rightarrow> error + pyval" where
  "field2 f a b = bindE (getitem f a) (\<lambda>d. getitem d b)"

definition is_failed :: "pyval \<Rightarrow> bool" where
  "is_failed f =
     (field2 f ''Severity'' ''Label'' = Inr (PStr ''HIGH'') \<and>
      field2 f ''Compliance'' ''Status'' = Inr (PStr ''FAILED'') \<and>
      field2 f ''Workflow'' ''Status'' = Inr (PStr ''NEW'') \<and>
      getitem f ''RecordState'' = Inr (PStr ''ACTIVE''))"

definition is_passed :: "pyval \<Rightarrow> bool" where
  "is_passed f =
     (field2 f ''Severity'' ''Label'' = Inr (PStr ''INFORMATIONAL'') \<and>
      field2 f ''Compliance'' ''Status'' = Inr (PStr ''PASSED'') \<and>
      field2 f ''Workflow'' ''Status'' = Inr (PStr ''RESOLVED'') \<and>
      getitem f ''RecordState'' = Inr (PStr ''ARCHIVED''))"

text \<open>The verdict of each check on one item: the guard of its \<open>if\<close>, \<open>True\<close> for the
  failing branch.\<close>

definition dax_encryption_at_rest_fails :: "pyval \<Rightarrow> error + bool" where
  "dax_encryption_at_rest_fails cluster =
     bindE (bindE (getitem cluster ''SSEDescription'') (\<lambda>sse. getitem sse ''Status''))
       (\<lambda>sseStatus. Inr (py_ne sseStatus (py_or (PStr ''ENABLING'') (PStr ''ENABLED''))))"

definition dax_encryption_in_transit_fails :: "pyval \<Rightarrow> error + bool" where
  "dax_encryption_in_transit_fails cluster =
     bindE (getitem cluster ''ClusterEndpointEncryptionType'')
       (\<lambda>encryptionType. Inr (py_eq encryptionType (PStr ''NONE'')))"

definition port_is_open :: "pyval \<Rightarrow> error + bool" where
  "port_is_open p = bindE (getitem p ''state'') (\<lambda>state. Inr (py_str state = ''open''))"

definition follows_verdict :: "error + bool \<Rightarrow> pyval \<Rightarrow> bool" where
  "follows_verdict v f = (v = Inr True \<and> is_failed f \<or> v = Inr False \<and> is_passed f)"

text \<open>The items that a check iterates over: what its cache accessor returns for the
  cache the check is given.\<close>

definition listed_clusters :: "provider \<Rightarrow> run_state \<Rightarrow> pyval list" where
  "listed_clusters dax_describe_clusters cache0 =
     (case fst (describe_clusters dax_describe_clusters cache0) of
        Inl e \<Rightarrow> []
      | Inr response \<Rightarrow>
          (case bindE (getitem response ''Clusters'') py_iter of
             Inl e \<Rightarrow> [] | Inr clusters \<Rightarrow> clusters))"

definition listed_instances ::
  "(nat \<Rightarrow> error + pyval list) option \<Rightarrow> run_state \<Rightarrow> pyval list" where
  "listed_instances paginator cache0 =
     (case fst (ec2_paginate paginator cache0) of
        Inl e \<Rightarrow> []
      | Inr instances \<Rightarrow> (case py_iter instances of Inl e \<Rightarrow> [] | Inr is \<Rightarrow> is))"

definition listed_load_balancers :: "provider \<Rightarrow> run_state \<Rightarrow> pyval list" where
  "listed_load_balancers elbv2_describe_load_balancers cache0 =
     (case fst (describe_load_balancers elbv2_describe_load_balancers cache0) of
        Inl e \<Rightarrow> []
      | Inr response \<Rightarrow>
          (case bindE (getitem response ''LoadBalancers'') py_iter of
             Inl e \<Rightarrow> [] | Inr lbs \<Rightarrow> lbs))"

text \<open>A run that has not fetched anything yet.\<close>

definition empty_run :: run_state where
  "empty_run = \<lparr>cache = Map.empty, api_calls = [], stdout = []\<rparr>"

text \<open>A region without running instances at the first request, with one at the second.\<close>

definition quiet_then_busy :: "nat \<Rightarrow> error + pyval list" where
  "quiet_then_busy n =
     (if n = 0 then Inr [PDict [(''Reservations'', PList [])]]
      else Inr [PDict [(''Reservations'', PList [
             PDict [(''Instances'', PList [PDict [(''InstanceId'', PStr ''i-0abc'')]])]])]])"

text \<open>A DAX cluster as \<open>describe_clusters\<close> reports it, with the given name and
  encryption status.\<close>

definition dax_cluster :: "string \<Rightarrow> string \<Rightarrow> pyval" where
  "dax_cluster name sse =
     PDict [
       (''ClusterName'', PStr name),
       (''ClusterArn'', PStr (''arn:aws:dax:us-east-1:111111111111:cache/'' @ name)),
       (''TotalNodes'', PInt 3),
       (''NodeType'', PStr ''dax.r4.large''),
       (''Status'', PStr ''available''),
       (''ClusterDiscoveryEndpoint'', PDict [
          (''Address'', PStr ''c.dax.example''),
          (''Port'', PInt 8111),
          (''URL'', PStr ''dax://c.dax.example'')]),
       (''SubnetGroup'', PStr ''default''),
       (''SecurityGroups'', PList [
          PDict [(''SecurityGroupIdentifier'', PStr ''sg-1''), (''Status'', PStr ''active'')]]),
       (''IamRoleArn'', PStr ''arn:aws:iam::111111111111:role/dax''),
       (''ParameterGroup'', PDict [(''ParameterGroupName'', PStr ''default.dax1.0'')]),
       (''SSEDescription'', PDict [(''Status'', PStr sse)]),
       (''ClusterEndpointEncryptionType'', PStr ''TLS'')
     ]"

text \<open>The finding id as the specification describes it: the ARN of the resource, a
  slash, the code of the check.\<close>

definition finding_id_of :: "string \<Rightarrow> string \<Rightarrow> pyval" where
  "finding_id_of arn check_code = PStr (arn @ ''/'' @ check_code)"

text \<open>The service name that the port loop computes for a scanned port.\<close>

definition port_service_name :: "pyval \<Rightarrow> error + string" where
  "port_service_name p =
     bindE (bindE (getitem p ''portid'') py_int) (\<lambda>portNumber. service_name portNumber p)"

text \<open>Two clusters, one fully encrypted and one whose encryption is being enabled.\<close>

definition two_clusters :: provider where
  "two_clusters n =
     Inr (PDict [(''Clusters'',
            PList [dax_cluster ''orders'' ''ENABLED'', dax_cluster ''carts'' ''ENABLING''])])"

text \<open>A public instance whose first block device reports no attach time, the scan of
  its address, and a stand-in for the date parser.\<close>

definition web_instance :: pyval where
  "web_instance =
     PDict [
       (''InstanceId'', PStr ''i-0abc''),
       (''InstanceType'', PStr ''t3.micro''),
       (''ImageId'', PStr ''ami-1''),
       (''SubnetId'', PStr ''subnet-1''),
       (''VpcId'', PStr ''vpc-1''),
       (''BlockDeviceMappings'', PList [
          PDict [(''DeviceName'', PStr ''/dev/xvda''),
                 (''Ebs'', PDict [(''Status'', PStr ''attached'')])]]),
       (''LaunchTime'', PStr ''2021-01-01 00:00:00+00:00''),
       (''PublicIpAddress'', PStr ''198.51.100.7'')
     ]"

definition web_scan :: scanner where
  "web_scan host args =
     Inr (PDict [(''198.51.100.7'', PDict [(''ports'', PList [
        PDict [(''protocol'', PStr ''tcp''), (''portid'', PStr ''22''),
               (''state'', PStr ''open''), (''reason'', PStr ''syn-ack''),
               (''service'', PDict [(''name'', PStr ''ssh'')])],
        PDict [(''protocol'', PStr ''tcp''), (''portid'', PStr ''8089''),
               (''state'', PStr ''filtered''), (''reason'', PStr ''no-response''),
               (''service'', PDict [(''name'', PStr ''unknown'')])]])])])"

definition iso_of :: "string \<Rightarrow> error + string" where
  "iso_of s = Inr (map (\<lambda>c. if c = CHR '' '' then CHR ''T'' else c) s)"

definition one_instance :: "nat \<Rightarrow> error + pyval list" where
  "one_instance n =
     Inr [PDict [(''Reservations'', PList [PDict [(''Instances'', PList [web_instance])]])]]"


text \<open>A cluster that is still being created: it has no discovery endpoint yet.\<close>

definition starting_cluster :: pyval where
  "starting_cluster =
     PDict [
       (''ClusterName'', PStr ''orders''),
       (''ClusterArn'', PStr ''arn:aws:dax:us-east-1:111111111111:cache/orders''),
       (''TotalNodes'', PInt 3),
       (''NodeType'', PStr ''dax.r4.large''),
       (''Status'', PStr ''creating''),
       (''SubnetGroup'', PStr ''default''),
       (''SecurityGroups'', PList [
          PDict [(''SecurityGroupIdentifier'', PStr ''sg-1''), (''Status'', PStr ''active'')]]),
       (''IamRoleArn'', PStr ''arn:aws:iam::111111111111:role/dax''),
       (''ParameterGroup'', PDict [(''ParameterGroupName'', PStr ''default.dax1.0'')]),
       (''SSEDescription'', PDict [(''Status'', PStr ''ENABLING'')]),
       (''ClusterEndpointEncryptionType'', PStr ''TLS'')
     ]"

definition starting_clusters :: provider where
  "starting_clusters n = Inr (PDict [(''Clusters'', PList [starting_cluster])])"

text \<open>An instance without a public address.\<close>

definition private_instance :: pyval where
  "private_instance =
     PDict [
       (''InstanceId'', PStr ''i-0def''),
       (''InstanceType'', PStr ''t3.micro''),
       (''ImageId'', PStr ''ami-1''),
       (''SubnetId'', PStr ''subnet-1''),
       (''VpcId'', PStr ''vpc-1''),
       (''BlockDeviceMappings'', PList [
          PDict [(''DeviceName'', PStr ''/dev/xvda''),
                 (''Ebs'', PDict [(''Status'', PStr ''attached'')])]]),
       (''LaunchTime'', PStr ''2021-01-01 00:00:00+00:00'')
     ]"

text \<open>The operations requested in a stretch of the trace, and the clients used for them.\<close>

fun ops :: "event list \<Rightarrow> string list" where
  "ops [] = []"
| "ops (Called c operation kwargs # es) = operation # ops es"
| "ops (e # es) = ops es"

fun clients :: "event list \<Rightarrow> client list" where
  "clients [] = []"
| "clients (Called c operation kwargs # es) = c # clients es"
| "clients (e # es) = clients es"

text \<open>The fixed sequence of provisioning steps, by the operation each one requests.\<close>

definition provisioning_steps :: "string list" where
  "provisioning_steps =
     [''create_log_group'', ''describe_log_groups'', ''create_policy'', ''create_role'',
      ''attach_role_policy'', ''create_flow_logs'']"

text \<open>A stretch of the trace ends with a request and the print of the exception \<open>e\<close>.\<close>

definition ends_with_failed_request :: "error \<Rightarrow> event list \<Rightarrow> bool" where
  "ends_with_failed_request e evs =
     (case rev evs of
        Printed (Inl e') # Called c operation kwargs # es \<Rightarrow> e' = e
      | _ \<Rightarrow> False)"

text \<open>The keyword arguments of the requests, as both branches write them.\<close>

definition create_log_group_kwargs :: "string \<Rightarrow> pyval" where
  "create_log_group_kwargs vpcId' = PDict [(''logGroupName'', PStr (''VPCFlowLogs/'' @ vpcId'))]"

definition describe_log_groups_kwargs :: "string \<Rightarrow> pyval" where
  "describe_log_groups_kwargs vpcId' =
     PDict [(''logGroupNamePrefix'', PStr (''VPCFlowLogs/'' @ vpcId'))]"

definition create_policy_kwargs :: "string \<Rightarrow> string \<Rightarrow> pyval" where
  "create_policy_kwargs vpcId' logGroupArn =
     PDict [
       (''PolicyName'', PStr (''VPCFlowLogsPolicy-'' @ vpcId')),
       (''PolicyDocument'', PStr (json_dumps (PDict [
           (''Version'', PStr ''2012-10-17''),
           (''Statement'', PList [
             PDict [
               (''Action'', PList [
                 PStr ''logs:CreateLogGroup'',
                 PStr ''logs:CreateLogStream'',
                 PStr ''logs:PutLogEvents'',
                 PStr ''logs:DescribeLogGroups'',
                 PStr ''logs:DescribeLogStreams''
               ]),
               (''Effect'', PStr ''Allow''),
               (''Resource'', PStr (logGroupArn @ ''*''))
             ]
           ])
         ]))),
       (''Description'', PStr (''Allows '' @ vpcId' @ '' to publish logs to CloudWatch''))
     ]"

definition create_role_kwargs :: "string \<Rightarrow> pyval" where
  "create_role_kwargs vpcId' =
     PDict [
       (''RoleName'', PStr (''VPCFlowLogsRole-'' @ vpcId')),
       (''AssumeRolePolicyDocument'', PStr (json_dumps (PDict [
           (''Version'', PStr ''2012-10-17''),
           (''Statement'', PList [
             PDict [
               (''Sid'', PStr []),
               (''Effect'', PStr ''Allow''),
               (''Principal'', PDict [(''Service'', PStr ''vpc-flow-logs.amazonaws.com'')]),
               (''Action'', PStr ''sts:AssumeRole'')
             ]
           ])
         ]))),
       (''Description'', PStr (''Allows '' @ vpcId' @ '' to publish logs to CloudWatch''))
     ]"

definition attach_role_policy_kwargs :: "string \<Rightarrow> string \<Rightarrow> pyval" where
  "attach_role_policy_kwargs cwlRoleName cwlPolicyArn =
     PDict [(''RoleName'', PStr cwlRoleName), (''PolicyArn'', PStr cwlPolicyArn)]"

definition create_flow_logs_kwargs :: "string \<Rightarrow> string \<Rightarrow> string \<Rightarrow> pyval" where
  "create_flow_logs_kwargs vpcId' cwlRoleArn logGroupName =
     PDict [
       (''DryRun'', PBool False),
       (''DeliverLogsPermissionArn'', PStr cwlRoleArn),
       (''LogGroupName'', PStr logGroupName),
       (''ResourceIds'', PList [PStr vpcId']),
       (''ResourceType'', PStr ''VPC''),
       (''TrafficType'', PStr ''REJECT''),
       (''LogDestinationType'', PStr ''cloud-watch-logs''),
       (''MaxAggregationInterval'', PInt 60)
     ]"

definition update_findings_kwargs :: "string \<Rightarrow> string \<Rightarrow> string \<Rightarrow> pyval" where
  "update_findings_kwargs findingId lambdaFunctionName logGroupName =
     PDict [
       (''Filters'', PDict [(''Id'', PList [
          PDict [(''Value'', PStr findingId), (''Comparison'', PStr ''EQUALS'')]])]),
       (''Note'', PDict [
          (''Text'', PStr (''A new CloudWatch logs group and IAM role was created for the VPC and flow logs are enabled and being sent to '' @ logGroupName @ '' and the finding was archived.'')),
          (''UpdatedBy'', PStr lambdaFunctionName)]),
       (''RecordState'', PStr ''ARCHIVED'')
     ]"

definition assume_role_kwargs :: "string \<Rightarrow> pyval" where
  "assume_role_kwargs findingOwner =
     PDict [
       (''RoleArn'', PStr (''arn:aws:iam::'' @ findingOwner @ '':role/XA-ElectricEye-Response'')),
       (''RoleSessionName'', PStr ''x_acct_sechub'')
     ]"

text \<open>The steps of a branch with the arguments of its requests left open: what the
  properties of the sequence depend on.\<close>

definition provisioning_shape ::
  "world \<Rightarrow> client \<Rightarrow> client \<Rightarrow> client \<Rightarrow> client \<Rightarrow> pyval \<Rightarrow> pyval \<Rightarrow> (string \<Rightarrow> pyval)
     \<Rightarrow> pyval \<Rightarrow> (string \<Rightarrow> string \<Rightarrow> pyval) \<Rightarrow> (string \<Rightarrow> string \<Rightarrow> pyval) \<Rightarrow> (string \<Rightarrow> pyval)
     \<Rightarrow> unit action" where
  "provisioning_shape aws logs iam ec2 securityhub k1 k2 k3 k4 k5 k6 k7 =
     bindS (try_print_raise
       (bindS (invoke aws logs ''create_log_group'' k1) (\<lambda>response.
        bindS (print_value response) (\<lambda>u.
        sleep 5)))) (\<lambda>u.
     bindS (try_print_raise
       (bindS (invoke aws logs ''describe_log_groups'' k2) (\<lambda>response.
        bindS (liftE (bindE (getitem response ''logGroups'') (\<lambda>groups.
                      bindE (subscript groups (PInt 0)) (\<lambda>g. getitem g ''arn'')))) (\<lambda>arn.
        bindS (liftE (bindE (getitem response ''logGroups'') (\<lambda>groups.
                      bindE (subscript groups (PInt 0)) (\<lambda>g. getitem g ''logGroupName''))))
          (\<lambda>name.
        returnS (py_str arn, py_str name)))))) (\<lambda>(logGroupArn, logGroupName).
     bindS (try_print_raise
       (bindS (invoke aws iam ''create_policy'' (k3 logGroupArn)) (\<lambda>response.
        bindS (liftE (bindE (getitem response ''Policy'') (\<lambda>policy. getitem policy ''Arn'')))
          (\<lambda>arn.
        returnS (py_str arn))))) (\<lambda>cwlPolicyArn.
     bindS (try_print_raise
       (bindS (invoke aws iam ''create_role'' k4) (\<lambda>response.
        bindS (liftE (bindE (getitem response ''Role'') (\<lambda>role. getitem role ''RoleName'')))
          (\<lambda>roleName.
        bindS (liftE (bindE (getitem response ''Role'') (\<lambda>role. getitem role ''Arn'')))
          (\<lambda>roleArn.
        returnS (py_str roleName, py_str roleArn)))))) (\<lambda>(cwlRoleName, cwlRoleArn).
     bindS (try_print_raise
       (bindS (invoke aws iam ''attach_role_policy'' (k5 cwlRoleName cwlPolicyArn))
          (\<lambda>response.
        print_value response))) (\<lambda>u.
     try_print_raise
       (bindS (invoke aws ec2 ''create_flow_logs'' (k6 cwlRoleArn logGroupName)) (\<lambda>response.
        bindS (print_value response) (\<lambda>u.
        try_print
          (bindS (invoke aws securityhub ''update_findings'' (k7 logGroupName)) (\<lambda>response.
           print_value response))))))))))"

text \<open>
  Fail-stop, for a run of the steps that started with the trace \<open>tr0\<close> and ended with
  the result \<open>r\<close> and the trace \<open>tr\<close>: the run only adds to the trace; its requests
  are a beginning of the fixed sequence followed by the report, so nothing is undone; a
  failed run ends with one of the six provisioning requests and the print of the exception
  it re-raises; and a provisioning request that the services answer with an exception is
  followed by the print of that exception and nothing else, the exception being the result.
\<close>

definition fail_stop :: "world \<Rightarrow> event list \<Rightarrow> (error + unit) \<times> event list \<Rightarrow> bool" where
  "fail_stop aws tr0 run =
     (case run of (r, tr) \<Rightarrow>
        take (length tr0) tr = tr0 \<and>
        take (length (ops (drop (length tr0) tr))) (provisioning_steps @ [''update_findings''])
          = ops (drop (length tr0) tr) \<and>
        (\<forall>e. r = Inl e \<longrightarrow>
           ops (drop (length tr0) tr) \<noteq> [] \<and>
           length (ops (drop (length tr0) tr)) \<le> length provisioning_steps \<and>
           ends_with_failed_request e (drop (length tr0) tr)) \<and>
        (\<forall>h c operation kwargs rest e.
           drop (length tr0) tr = h @ Called c operation kwargs # rest \<and>
           operation \<in> set provisioning_steps \<and>
           aws (tr0 @ h) c operation kwargs = Inl e \<longrightarrow>
             r = Inl e \<and> rest = [Printed (Inl e)]))"

text \<open>
  Reporting, for such a run: the run succeeds exactly when it requests
  \<open>update_findings\<close>; then it requests it once, as the last request, right after
  \<open>create_flow_logs\<close> for the same log group, and prints whatever the services
  answer, an exception included.
\<close>

definition reports_once ::
  "world \<Rightarrow> client \<Rightarrow> client \<Rightarrow> (string \<Rightarrow> string \<Rightarrow> pyval) \<Rightarrow> (string \<Rightarrow> pyval) \<Rightarrow> event list
     \<Rightarrow> (error + unit) \<times> event list \<Rightarrow> bool" where
  "reports_once aws ec2 securityhub k6 k7 tr0 run =
     (case run of (r, tr) \<Rightarrow>
        (r = Inr ()) = (''update_findings'' \<in> set (ops (drop (length tr0) tr))) \<and>
        (r = Inr () \<longrightarrow>
           filter (\<lambda>operation. operation = ''update_findings'') (ops (drop (length tr0) tr))
             = [''update_findings''] \<and>
           (\<exists>cwlRoleArn logGroupName response.
              drop (length tr - 4) tr =
                [Called ec2 ''create_flow_logs'' (k6 cwlRoleArn logGroupName),
                 Printed (Inr response),
                 Called securityhub ''update_findings'' (k7 logGroupName),
                 Printed (aws (take (length tr - 2) tr) securityhub ''update_findings''
                            (k7 logGroupName))])))"

text \<open>
  Services for the examples. In \<open>fresh_account\<close> every request succeeds. The others
  differ from it in one answer: \<open>policy_exists\<close> refuses \<open>create_policy\<close>,
  \<open>hub_denies\<close> refuses \<open>update_findings\<close>, and \<open>remembers\<close> refuses to create
  a log group, a policy or a role that an earlier request of the trace has created.
\<close>

definition fresh_account :: world where
  "fresh_account tr c operation kwargs =
     (if operation = ''get_caller_identity'' then
        Inr (PDict [(''Account'', PStr ''999999999999'')])
      else if operation = ''assume_role'' then
        Inr (PDict [(''Credentials'', PDict [
               (''AccessKeyId'', PStr ''ASIAEXAMPLE''),
               (''SecretAccessKey'', PStr ''wJalrEXAMPLEKEY''),
               (''SessionToken'', PStr ''FwoGZXEXAMPLETOKEN'')])])
      else if operation = ''describe_log_groups'' then
        Inr (PDict [(''logGroups'', PList [PDict [
               (''arn'', PStr ''arn:aws:logs:us-east-1:111111111111:log-group:VPCFlowLogs/vpc-1''),
               (''logGroupName'', PStr ''VPCFlowLogs/vpc-1'')]])])
      else if operation = ''create_policy'' then
        Inr (PDict [(''Policy'', PDict [
               (''Arn'', PStr ''arn:aws:iam::111111111111:policy/VPCFlowLogsPolicy-vpc-1'')])])
      else if operation = ''create_role'' then
        Inr (PDict [(''Role'', PDict [
               (''RoleName'', PStr ''VPCFlowLogsRole-vpc-1''),
               (''Arn'', PStr ''arn:aws:iam::111111111111:role/VPCFlowLogsRole-vpc-1'')])])
      else Inr (PDict []))"

definition policy_exists :: world where
  "policy_exists tr c operation kwargs =
     (if operation = ''create_policy'' then Inl (ClientError ''EntityAlreadyExists'')
      else fresh_account tr c operation kwargs)"

definition hub_denies :: world where
  "hub_denies tr c operation kwargs =
     (if operation = ''update_findings'' then Inl (ClientError ''AccessDeniedException'')
      else fresh_account tr c operation kwargs)"

definition remembers :: world where
  "remembers tr c operation kwargs =
     (if operation = ''create_log_group'' \<and> operation \<in> set (ops tr) then
        Inl (ClientError ''ResourceAlreadyExistsException'')
      else if (operation = ''create_policy'' \<or> operation = ''create_role'')
              \<and> operation \<in> set (ops tr) then
        Inl (ClientError ''EntityAlreadyExists'')
      else fresh_account tr c operation kwargs)"

text \<open>The clients of the function itself, and the clients that the branch for another
  account builds from the credentials above.\<close>

definition own :: "string \<Rightarrow> client" where
  "own service = Client service Ambient"

definition member :: "string \<Rightarrow> client" where
  "member service =
     Client service
       (Session (PStr ''ASIAEXAMPLE'') (PStr ''wJalrEXAMPLEKEY'') (PStr ''FwoGZXEXAMPLETOKEN''))"

text \<open>The resource of a finding about the VPC \<open>vpc-1\<close> of account 111111111111.\<close>

definition vpc_resource :: pyval where
  "vpc_resource = PDict [(''Id'', PStr ''arn:aws:ec2:us-east-1:111111111111:vpc/vpc-1'')]"

text \<open>The event for one finding of account 111111111111 about that VPC, and the
  environment of the function.\<close>

definition member_event :: pyval where
  "member_event =
     PDict [(''detail'', PDict [(''findings'', PList [
        PDict [
          (''Id'', PStr ''finding-1''),
          (''AwsAccountId'', PStr ''111111111111''),
          (''Resources'', PList [vpc_resource])
        ]])])]"

definition function_environ :: "string \<rightharpoonup> string" where
  "function_environ =
     [''AWS_REGION'' \<mapsto> ''us-east-1'', ''AWS_LAMBDA_FUNCTION_NAME'' \<mapsto> ''fixer'']"

text \<open>The VPC id that the handler cuts out of the resource id of a finding.\<close>

definition vpc_of :: "string \<Rightarrow> string \<Rightarrow> pyval \<Rightarrow> string" where
  "vpc_of awsRegion findingOwner rid =
     str_replace (''arn:aws:ec2:'' @ awsRegion @ '':'' @ findingOwner @ '':vpc/'') [] (py_str rid)"

text \<open>The access key, the secret key and the session token read off the answer to
  \<open>assume_role\<close>, in the order the handler reads them; an exception of the request or
  of a read is the result.\<close>

definition returned_credentials :: "error + pyval \<Rightarrow> error + pyval \<times> pyval \<times> pyval" where
  "returned_credentials answer =
     bindE answer (\<lambda>memberAcct.
     bindE (field2 memberAcct ''Credentials'' ''AccessKeyId'') (\<lambda>xAcctAccessKey.
     bindE (field2 memberAcct ''Credentials'' ''SecretAccessKey'') (\<lambda>xAcctSecretKey.
     bindE (field2 memberAcct ''Credentials'' ''SessionToken'') (\<lambda>xAcctSeshToken.
     Inr (xAcctAccessKey, xAcctSecretKey, xAcctSeshToken)))))"

text \<open>A value is a non-empty string; a client carries three of them as its credentials.\<close>

definition nonempty_text :: "pyval \<Rightarrow> bool" where
  "nonempty_text v = (case v of PStr s \<Rightarrow> s \<noteq> [] | _ \<Rightarrow> False)"

definition carries_nonempty_credentials :: "client \<Rightarrow> bool" where
  "carries_nonempty_credentials c =
     (case c of
        Client service (Session accessKey secretKey sessionToken) \<Rightarrow>
          nonempty_text accessKey \<and> nonempty_text secretKey \<and> nonempty_text sessionToken
      | Client service Ambient \<Rightarrow> False)"

text \<open>The resource of a finding about the VPC \<open>vpc-1\<close> of account 999999999999, the
  account of the function in the examples.\<close>

definition own_vpc_resource :: pyval where
  "own_vpc_resource = PDict [(''Id'', PStr ''arn:aws:ec2:us-east-1:999999999999:vpc/vpc-1'')]"

text \<open>The first exception in a sequence of reads, if there is one.\<close>

fun first_error :: "(error + 'a) list \<Rightarrow> error option" where
  "first_error [] = None"
| "first_error (Inl e # rs) = Some e"
| "first_error (Inr v # rs) = first_error rs"

text \<open>\<open>str()\<close> of a value that was read.\<close>

definition str_of :: "error + pyval \<Rightarrow> error + pyval" where
  "str_of r = bindE r (\<lambda>v. Inr (PStr (py_str v)))"

text \<open>The details of the resource of a finding: \<open>Resources[0].Details[kind]\<close>.\<close>

definition finding_details :: "pyval \<Rightarrow> string \<Rightarrow> error + pyval" where
  "finding_details f kind =
     bindE (getitem f ''Resources'') (\<lambda>resources.
     bindE (subscript resources (PInt 0)) (\<lambda>resource.
     bindE (getitem resource ''Details'') (\<lambda>details. getitem details kind)))"

text \<open>The entries of \<open>Details.Other\<close> of a DAX finding: each key with the read of the
  cluster record that the code writes for it, in the order written.\<close>

definition dax_details_read :: "pyval \<Rightarrow> (string \<times> (error + pyval)) list" where
  "dax_details_read cluster =
     [(''ClusterName'', getitem cluster ''ClusterName''),
      (''TotalNodes'', str_of (getitem cluster ''TotalNodes'')),
      (''NodeType'', getitem cluster ''NodeType''),
      (''Status'', getitem cluster ''Status''),
      (''Address'', field2 cluster ''ClusterDiscoveryEndpoint'' ''Address''),
      (''Port'', str_of (field2 cluster ''ClusterDiscoveryEndpoint'' ''Port'')),
      (''URL'', field2 cluster ''ClusterDiscoveryEndpoint'' ''URL''),
      (''SubnetGroup'', getitem cluster ''SubnetGroup''),
      (''SecurityGroupIdentifier'',
         bindE (getitem cluster ''SecurityGroups'') (\<lambda>groups.
         bindE (subscript groups (PInt 0)) (\<lambda>group.
         getitem group ''SecurityGroupIdentifier''))),
      (''IamRoleArn'', getitem cluster ''IamRoleArn''),
      (''ParameterGroupName'', field2 cluster ''ParameterGroup'' ''ParameterGroupName'')]"

text \<open>All reads of a cluster record by each DAX check, in the order the code makes them:
  the name, the ARN, the attribute of the guard, then the details (the name, already read,
  comes first among them).\<close>

definition dax1_reads :: "pyval \<Rightarrow> (error + pyval) list" where
  "dax1_reads cluster =
     [getitem cluster ''ClusterName'', getitem cluster ''ClusterArn'',
      field2 cluster ''SSEDescription'' ''Status''] @ map snd (dax_details_read cluster)"

definition dax2_reads :: "pyval \<Rightarrow> (error + pyval) list" where
  "dax2_reads cluster =
     [getitem cluster ''ClusterName'', getitem cluster ''ClusterArn'',
      getitem cluster ''ClusterEndpointEncryptionType''] @ map snd (dax_details_read cluster)"

text \<open>The reads of an instance record before its address is looked at, and the entries
  of \<open>Details.AwsEc2Instance\<close> of its findings.\<close>

definition ec2_reads :: "pyval \<Rightarrow> (error + pyval) list" where
  "ec2_reads i =
     [getitem i ''InstanceId'', getitem i ''InstanceType'', getitem i ''ImageId'',
      getitem i ''SubnetId'', getitem i ''VpcId'',
      bindE (ec2_launched_at i) (\<lambda>launched. Inr (PStr launched))]"

definition ec2_details_read ::
  "(string \<Rightarrow> error + string) \<Rightarrow> pyval \<Rightarrow> (string \<times> (error + pyval)) list" where
  "ec2_details_read parse_isoformat i =
     [(''Type'', str_of (getitem i ''InstanceType'')),
      (''ImageId'', str_of (getitem i ''ImageId'')),
      (''VpcId'', str_of (getitem i ''VpcId'')),
      (''SubnetId'', str_of (getitem i ''SubnetId'')),
      (''LaunchedAt'',
         bindE (ec2_launched_at i) (\<lambda>launched.
         bindE (parse_isoformat launched) (\<lambda>launchedAt. Inr (PStr launchedAt))))]"

text \<open>The reads of a load balancer record, and the entries of
  \<open>Details.AwsElbv2LoadBalancer\<close> of its findings.\<close>

definition elbv2_reads :: "pyval \<Rightarrow> (error + pyval) list" where
  "elbv2_reads lb =
     [getitem lb ''LoadBalancerArn'', getitem lb ''LoadBalancerName'', getitem lb ''DNSName'',
      getitem lb ''Type'', getitem lb ''Scheme'', getitem lb ''VpcId'',
      getitem lb ''IpAddressType'']"

definition elbv2_details_read :: "pyval \<Rightarrow> (string \<times> (error + pyval)) list" where
  "elbv2_details_read lb =
     [(''DNSName'', str_of (getitem lb ''DNSName'')),
      (''IpAddressType'', str_of (getitem lb ''IpAddressType'')),
      (''Scheme'', str_of (getitem lb ''Scheme'')),
      (''Type'', str_of (getitem lb ''Type'')),
      (''VpcId'', str_of (getitem lb ''VpcId''))]"

text \<open>A record without one of its keys, and a record with one key set to a value.\<close>

definition without_key :: "string \<Rightarrow> pyval \<Rightarrow> pyval" where
  "without_key k v =
     (case v of PDict d \<Rightarrow> PDict (filter (\<lambda>kv. fst kv \<noteq> k) d) | _ \<Rightarrow> v)"

definition with_key :: "string \<Rightarrow> pyval \<Rightarrow> pyval \<Rightarrow> pyval" where
  "with_key k x v =
     (case v of PDict d \<Rightarrow> PDict ((k, x) # filter (\<lambda>kv. fst kv \<noteq> k) d) | _ \<Rightarrow> v)"

text \<open>A listing that holds a cluster in service before the cluster that is being
  created.\<close>

definition mixed_clusters :: provider where
  "mixed_clusters n =
     Inr (PDict [(''Clusters'',
            PList [dax_cluster ''carts'' ''ENABLED'', starting_cluster])])"

text \<open>The public instance, followed by an instance record without \<open>VpcId\<close>.\<close>

definition instance_without_vpc :: pyval where
  "instance_without_vpc = without_key ''VpcId'' web_instance"

definition two_instances :: "nat \<Rightarrow> error + pyval list" where
  "two_instances n =
     Inr [PDict [(''Reservations'', PList [
            PDict [(''Instances'', PList [web_instance, instance_without_vpc])]])]]"

text \<open>A public application load balancer, followed by a record that holds only an ARN and
  a name.\<close>

definition web_load_balancer :: pyval where
  "web_load_balancer =
     PDict [
       (''LoadBalancerArn'',
          PStr ''arn:aws:elasticloadbalancing:us-east-1:111111111111:loadbalancer/app/web/1''),
       (''LoadBalancerName'', PStr ''web''),
       (''DNSName'', PStr ''web.elb.example''),
       (''Type'', PStr ''application''),
       (''Scheme'', PStr ''internet-facing''),
       (''VpcId'', PStr ''vpc-1''),
       (''IpAddressType'', PStr ''ipv4'')
     ]"

definition bare_load_balancer :: pyval where
  "bare_load_balancer =
     PDict [
       (''LoadBalancerArn'',
          PStr ''arn:aws:elasticloadbalancing:us-east-1:111111111111:loadbalancer/app/bare/2''),
       (''LoadBalancerName'', PStr ''bare'')
     ]"

definition two_load_balancers :: provider where
  "two_load_balancers n =
     Inr (PDict [(''LoadBalancers'', PList [web_load_balancer, bare_load_balancer])])"

section \<open>Basic facts\<close>

lemma bindE_Inr: "bindE m f = Inr y \<Longrightarrow> \<exists>v. m = Inr v \<and> f v = Inr y"
  by (cases m) (simp_all add: bindE_def)

lemma bindE_simps [simp]: "bindE (Inr v) f = f v" "bindE (Inl e) f = Inl e"
  by (simp_all add: bindE_def)

lemma or_enabling: "py_or (PStr ''ENABLING'') (PStr ''ENABLED'') = PStr ''ENABLING''"
  by (simp add: py_or_def)

lemma py_ne_str: "py_ne v (PStr s) = (v \<noteq> PStr s)"
  by (cases v) (simp_all add: py_ne_def)

text \<open>The loop of a generator whose body yields one finding per item or raises: the state
  is untouched and every finding comes from the body on some item.\<close>

lemma for_each_yield1:
  "for_each (\<lambda>x s'. (yield1 (g x), s')) xs s = ((fs, r), s2) \<Longrightarrow>
     s2 = s \<and> (\<forall>f \<in> set fs. \<exists>x \<in> set xs. g x = Inr f)"
proof (induction xs arbitrary: fs r s2)
  case Nil
  then show ?case by simp
next
  case (Cons x xs)
  show ?case
  proof (cases "g x")
    case (Inl e)
    with Cons.prems show ?thesis by (simp add: yield1_def)
  next
    case (Inr f0)
    obtain gs r' s3 where rec: "for_each (\<lambda>x s'. (yield1 (g x), s')) xs s = ((gs, r'), s3)"
      by (metis prod.exhaust)
    from Cons.IH [OF rec] have ih: "s3 = s" "\<forall>f \<in> set gs. \<exists>x \<in> set xs. g x = Inr f"
      by simp_all
    from Cons.prems Inr rec have "fs = f0 # gs" "s2 = s3"
      by (simp_all add: yield1_def)
    with ih Inr show ?thesis by auto
  qed
qed

lemma for_each_yield1_member:
  "for_each (\<lambda>x s'. (yield1 (g x), s')) xs s = ((fs, r), s2) \<Longrightarrow> f \<in> set fs \<Longrightarrow>
     \<exists>x \<in> set xs. g x = Inr f"
  using for_each_yield1 by blast

lemma for_each_member:
  "for_each body xs s = ((fs, r), s2) \<Longrightarrow> f \<in> set fs \<Longrightarrow>
     \<exists>x \<in> set xs. \<exists>s' gs r' s''. body x s' = ((gs, r'), s'') \<and> f \<in> set gs"
proof (induction xs arbitrary: fs r s2 s)
  case Nil
  then show ?case by simp
next
  case (Cons x xs)
  obtain gs r1 s1 where b: "body x s = ((gs, r1), s1)" by (metis prod.exhaust)
  show ?case
  proof (cases r1)
    case (Some e)
    with Cons.prems b have "fs = gs" by simp
    with Cons.prems b show ?thesis by auto
  next
    case None
    obtain hs r2 s3 where rec: "for_each body xs s1 = ((hs, r2), s3)" by (metis prod.exhaust)
    with Cons.prems b None have "fs = gs @ hs" by simp
    with Cons.prems(2) have "f \<in> set gs \<or> f \<in> set hs" by simp
    then show ?thesis
    proof
      assume "f \<in> set gs" with b show ?thesis by auto
    next
      assume "f \<in> set hs" from Cons.IH [OF rec this] show ?thesis by auto
    qed
  qed
qed

section \<open>The findings of the two branches\<close>

lemma dax1_failing: "is_failed (dax1_failing_finding t a r p n arn res)"
  by (simp add: is_failed_def dax1_failing_finding_def field2_def getitem_def)

lemma dax1_passing: "is_passed (dax1_passing_finding t a r p n arn res)"
  by (simp add: is_passed_def dax1_passing_finding_def field2_def getitem_def)

lemma dax2_failing: "is_failed (dax2_failing_finding t a r p n arn res)"
  by (simp add: is_failed_def dax2_failing_finding_def field2_def getitem_def)

lemma dax2_passing: "is_passed (dax2_passing_finding t a r p n arn res)"
  by (simp add: is_passed_def dax2_passing_finding_def field2_def getitem_def)

lemma ec2_failing: "is_failed (ec2_failing_finding t a r p inst n port svc l)"
  by (simp add: is_failed_def ec2_failing_finding_def field2_def getitem_def)

lemma ec2_passing: "is_passed (ec2_passing_finding t a r p inst n port svc rsn l)"
  by (simp add: is_passed_def ec2_passing_finding_def field2_def getitem_def)

lemma elbv2_failing: "is_failed (elbv2_failing_finding t a r p lb n port svc)"
  by (simp add: is_failed_def elbv2_failing_finding_def field2_def getitem_def)

lemma elbv2_passing: "is_passed (elbv2_passing_finding t a r p lb n port svc rsn)"
  by (simp add: is_passed_def elbv2_passing_finding_def field2_def getitem_def)

lemma failed_not_passed: "is_failed f \<Longrightarrow> \<not> is_passed f"
  by (auto simp: is_failed_def is_passed_def)

lemma dax1_cluster_verdict:
  "dax_encryption_at_rest_cluster t a r p c = Inr f \<Longrightarrow>
     follows_verdict (dax_encryption_at_rest_fails c) f"
  unfolding dax_encryption_at_rest_cluster_def dax_encryption_at_rest_fails_def
    follows_verdict_def
  by (auto dest!: bindE_Inr split: if_splits simp: dax1_failing dax1_passing)

lemma dax2_cluster_verdict:
  "dax_encryption_in_transit_cluster t a r p c = Inr f \<Longrightarrow>
     follows_verdict (dax_encryption_in_transit_fails c) f"
  unfolding dax_encryption_in_transit_cluster_def dax_encryption_in_transit_fails_def
    follows_verdict_def
  by (auto dest!: bindE_Inr split: if_splits simp: dax2_failing dax2_passing)

lemma ec2_port_verdict:
  "ec2_open_tcp_port pi t a r p inst ip = Inr f \<Longrightarrow> follows_verdict (port_is_open (snd ip)) f"
  unfolding ec2_open_tcp_port_def port_is_open_def follows_verdict_def
  by (cases ip) (auto dest!: bindE_Inr split: if_splits simp: ec2_failing ec2_passing Let_def)

lemma elbv2_port_verdict:
  "elbv2_open_tcp_port t a r p lb ip = Inr f \<Longrightarrow> follows_verdict (port_is_open (snd ip)) f"
  unfolding elbv2_open_tcp_port_def port_is_open_def follows_verdict_def
  by (cases ip) (auto dest!: bindE_Inr split: if_splits simp: elbv2_failing elbv2_passing Let_def)

section \<open>Every finding of a check comes from its loop body\<close>

lemma dax1_check_items:
  assumes "dax_encryption_at_rest_check dax t c0 a r p = ((fs, ex), s)" and "f \<in> set fs"
  shows "\<exists>cluster \<in> set (listed_clusters dax c0).
           dax_encryption_at_rest_cluster t a r p cluster = Inr f"
proof -
  from assms obtain s1 where fe:
    "for_each (\<lambda>cluster s'. (yield1 (dax_encryption_at_rest_cluster t a r p cluster), s'))
       (listed_clusters dax c0) s1 = ((fs, ex), s)"
    unfolding dax_encryption_at_rest_check_def listed_clusters_def
    by (auto split: prod.splits sum.splits)
  from for_each_yield1_member [OF fe assms(2)] show ?thesis .
qed

lemma dax2_check_items:
  assumes "dax_encryption_in_transit_check dax t c0 a r p = ((fs, ex), s)" and "f \<in> set fs"
  shows "\<exists>cluster \<in> set (listed_clusters dax c0).
           dax_encryption_in_transit_cluster t a r p cluster = Inr f"
proof -
  from assms obtain s1 where fe:
    "for_each (\<lambda>cluster s'. (yield1 (dax_encryption_in_transit_cluster t a r p cluster), s'))
       (listed_clusters dax c0) s1 = ((fs, ex), s)"
    unfolding dax_encryption_in_transit_check_def listed_clusters_def
    by (auto split: prod.splits sum.splits)
  from for_each_yield1_member [OF fe assms(2)] show ?thesis .
qed

lemma ec2_instance_items:
  assumes "ec2_instance nm pi t a r p i s = ((fs, ex), s')" and "f \<in> set fs"
  shows "\<exists>inst ip. ec2_instance_attributes a r p i = Inr inst \<and>
           ec2_open_tcp_port pi t a r p inst ip = Inr f"
proof -
  from assms obtain inst ports s1 where at: "ec2_instance_attributes a r p i = Inr inst"
    and fe: "for_each (\<lambda>ip s''. (yield1 (ec2_open_tcp_port pi t a r p inst ip), s''))
       (enumerate 0 ports) s1 = ((fs, ex), s')"
    unfolding ec2_instance_def
    by (auto split: prod.splits sum.splits error.splits if_splits)
  from for_each_yield1_member [OF fe assms(2)] at show ?thesis by blast
qed

lemma ec2_check_items:
  assumes "ec2_attack_surface_open_tcp_port_check pg nm pi t c0 a r p = ((fs, ex), s)"
    and "f \<in> set fs"
  shows "\<exists>i \<in> set (listed_instances pg c0). \<exists>inst ip.
           ec2_instance_attributes a r p i = Inr inst \<and>
           ec2_open_tcp_port pi t a r p inst ip = Inr f"
proof -
  from assms obtain s1 where fe:
    "for_each (ec2_instance nm pi t a r p) (listed_instances pg c0) s1 = ((fs, ex), s)"
    unfolding ec2_attack_surface_open_tcp_port_check_def listed_instances_def
    by (auto split: prod.splits sum.splits)
  from for_each_member [OF fe assms(2)] ec2_instance_items show ?thesis by blast
qed

lemma elbv2_lb_items:
  assumes "elbv2_load_balancer nm t a r p lb0 s = ((fs, ex), s')" and "f \<in> set fs"
  shows "\<exists>lb ip. elbv2_attributes lb0 = Inr lb \<and> elbv2_open_tcp_port t a r p lb ip = Inr f"
proof -
  from assms obtain lb ports s1 where at: "elbv2_attributes lb0 = Inr lb"
    and fe: "for_each (\<lambda>ip s''. (yield1 (elbv2_open_tcp_port t a r p lb ip), s''))
       (enumerate 0 ports) s1 = ((fs, ex), s')"
    unfolding elbv2_load_balancer_def
    by (auto split: prod.splits sum.splits error.splits if_splits)
  from for_each_yield1_member [OF fe assms(2)] at show ?thesis by blast
qed

lemma elbv2_check_items:
  assumes "elbv2_attack_surface_open_tcp_port_check lbs nm t c0 a r p = ((fs, ex), s)"
    and "f \<in> set fs"
  shows "\<exists>lb0 \<in> set (listed_load_balancers lbs c0). \<exists>lb ip.
           elbv2_attributes lb0 = Inr lb \<and> elbv2_open_tcp_port t a r p lb ip = Inr f"
proof -
  from assms obtain s1 where fe:
    "for_each (elbv2_load_balancer nm t a r p) (listed_load_balancers lbs c0) s1
       = ((fs, ex), s)"
    unfolding elbv2_attack_surface_open_tcp_port_check_def listed_load_balancers_def
    by (auto split: prod.splits sum.splits)
  from for_each_member [OF fe assms(2)] elbv2_lb_items show ?thesis by blast
qed

section \<open>The execution cache\<close>

text \<open>A stored payload that is a true value is returned as it is, and nothing is
  requested.\<close>

lemma accessors_return_a_true_stored_payload:
  assumes "truthy v"
  shows "cache s ''describe_clusters'' = Some v \<Longrightarrow> describe_clusters dax s = (Inr v, s)"
    and "cache s ''instances'' = Some v \<Longrightarrow> ec2_paginate pg s = (Inr v, s)"
    and "cache s ''describe_load_balancers'' = Some v \<Longrightarrow>
           describe_load_balancers elbv2 s = (Inr v, s)"
  using assms
  by (simp_all add: describe_clusters_def ec2_paginate_def describe_load_balancers_def
        cache_get_def)

text \<open>A first call stores what the provider returned and counts one request.\<close>

lemma describe_clusters_stores_the_payload:
  assumes "cache s ''describe_clusters'' = None" and "dax (length (api_calls s)) = Inr v"
  shows "describe_clusters dax s =
           (Inr v, s\<lparr>api_calls := api_calls s @ [''dax.describe_clusters''],
                      cache := (cache s)(''describe_clusters'' \<mapsto> v)\<rparr>)"
  using assms by (simp add: describe_clusters_def cache_get_def request_def)

text \<open>
  C1. The claim: for every cache key the underlying fetch runs at most once per run, and
  every later call of the accessor returns the stored payload. Here \<open>ec2_paginate\<close> is
  called twice on one cache in a region that has no running instance at the first
  request. The empty list is stored, but it is a false value, so the second call sends the
  request again: two requests for the key \<open>instances\<close>, and the two calls return
  different payloads.
\<close>

theorem ec2_paginate_fetches_again_after_empty_payload:
  "(case ec2_paginate (Some quiet_then_busy) empty_run of
      (r1, s1) \<Rightarrow>
        (case ec2_paginate (Some quiet_then_busy) s1 of
           (r2, s2) \<Rightarrow>
             r1 = Inr (PList []) \<and>
             cache s1 ''instances'' = Some (PList []) \<and>
             api_calls s1 = [''ec2.describe_instances''] \<and>
             api_calls s2 = [''ec2.describe_instances'', ''ec2.describe_instances''] \<and>
             r2 = Inr (PList [PDict [(''InstanceId'', PStr ''i-0abc'')]])))"
  by (simp add: ec2_paginate_def quiet_then_busy_def empty_run_def cache_get_def request_def
        getitem_def)

section \<open>The guard of the encryption at rest check\<close>

text \<open>
  C10. In \<open>dax_encryption_at_rest_check\<close> the right-hand side of the guard,
  \<open>("ENABLING" or "ENABLED")\<close>, is the string \<open>ENABLING\<close>. So for a cluster whose
  finding is built, with encryption status \<open>st\<close>: every status other than \<open>ENABLING\<close>
  gives the FAILED/NEW/ACTIVE finding, in particular \<open>ENABLED\<close>, and the PASSED finding
  is given by the status \<open>ENABLING\<close> and by no other.
\<close>

theorem dax_at_rest_guard_passes_only_enabling:
  assumes "dax_encryption_at_rest_cluster t a r p cluster = Inr f"
    and "bindE (getitem cluster ''SSEDescription'') (\<lambda>sse. getitem sse ''Status'') = Inr st"
  shows "py_or (PStr ''ENABLING'') (PStr ''ENABLED'') = PStr ''ENABLING'' \<and>
         (st \<noteq> PStr ''ENABLING'' \<longrightarrow> is_failed f) \<and>
         (st = PStr ''ENABLED'' \<longrightarrow> is_failed f \<and> \<not> is_passed f) \<and>
         (st = PStr ''ENABLING'' \<longrightarrow> is_passed f) \<and>
         (is_passed f \<longrightarrow> st = PStr ''ENABLING'')"
proof -
  from dax1_cluster_verdict [OF assms(1)] assms(2)
  have v: "(st \<noteq> PStr ''ENABLING'' \<and> is_failed f) \<or> (st = PStr ''ENABLING'' \<and> is_passed f)"
    by (auto simp: follows_verdict_def dax_encryption_at_rest_fails_def or_enabling py_ne_str)
  then show ?thesis
    using failed_not_passed [of f] by (auto simp: or_enabling)
qed

theorem dax_at_rest_guard_passes_only_enabling_witness:
  "\<exists>f. dax_encryption_at_rest_cluster ''2021-01-01T00:00:00+00:00'' ''111111111111''
          ''us-east-1'' ''aws'' (dax_cluster ''orders'' ''ENABLED'') = Inr f \<and>
        is_failed f \<and> \<not> is_passed f"
proof -
  let ?c = "dax_cluster ''orders'' ''ENABLED''"
  have st: "bindE (getitem ?c ''SSEDescription'') (\<lambda>sse. getitem sse ''Status'')
              = Inr (PStr ''ENABLED'')"
    by (simp add: dax_cluster_def getitem_def)
  have "\<exists>f. dax_encryption_at_rest_cluster ''2021-01-01T00:00:00+00:00'' ''111111111111''
          ''us-east-1'' ''aws'' ?c = Inr f"
    by (simp add: dax_encryption_at_rest_cluster_def dax_cluster_def getitem_def
          dax_cluster_resources_def list_index_def py_ne_def py_or_def)
  then obtain f where f: "dax_encryption_at_rest_cluster ''2021-01-01T00:00:00+00:00''
          ''111111111111'' ''us-east-1'' ''aws'' ?c = Inr f" ..
  from dax_at_rest_guard_passes_only_enabling [OF f st] have "is_failed f \<and> \<not> is_passed f"
    by simp
  with f show ?thesis by blast
qed

section \<open>Verdict and finding\<close>

lemmas py_eval = getitem_def list_index_def py_str_def py_or_def py_ne_def

lemmas ec2_eval =
  ec2_attack_surface_open_tcp_port_check_def ec2_paginate_def cache_get_def request_def
  ec2_instance_def ec2_instance_attributes_def ec2_launched_at_def scan_host_def yield1_def
  ec2_open_tcp_port_def int_of_string_def py_strip_def py_isspace_def py_isdigit_def
  service_name_def upper_def upper_char_def Let_def enumerate_eq_zip

lemmas dax_eval =
  dax_encryption_at_rest_check_def describe_clusters_def cache_get_def request_def yield1_def
  dax_encryption_at_rest_cluster_def dax_cluster_resources_def

lemma passed_not_failed: "is_passed f \<Longrightarrow> \<not> is_failed f"
  by (auto simp: is_failed_def is_passed_def)

text \<open>
  C2. For every finding yielded by each of the four registered checks, the finding is the
  one its loop body built for some item, and it carries the fields of the verdict of the
  check on that item: for a failing verdict Severity label HIGH, Compliance.Status FAILED,
  Workflow.Status NEW and RecordState ACTIVE; for a passing verdict INFORMATIONAL, PASSED,
  RESOLVED and ARCHIVED.
\<close>

theorem findings_carry_the_fields_of_the_verdict:
  "(dax_encryption_at_rest_check dax t c0 a r p = ((fs1, ex1), s1) \<longrightarrow>
      (\<forall>f \<in> set fs1. \<exists>cluster \<in> set (listed_clusters dax c0).
          dax_encryption_at_rest_cluster t a r p cluster = Inr f \<and>
          follows_verdict (dax_encryption_at_rest_fails cluster) f)) \<and>
   (dax_encryption_in_transit_check dax t c0 a r p = ((fs2, ex2), s2) \<longrightarrow>
      (\<forall>f \<in> set fs2. \<exists>cluster \<in> set (listed_clusters dax c0).
          dax_encryption_in_transit_cluster t a r p cluster = Inr f \<and>
          follows_verdict (dax_encryption_in_transit_fails cluster) f)) \<and>
   (ec2_attack_surface_open_tcp_port_check pg nm pi t c0 a r p = ((fs3, ex3), s3) \<longrightarrow>
      (\<forall>f \<in> set fs3. \<exists>i \<in> set (listed_instances pg c0). \<exists>inst ip.
          ec2_instance_attributes a r p i = Inr inst \<and>
          ec2_open_tcp_port pi t a r p inst ip = Inr f \<and>
          follows_verdict (port_is_open (snd ip)) f)) \<and>
   (elbv2_attack_surface_open_tcp_port_check lbs nm t c0 a r p = ((fs4, ex4), s4) \<longrightarrow>
      (\<forall>f \<in> set fs4. \<exists>lb0 \<in> set (listed_load_balancers lbs c0). \<exists>lb ip.
          elbv2_attributes lb0 = Inr lb \<and>
          elbv2_open_tcp_port t a r p lb ip = Inr f \<and>
          follows_verdict (port_is_open (snd ip)) f))"
proof (intro conjI impI ballI)
  fix f assume "dax_encryption_at_rest_check dax t c0 a r p = ((fs1, ex1), s1)" "f \<in> set fs1"
  from dax1_check_items [OF this] dax1_cluster_verdict
  show "\<exists>cluster \<in> set (listed_clusters dax c0).
          dax_encryption_at_rest_cluster t a r p cluster = Inr f \<and>
          follows_verdict (dax_encryption_at_rest_fails cluster) f" by blast
next
  fix f assume "dax_encryption_in_transit_check dax t c0 a r p = ((fs2, ex2), s2)" "f \<in> set fs2"
  from dax2_check_items [OF this] dax2_cluster_verdict
  show "\<exists>cluster \<in> set (listed_clusters dax c0).
          dax_encryption_in_transit_cluster t a r p cluster = Inr f \<and>
          follows_verdict (dax_encryption_in_transit_fails cluster) f" by blast
next
  fix f assume "ec2_attack_surface_open_tcp_port_check pg nm pi t c0 a r p = ((fs3, ex3), s3)"
    "f \<in> set fs3"
  from ec2_check_items [OF this] ec2_port_verdict
  show "\<exists>i \<in> set (listed_instances pg c0). \<exists>inst ip.
          ec2_instance_attributes a r p i = Inr inst \<and>
          ec2_open_tcp_port pi t a r p inst ip = Inr f \<and>
          follows_verdict (port_is_open (snd ip)) f" by blast
next
  fix f assume "elbv2_attack_surface_open_tcp_port_check lbs nm t c0 a r p = ((fs4, ex4), s4)"
    "f \<in> set fs4"
  from elbv2_check_items [OF this] elbv2_port_verdict
  show "\<exists>lb0 \<in> set (listed_load_balancers lbs c0). \<exists>lb ip.
          elbv2_attributes lb0 = Inr lb \<and>
          elbv2_open_tcp_port t a r p lb ip = Inr f \<and>
          follows_verdict (port_is_open (snd ip)) f" by blast
qed

text \<open>A run of the DAX check over two clusters and a run of the EC2 check over one
  instance with an open and a filtered port: each yields a failing and a passing finding.\<close>

theorem findings_carry_the_fields_of_the_verdict_witness:
  "(case dax_encryption_at_rest_check two_clusters ''2021-01-01T00:00:00+00:00'' empty_run
           ''111111111111'' ''us-east-1'' ''aws'' of
      ((fs, ex), s) \<Rightarrow>
        ex = None \<and> map is_failed fs = [True, False] \<and> map is_passed fs = [False, True] \<and>
        (\<forall>f \<in> set fs. \<exists>cluster \<in> set (listed_clusters two_clusters empty_run).
           dax_encryption_at_rest_cluster ''2021-01-01T00:00:00+00:00'' ''111111111111''
             ''us-east-1'' ''aws'' cluster = Inr f \<and>
           follows_verdict (dax_encryption_at_rest_fails cluster) f)) \<and>
   (case ec2_attack_surface_open_tcp_port_check (Some one_instance) web_scan iso_of
           ''2021-01-01T00:00:00+00:00'' empty_run ''111111111111'' ''us-east-1'' ''aws'' of
      ((fs, ex), s) \<Rightarrow>
        ex = None \<and> map is_failed fs = [True, False] \<and> map is_passed fs = [False, True] \<and>
        (\<forall>f \<in> set fs. \<exists>i \<in> set (listed_instances (Some one_instance) empty_run).
           \<exists>inst ip.
             ec2_instance_attributes ''111111111111'' ''us-east-1'' ''aws'' i = Inr inst \<and>
             ec2_open_tcp_port iso_of ''2021-01-01T00:00:00+00:00'' ''111111111111''
               ''us-east-1'' ''aws'' inst ip = Inr f \<and>
             follows_verdict (port_is_open (snd ip)) f))"
proof -
  let ?t = "''2021-01-01T00:00:00+00:00''" and ?a = "''111111111111''"
  let ?d = "dax_encryption_at_rest_check two_clusters ?t empty_run ?a ''us-east-1'' ''aws''"
  let ?e = "ec2_attack_surface_open_tcp_port_check (Some one_instance) web_scan iso_of ?t
              empty_run ?a ''us-east-1'' ''aws''"
  obtain fs1 ex1 s1 where d: "?d = ((fs1, ex1), s1)" by (metis prod.exhaust)
  obtain fs3 ex3 s3 where e: "?e = ((fs3, ex3), s3)" by (metis prod.exhaust)
  have dv: "snd (fst ?d) = None \<and> map is_failed (fst (fst ?d)) = [True, False] \<and>
            map is_passed (fst (fst ?d)) = [False, True]"
    by (simp add: dax_eval two_clusters_def empty_run_def dax_cluster_def py_eval
          dax1_failing dax1_passing failed_not_passed passed_not_failed)
  have ev: "snd (fst ?e) = None \<and> map is_failed (fst (fst ?e)) = [True, False] \<and>
            map is_passed (fst (fst ?e)) = [False, True]"
    by (simp add: ec2_eval one_instance_def empty_run_def web_instance_def web_scan_def
          iso_of_def py_eval ec2_failing ec2_passing failed_not_passed passed_not_failed)
  from findings_carry_the_fields_of_the_verdict
    [of two_clusters ?t empty_run ?a "''us-east-1''" "''aws''" fs1 ex1 s1 _ _ _
        "Some one_instance" web_scan iso_of fs3 ex3 s3]
    d e dv ev
  show ?thesis by simp
qed

section \<open>The id of a finding\<close>

lemma dax1_id:
  "dax_encryption_at_rest_cluster t a r p c = Inr f \<Longrightarrow>
     \<exists>arn. getitem c ''ClusterArn'' = Inr arn \<and>
       getitem f ''Id'' = Inr (finding_id_of (py_str arn) ''dax-encryption-at-rest-check'')"
  unfolding dax_encryption_at_rest_cluster_def
  by (auto dest!: bindE_Inr split: if_splits
        simp: dax1_failing_finding_def dax1_passing_finding_def finding_id_of_def getitem_def)

lemma dax2_id:
  "dax_encryption_in_transit_cluster t a r p c = Inr f \<Longrightarrow>
     \<exists>arn. getitem c ''ClusterArn'' = Inr arn \<and>
       getitem f ''Id'' = Inr (finding_id_of (py_str arn) ''dax-encryption-in-transit-check'')"
  unfolding dax_encryption_in_transit_cluster_def
  by (auto dest!: bindE_Inr split: if_splits
        simp: dax2_failing_finding_def dax2_passing_finding_def finding_id_of_def getitem_def)

lemma ec2_id:
  "ec2_open_tcp_port pi t a r p inst ip = Inr f \<Longrightarrow>
     \<exists>svc. port_service_name (snd ip) = Inr svc \<and>
       getitem f ''Id'' =
         Inr (finding_id_of (instanceArn inst) (''attack-surface-ec2-open-'' @ svc @ ''-check''))"
  unfolding ec2_open_tcp_port_def port_service_name_def
  by (cases ip)
     (auto dest!: bindE_Inr split: if_splits
        simp: ec2_failing_finding_def ec2_passing_finding_def finding_id_of_def Let_def
              subscript.simps(1) [of _ "''Id''", folded getitem_def])

lemma elbv2_id:
  "elbv2_open_tcp_port t a r p lb ip = Inr f \<Longrightarrow>
     \<exists>svc. port_service_name (snd ip) = Inr svc \<and>
       getitem f ''Id'' =
         Inr (finding_id_of (elbv2Arn lb) (''attack-surface-elbv2-open-'' @ svc @ ''-check''))"
  unfolding elbv2_open_tcp_port_def port_service_name_def
  by (cases ip)
     (auto dest!: bindE_Inr split: if_splits
        simp: elbv2_failing_finding_def elbv2_passing_finding_def finding_id_of_def Let_def
              subscript.simps(1) [of _ "''Id''", folded getitem_def])

text \<open>
  C6. The Id of every finding yielded by a check is the ARN of the resource followed by
  the code suffix of the check, in the passing and in the failing branch alike (for the
  attack surface checks the suffix carries the service name of the scanned port). So two
  evaluations of a check, at any two times and whatever the other attributes and the
  verdicts are, give the same Id for the same resource ARN: a re-run overwrites.
\<close>

theorem finding_id_is_arn_and_check_code:
  "(dax_encryption_at_rest_check dax t c0 a r p = ((fs1, ex1), s1) \<longrightarrow>
      (\<forall>f \<in> set fs1. \<exists>cluster \<in> set (listed_clusters dax c0). \<exists>arn.
          dax_encryption_at_rest_cluster t a r p cluster = Inr f \<and>
          getitem cluster ''ClusterArn'' = Inr arn \<and>
          getitem f ''Id'' = Inr (finding_id_of (py_str arn) ''dax-encryption-at-rest-check''))) \<and>
   (dax_encryption_in_transit_check dax t c0 a r p = ((fs2, ex2), s2) \<longrightarrow>
      (\<forall>f \<in> set fs2. \<exists>cluster \<in> set (listed_clusters dax c0). \<exists>arn.
          dax_encryption_in_transit_cluster t a r p cluster = Inr f \<and>
          getitem cluster ''ClusterArn'' = Inr arn \<and>
          getitem f ''Id'' =
            Inr (finding_id_of (py_str arn) ''dax-encryption-in-transit-check''))) \<and>
   (ec2_attack_surface_open_tcp_port_check pg nm pi t c0 a r p = ((fs3, ex3), s3) \<longrightarrow>
      (\<forall>f \<in> set fs3. \<exists>i \<in> set (listed_instances pg c0). \<exists>inst ip svc.
          ec2_instance_attributes a r p i = Inr inst \<and>
          ec2_open_tcp_port pi t a r p inst ip = Inr f \<and>
          port_service_name (snd ip) = Inr svc \<and>
          getitem f ''Id'' =
            Inr (finding_id_of (instanceArn inst)
                   (''attack-surface-ec2-open-'' @ svc @ ''-check'')))) \<and>
   (elbv2_attack_surface_open_tcp_port_check lbs nm t c0 a r p = ((fs4, ex4), s4) \<longrightarrow>
      (\<forall>f \<in> set fs4. \<exists>lb0 \<in> set (listed_load_balancers lbs c0). \<exists>lb ip svc.
          elbv2_attributes lb0 = Inr lb \<and>
          elbv2_open_tcp_port t a r p lb ip = Inr f \<and>
          port_service_name (snd ip) = Inr svc \<and>
          getitem f ''Id'' =
            Inr (finding_id_of (elbv2Arn lb)
                   (''attack-surface-elbv2-open-'' @ svc @ ''-check'')))) \<and>
   (dax_encryption_at_rest_cluster t1 a1 r1 p1 c1 = Inr f1 \<and>
    dax_encryption_at_rest_cluster t2 a2 r2 p2 c2 = Inr f2 \<and>
    getitem c1 ''ClusterArn'' = getitem c2 ''ClusterArn'' \<longrightarrow>
      getitem f1 ''Id'' = getitem f2 ''Id'') \<and>
   (dax_encryption_in_transit_cluster t1 a1 r1 p1 c1 = Inr g1 \<and>
    dax_encryption_in_transit_cluster t2 a2 r2 p2 c2 = Inr g2 \<and>
    getitem c1 ''ClusterArn'' = getitem c2 ''ClusterArn'' \<longrightarrow>
      getitem g1 ''Id'' = getitem g2 ''Id'') \<and>
   (ec2_open_tcp_port pi1 t1 a1 r1 p1 inst1 ip1 = Inr h1 \<and>
    ec2_open_tcp_port pi2 t2 a2 r2 p2 inst2 ip2 = Inr h2 \<and>
    instanceArn inst1 = instanceArn inst2 \<and>
    port_service_name (snd ip1) = port_service_name (snd ip2) \<longrightarrow>
      getitem h1 ''Id'' = getitem h2 ''Id'') \<and>
   (elbv2_open_tcp_port t1 a1 r1 p1 lb1 ip1 = Inr k1 \<and>
    elbv2_open_tcp_port t2 a2 r2 p2 lb2 ip2 = Inr k2 \<and>
    elbv2Arn lb1 = elbv2Arn lb2 \<and>
    port_service_name (snd ip1) = port_service_name (snd ip2) \<longrightarrow>
      getitem k1 ''Id'' = getitem k2 ''Id'')"
proof (intro conjI impI ballI)
  fix f assume "dax_encryption_at_rest_check dax t c0 a r p = ((fs1, ex1), s1)" "f \<in> set fs1"
  from dax1_check_items [OF this] dax1_id
  show "\<exists>cluster \<in> set (listed_clusters dax c0). \<exists>arn.
          dax_encryption_at_rest_cluster t a r p cluster = Inr f \<and>
          getitem cluster ''ClusterArn'' = Inr arn \<and>
          getitem f ''Id'' = Inr (finding_id_of (py_str arn) ''dax-encryption-at-rest-check'')"
    by blast
next
  fix f assume "dax_encryption_in_transit_check dax t c0 a r p = ((fs2, ex2), s2)" "f \<in> set fs2"
  from dax2_check_items [OF this] dax2_id
  show "\<exists>cluster \<in> set (listed_clusters dax c0). \<exists>arn.
          dax_encryption_in_transit_cluster t a r p cluster = Inr f \<and>
          getitem cluster ''ClusterArn'' = Inr arn \<and>
          getitem f ''Id'' = Inr (finding_id_of (py_str arn) ''dax-encryption-in-transit-check'')"
    by blast
next
  fix f assume "ec2_attack_surface_open_tcp_port_check pg nm pi t c0 a r p = ((fs3, ex3), s3)"
    "f \<in> set fs3"
  from ec2_check_items [OF this] ec2_id
  show "\<exists>i \<in> set (listed_instances pg c0). \<exists>inst ip svc.
          ec2_instance_attributes a r p i = Inr inst \<and>
          ec2_open_tcp_port pi t a r p inst ip = Inr f \<and>
          port_service_name (snd ip) = Inr svc \<and>
          getitem f ''Id'' =
            Inr (finding_id_of (instanceArn inst)
                   (''attack-surface-ec2-open-'' @ svc @ ''-check''))"
    by blast
next
  fix f assume "elbv2_attack_surface_open_tcp_port_check lbs nm t c0 a r p = ((fs4, ex4), s4)"
    "f \<in> set fs4"
  from elbv2_check_items [OF this] elbv2_id
  show "\<exists>lb0 \<in> set (listed_load_balancers lbs c0). \<exists>lb ip svc.
          elbv2_attributes lb0 = Inr lb \<and>
          elbv2_open_tcp_port t a r p lb ip = Inr f \<and>
          port_service_name (snd ip) = Inr svc \<and>
          getitem f ''Id'' =
            Inr (finding_id_of (elbv2Arn lb)
                   (''attack-surface-elbv2-open-'' @ svc @ ''-check''))"
    by blast
next
  assume "dax_encryption_at_rest_cluster t1 a1 r1 p1 c1 = Inr f1 \<and>
    dax_encryption_at_rest_cluster t2 a2 r2 p2 c2 = Inr f2 \<and>
    getitem c1 ''ClusterArn'' = getitem c2 ''ClusterArn''"
  then show "getitem f1 ''Id'' = getitem f2 ''Id''"
    using dax1_id [of t1 a1 r1 p1 c1 f1] dax1_id [of t2 a2 r2 p2 c2 f2] by auto
next
  assume "dax_encryption_in_transit_cluster t1 a1 r1 p1 c1 = Inr g1 \<and>
    dax_encryption_in_transit_cluster t2 a2 r2 p2 c2 = Inr g2 \<and>
    getitem c1 ''ClusterArn'' = getitem c2 ''ClusterArn''"
  then show "getitem g1 ''Id'' = getitem g2 ''Id''"
    using dax2_id [of t1 a1 r1 p1 c1 g1] dax2_id [of t2 a2 r2 p2 c2 g2] by auto
next
  assume "ec2_open_tcp_port pi1 t1 a1 r1 p1 inst1 ip1 = Inr h1 \<and>
    ec2_open_tcp_port pi2 t2 a2 r2 p2 inst2 ip2 = Inr h2 \<and>
    instanceArn inst1 = instanceArn inst2 \<and>
    port_service_name (snd ip1) = port_service_name (snd ip2)"
  then show "getitem h1 ''Id'' = getitem h2 ''Id''"
    using ec2_id [of pi1 t1 a1 r1 p1 inst1 ip1 h1] ec2_id [of pi2 t2 a2 r2 p2 inst2 ip2 h2]
    by auto
next
  assume "elbv2_open_tcp_port t1 a1 r1 p1 lb1 ip1 = Inr k1 \<and>
    elbv2_open_tcp_port t2 a2 r2 p2 lb2 ip2 = Inr k2 \<and>
    elbv2Arn lb1 = elbv2Arn lb2 \<and>
    port_service_name (snd ip1) = port_service_name (snd ip2)"
  then show "getitem k1 ''Id'' = getitem k2 ''Id''"
    using elbv2_id [of t1 a1 r1 p1 lb1 ip1 k1] elbv2_id [of t2 a2 r2 p2 lb2 ip2 k2]
    by auto
qed

text \<open>The same cluster evaluated at two times, failing at the first and passing at the
  second: one Id.\<close>

theorem finding_id_is_arn_and_check_code_witness:
  "\<exists>f1 f2.
     dax_encryption_at_rest_cluster ''2021-01-01T00:00:00+00:00'' ''111111111111''
       ''us-east-1'' ''aws'' (dax_cluster ''orders'' ''ENABLED'') = Inr f1 \<and>
     dax_encryption_at_rest_cluster ''2021-06-30T12:00:00+00:00'' ''111111111111''
       ''us-east-1'' ''aws'' (dax_cluster ''orders'' ''ENABLING'') = Inr f2 \<and>
     is_failed f1 \<and> is_passed f2 \<and>
     getitem f1 ''Id'' = getitem f2 ''Id'' \<and>
     getitem f2 ''Id'' =
       Inr (PStr ''arn:aws:dax:us-east-1:111111111111:cache/orders/dax-encryption-at-rest-check'')"
proof -
  let ?b1 = "dax_encryption_at_rest_cluster ''2021-01-01T00:00:00+00:00'' ''111111111111''
       ''us-east-1'' ''aws'' (dax_cluster ''orders'' ''ENABLED'')"
  let ?b2 = "dax_encryption_at_rest_cluster ''2021-06-30T12:00:00+00:00'' ''111111111111''
       ''us-east-1'' ''aws'' (dax_cluster ''orders'' ''ENABLING'')"
  have "\<exists>f. ?b1 = Inr f \<and> is_failed f"
    by (simp add: dax_encryption_at_rest_cluster_def dax_cluster_def dax_cluster_resources_def
          py_eval dax1_failing)
  then obtain f1 where f1: "?b1 = Inr f1" "is_failed f1" by blast
  have "\<exists>f. ?b2 = Inr f \<and> is_passed f \<and> getitem f ''Id'' =
       Inr (PStr ''arn:aws:dax:us-east-1:111111111111:cache/orders/dax-encryption-at-rest-check'')"
    by (simp add: dax_encryption_at_rest_cluster_def dax_cluster_def dax_cluster_resources_def
          py_eval dax1_passing)
       (simp add: dax1_passing_finding_def getitem_def py_str_def)
  then obtain f2 where f2: "?b2 = Inr f2" "is_passed f2" "getitem f2 ''Id'' =
       Inr (PStr ''arn:aws:dax:us-east-1:111111111111:cache/orders/dax-encryption-at-rest-check'')"
    by blast
  have arn: "getitem (dax_cluster ''orders'' ''ENABLED'') ''ClusterArn'' =
             getitem (dax_cluster ''orders'' ''ENABLING'') ''ClusterArn''"
    by (simp add: dax_cluster_def getitem_def)
  from finding_id_is_arn_and_check_code
    [where ?t1.0 = "''2021-01-01T00:00:00+00:00''" and ?a1.0 = "''111111111111''"
       and ?r1.0 = "''us-east-1''" and ?p1.0 = "''aws''"
       and ?c1.0 = "dax_cluster ''orders'' ''ENABLED''" and ?f1.0 = f1
       and ?t2.0 = "''2021-06-30T12:00:00+00:00''" and ?a2.0 = "''111111111111''"
       and ?r2.0 = "''us-east-1''" and ?p2.0 = "''aws''"
       and ?c2.0 = "dax_cluster ''orders'' ''ENABLING''" and ?f2.0 = f2,
     THEN conjunct2, THEN conjunct2, THEN conjunct2, THEN conjunct2, THEN conjunct1]
    f1 f2 arn
  have "getitem f1 ''Id'' = getitem f2 ''Id''" by simp
  with f1 f2 show ?thesis by blast
qed

section \<open>Missing attributes\<close>

lemma first_error_None: "first_error rs = None \<longleftrightarrow> (\<forall>r \<in> set rs. \<exists>v. r = Inr v)"
  by (induction rs rule: first_error.induct) auto

lemma dax_resources_raise:
  "first_error (map snd (tl (dax_details_read c))) = Some e \<Longrightarrow>
     dax_cluster_resources r p c n arn = Inl e"
  unfolding dax_details_read_def dax_cluster_resources_def field2_def str_of_def
  apply (cases "getitem c ''TotalNodes''"; simp)
  apply (cases "getitem c ''NodeType''"; simp)
  apply (cases "getitem c ''Status''"; simp)
  apply (cases "bindE (getitem c ''ClusterDiscoveryEndpoint'') (\<lambda>ep. getitem ep ''Address'')"; simp)
  apply (cases "bindE (getitem c ''ClusterDiscoveryEndpoint'') (\<lambda>ep. getitem ep ''Port'')"; simp)
  apply (cases "bindE (getitem c ''ClusterDiscoveryEndpoint'') (\<lambda>ep. getitem ep ''URL'')"; simp)
  apply (cases "getitem c ''SubnetGroup''"; simp)
  apply (cases "bindE (getitem c ''SecurityGroups'') (\<lambda>sgs.
            bindE (subscript sgs (PInt 0)) (\<lambda>sg. getitem sg ''SecurityGroupIdentifier''))"; simp)
  apply (cases "getitem c ''IamRoleArn''"; simp)
  apply (cases "bindE (getitem c ''ParameterGroup'') (\<lambda>pg. getitem pg ''ParameterGroupName'')"; simp)
  done

lemma dax_resources_values:
  "map snd (tl (dax_details_read c)) = map Inr vs \<Longrightarrow>
     dax_cluster_resources r p c n arn =
       Inr (PList [PDict [(''Type'', PStr ''AwsDaxCluster''), (''Id'', arn),
              (''Partition'', PStr p), (''Region'', PStr r),
              (''Details'', PDict [(''Other'',
                 PDict ((''ClusterName'', n) # zip (map fst (tl (dax_details_read c))) vs))])]])"
  unfolding dax_details_read_def dax_cluster_resources_def field2_def str_of_def
  by (clarsimp simp: Cons_eq_map_conv dest!: bindE_Inr)


lemma first_error_all_values: "first_error rs = None \<Longrightarrow> \<exists>vs. rs = map Inr vs"
  by (induction rs rule: first_error.induct) (auto simp: Cons_eq_map_conv)

lemma dax_details_read_name:
  "dax_details_read c = (''ClusterName'', getitem c ''ClusterName'') # tl (dax_details_read c)"
  by (simp add: dax_details_read_def)

lemma dax_finding_details:
  "finding_details (dax1_failing_finding t a r p n arn (PList (res # rest))) k
     = bindE (getitem res ''Details'') (\<lambda>details. getitem details k)"
  "finding_details (dax1_passing_finding t a r p n arn (PList (res # rest))) k
     = bindE (getitem res ''Details'') (\<lambda>details. getitem details k)"
  "finding_details (dax2_failing_finding t a r p n arn (PList (res # rest))) k
     = bindE (getitem res ''Details'') (\<lambda>details. getitem details k)"
  "finding_details (dax2_passing_finding t a r p n arn (PList (res # rest))) k
     = bindE (getitem res ''Details'') (\<lambda>details. getitem details k)"
  by (simp_all add: finding_details_def dax1_failing_finding_def dax1_passing_finding_def
        dax2_failing_finding_def dax2_passing_finding_def getitem_def list_index_def)

lemma dax1_raises:
  assumes "first_error (dax1_reads c) = Some e"
  shows "dax_encryption_at_rest_cluster t a r p c = Inl e"
proof (cases "getitem c ''ClusterName''")
  case (Inl e1)
  with assms show ?thesis
    by (simp add: dax1_reads_def dax_encryption_at_rest_cluster_def)
next
  case n: (Inr n)
  show ?thesis
  proof (cases "getitem c ''ClusterArn''")
    case (Inl e2)
    with assms n show ?thesis
      by (simp add: dax1_reads_def dax_encryption_at_rest_cluster_def)
  next
    case arn: (Inr arn)
    show ?thesis
    proof (cases "bindE (getitem c ''SSEDescription'') (\<lambda>sse. getitem sse ''Status'')")
      case (Inl e3)
      with assms n arn show ?thesis
        by (simp add: dax1_reads_def dax_encryption_at_rest_cluster_def field2_def)
    next
      case st: (Inr st)
      from assms n arn st have "first_error (map snd (tl (dax_details_read c))) = Some e"
        by (subst (asm) dax1_reads_def, subst (asm) dax_details_read_name)
           (simp add: field2_def)
      from dax_resources_raise [OF this] n arn st show ?thesis
        by (simp add: dax_encryption_at_rest_cluster_def)
    qed
  qed
qed

lemma dax1_values:
  assumes "first_error (dax1_reads c) = None"
  shows "\<exists>f vs. dax_encryption_at_rest_cluster t a r p c = Inr f \<and>
           map snd (dax_details_read c) = map Inr vs \<and>
           finding_details f ''Other'' = Inr (PDict (zip (map fst (dax_details_read c)) vs))"
proof -
  from first_error_all_values [OF assms] obtain ws where "dax1_reads c = map Inr ws" ..
  then obtain n arn st vs where n: "getitem c ''ClusterName'' = Inr n"
    and arn: "getitem c ''ClusterArn'' = Inr arn"
    and st: "bindE (getitem c ''SSEDescription'') (\<lambda>sse. getitem sse ''Status'') = Inr st"
    and vs: "map snd (dax_details_read c) = map Inr vs"
    by (auto simp: dax1_reads_def field2_def Cons_eq_map_conv)
  from vs n obtain us where us: "vs = n # us" "map snd (tl (dax_details_read c)) = map Inr us"
    by (subst (asm) dax_details_read_name) (auto simp: Cons_eq_map_conv)
  have keys: "map fst (dax_details_read c) = ''ClusterName'' # map fst (tl (dax_details_read c))"
    by (subst dax_details_read_name) simp
  let ?res = "PList [PDict [(''Type'', PStr ''AwsDaxCluster''), (''Id'', arn),
              (''Partition'', PStr p), (''Region'', PStr r),
              (''Details'', PDict [(''Other'',
                 PDict ((''ClusterName'', n) # zip (map fst (tl (dax_details_read c))) us))])]]"
  from dax_resources_values [OF us(2)]
  have res: "dax_cluster_resources r p c n arn = Inr ?res" .
  have "\<exists>f. dax_encryption_at_rest_cluster t a r p c = Inr f \<and>
          finding_details f ''Other''
            = Inr (PDict ((''ClusterName'', n) # zip (map fst (tl (dax_details_read c))) us))"
    using n arn st res
    by (simp add: dax_encryption_at_rest_cluster_def dax_finding_details getitem_def)
  then obtain f where f: "dax_encryption_at_rest_cluster t a r p c = Inr f"
    "finding_details f ''Other''
       = Inr (PDict ((''ClusterName'', n) # zip (map fst (tl (dax_details_read c))) us))"
    by blast
  have "zip (map fst (dax_details_read c)) vs
          = (''ClusterName'', n) # zip (map fst (tl (dax_details_read c))) us"
    by (subst keys) (simp add: us(1))
  with f vs show ?thesis by auto
qed

lemma dax2_raises:
  assumes "first_error (dax2_reads c) = Some e"
  shows "dax_encryption_in_transit_cluster t a r p c = Inl e"
proof (cases "getitem c ''ClusterName''")
  case (Inl e1)
  with assms show ?thesis
    by (simp add: dax2_reads_def dax_encryption_in_transit_cluster_def)
next
  case n: (Inr n)
  show ?thesis
  proof (cases "getitem c ''ClusterArn''")
    case (Inl e2)
    with assms n show ?thesis
      by (simp add: dax2_reads_def dax_encryption_in_transit_cluster_def)
  next
    case arn: (Inr arn)
    show ?thesis
    proof (cases "getitem c ''ClusterEndpointEncryptionType''")
      case (Inl e3)
      with assms n arn show ?thesis
        by (simp add: dax2_reads_def dax_encryption_in_transit_cluster_def field2_def)
    next
      case st: (Inr st)
      from assms n arn st have "first_error (map snd (tl (dax_details_read c))) = Some e"
        by (subst (asm) dax2_reads_def, subst (asm) dax_details_read_name)
           (simp add: field2_def)
      from dax_resources_raise [OF this] n arn st show ?thesis
        by (simp add: dax_encryption_in_transit_cluster_def)
    qed
  qed
qed

lemma dax2_values:
  assumes "first_error (dax2_reads c) = None"
  shows "\<exists>f vs. dax_encryption_in_transit_cluster t a r p c = Inr f \<and>
           map snd (dax_details_read c) = map Inr vs \<and>
           finding_details f ''Other'' = Inr (PDict (zip (map fst (dax_details_read c)) vs))"
proof -
  from first_error_all_values [OF assms] obtain ws where "dax2_reads c = map Inr ws" ..
  then obtain n arn st vs where n: "getitem c ''ClusterName'' = Inr n"
    and arn: "getitem c ''ClusterArn'' = Inr arn"
    and st: "getitem c ''ClusterEndpointEncryptionType'' = Inr st"
    and vs: "map snd (dax_details_read c) = map Inr vs"
    by (auto simp: dax2_reads_def field2_def Cons_eq_map_conv)
  from vs n obtain us where us: "vs = n # us" "map snd (tl (dax_details_read c)) = map Inr us"
    by (subst (asm) dax_details_read_name) (auto simp: Cons_eq_map_conv)
  have keys: "map fst (dax_details_read c) = ''ClusterName'' # map fst (tl (dax_details_read c))"
    by (subst dax_details_read_name) simp
  let ?res = "PList [PDict [(''Type'', PStr ''AwsDaxCluster''), (''Id'', arn),
              (''Partition'', PStr p), (''Region'', PStr r),
              (''Details'', PDict [(''Other'',
                 PDict ((''ClusterName'', n) # zip (map fst (tl (dax_details_read c))) us))])]]"
  from dax_resources_values [OF us(2)]
  have res: "dax_cluster_resources r p c n arn = Inr ?res" .
  have "\<exists>f. dax_encryption_in_transit_cluster t a r p c = Inr f \<and>
          finding_details f ''Other''
            = Inr (PDict ((''ClusterName'', n) # zip (map fst (tl (dax_details_read c))) us))"
    using n arn st res
    by (simp add: dax_encryption_in_transit_cluster_def dax_finding_details getitem_def)
  then obtain f where f: "dax_encryption_in_transit_cluster t a r p c = Inr f"
    "finding_details f ''Other''
       = Inr (PDict ((''ClusterName'', n) # zip (map fst (tl (dax_details_read c))) us))"
    by blast
  have "zip (map fst (dax_details_read c)) vs
          = (''ClusterName'', n) # zip (map fst (tl (dax_details_read c))) us"
    by (subst keys) (simp add: us(1))
  with f vs show ?thesis by auto
qed


lemma for_each_yield1_values:
  "map g pre = map Inr fs \<Longrightarrow> for_each (\<lambda>x s'. (yield1 (g x), s')) pre s = ((fs, None), s)"
proof (induction pre arbitrary: fs)
  case Nil
  then show ?case by simp
next
  case (Cons x xs)
  then obtain f gs where "fs = f # gs" "g x = Inr f" "map g xs = map Inr gs"
    by (auto simp: Cons_eq_map_conv)
  with Cons.IH [of gs] show ?case by (simp add: yield1_def)
qed

lemma for_each_append_raises:
  "for_each body pre s = ((fs, None), s1) \<Longrightarrow> body c s1 = ((gs, Some e), s2) \<Longrightarrow>
     for_each body (pre @ c # post) s = ((fs @ gs, Some e), s2)"
proof (induction pre arbitrary: fs s)
  case Nil
  then show ?case by simp
next
  case (Cons x xs)
  obtain hs r1 s3 where b: "body x s = ((hs, r1), s3)" by (metis prod.exhaust)
  obtain ks r2 s4 where rec: "for_each body xs s3 = ((ks, r2), s4)" by (metis prod.exhaust)
  from Cons.prems(1) b rec have "r1 = None" "r2 = None" "fs = hs @ ks" "s4 = s1"
    by (cases r1; simp)+
  with Cons.IH [of s3 ks] rec Cons.prems(2) b show ?case by simp
qed

lemma dax1_check_raises:
  assumes "listed_clusters dax c0 = pre @ c # post"
    and "map (dax_encryption_at_rest_cluster t a r p) pre = map Inr fs"
    and "dax_encryption_at_rest_cluster t a r p c = Inl e"
  shows "fst (dax_encryption_at_rest_check dax t c0 a r p) = (fs, Some e)"
proof -
  from assms(1) obtain response s1 where dc: "describe_clusters dax c0 = (Inr response, s1)"
    and it: "bindE (getitem response ''Clusters'') py_iter = Inr (pre @ c # post)"
    unfolding listed_clusters_def
    by (cases "describe_clusters dax c0") (auto split: sum.splits)
  let ?body = "\<lambda>cluster s'. (yield1 (dax_encryption_at_rest_cluster t a r p cluster), s')"
  from for_each_yield1_values [OF assms(2)]
  have "for_each ?body pre s1 = ((fs, None), s1)" .
  from for_each_append_raises [of ?body, OF this, of c "[]" e s1 post] assms(3)
  have "for_each ?body (pre @ c # post) s1 = ((fs, Some e), s1)"
    by (simp add: yield1_def)
  with dc it show ?thesis by (simp add: dax_encryption_at_rest_check_def)
qed

lemma dax2_check_raises:
  assumes "listed_clusters dax c0 = pre @ c # post"
    and "map (dax_encryption_in_transit_cluster t a r p) pre = map Inr fs"
    and "dax_encryption_in_transit_cluster t a r p c = Inl e"
  shows "fst (dax_encryption_in_transit_check dax t c0 a r p) = (fs, Some e)"
proof -
  from assms(1) obtain response s1 where dc: "describe_clusters dax c0 = (Inr response, s1)"
    and it: "bindE (getitem response ''Clusters'') py_iter = Inr (pre @ c # post)"
    unfolding listed_clusters_def
    by (cases "describe_clusters dax c0") (auto split: sum.splits)
  let ?body = "\<lambda>cluster s'. (yield1 (dax_encryption_in_transit_cluster t a r p cluster), s')"
  from for_each_yield1_values [OF assms(2)]
  have "for_each ?body pre s1 = ((fs, None), s1)" .
  from for_each_append_raises [of ?body, OF this, of c "[]" e s1 post] assms(3)
  have "for_each ?body (pre @ c # post) s1 = ((fs, Some e), s1)"
    by (simp add: yield1_def)
  with dc it show ?thesis by (simp add: dax_encryption_in_transit_check_def)
qed

lemma map_of_filter_key:
  "map_of (filter (\<lambda>kv. fst kv \<noteq> k) d) k' = (if k' = k then None else map_of d k')"
  by (induction d) auto

lemma getitem_without_key:
  "getitem (without_key k (PDict d)) k' =
     (if k' = k then Inl (KeyError (PStr k)) else getitem (PDict d) k')"
  by (simp add: without_key_def getitem_def map_of_filter_key)

lemma getitem_with_key:
  "getitem (with_key k x (PDict d)) k' = (if k' = k then Inr x else getitem (PDict d) k')"
  by (simp add: with_key_def getitem_def map_of_filter_key)

lemma getitem_value_dict: "getitem c k = Inr v \<Longrightarrow> \<exists>d. c = PDict d"
  by (cases c) (simp_all add: getitem_def)

lemma dax1_reads_dict: "first_error (dax1_reads c) = None \<Longrightarrow> \<exists>d. c = PDict d"
  by (auto simp: first_error_None dax1_reads_def dest: getitem_value_dict)

lemma dax2_reads_dict: "first_error (dax2_reads c) = None \<Longrightarrow> \<exists>d. c = PDict d"
  by (auto simp: first_error_None dax2_reads_def dest: getitem_value_dict)

lemma dax1_reads_without_endpoint:
  assumes "first_error (dax1_reads c) = None"
  shows "first_error (dax1_reads (without_key ''ClusterDiscoveryEndpoint'' c))
           = Some (KeyError (PStr ''ClusterDiscoveryEndpoint''))"
proof -
  from dax1_reads_dict [OF assms] obtain d where d: "c = PDict d" ..
  from assms [unfolded first_error_None] show ?thesis
    unfolding d dax1_reads_def dax_details_read_def field2_def str_of_def
    by (auto simp: getitem_without_key)
qed

lemma dax1_reads_no_security_group:
  assumes "first_error (dax1_reads c) = None"
  shows "first_error (dax1_reads (with_key ''SecurityGroups'' (PList []) c)) = Some IndexError"
proof -
  from dax1_reads_dict [OF assms] obtain d where d: "c = PDict d" ..
  from assms [unfolded first_error_None] show ?thesis
    unfolding d dax1_reads_def dax_details_read_def field2_def str_of_def
    by (auto simp: getitem_with_key list_index_def)
qed

lemma dax2_reads_without_endpoint:
  assumes "first_error (dax2_reads c) = None"
  shows "first_error (dax2_reads (without_key ''ClusterDiscoveryEndpoint'' c))
           = Some (KeyError (PStr ''ClusterDiscoveryEndpoint''))"
proof -
  from dax2_reads_dict [OF assms] obtain d where d: "c = PDict d" ..
  from assms [unfolded first_error_None] show ?thesis
    unfolding d dax2_reads_def dax_details_read_def field2_def str_of_def
    by (auto simp: getitem_without_key)
qed

lemma dax2_reads_no_security_group:
  assumes "first_error (dax2_reads c) = None"
  shows "first_error (dax2_reads (with_key ''SecurityGroups'' (PList []) c)) = Some IndexError"
proof -
  from dax2_reads_dict [OF assms] obtain d where d: "c = PDict d" ..
  from assms [unfolded first_error_None] show ?thesis
    unfolding d dax2_reads_def dax_details_read_def field2_def str_of_def
    by (auto simp: getitem_with_key list_index_def)
qed

lemma dax_reads_need_endpoint:
  assumes "map_of d ''ClusterDiscoveryEndpoint'' = None"
  shows "first_error (dax1_reads (PDict d)) \<noteq> None" "first_error (dax2_reads (PDict d)) \<noteq> None"
  using assms
  by (auto simp: first_error_None dax1_reads_def dax2_reads_def dax_details_read_def
        field2_def getitem_def)


lemma dax1_details:
  assumes "dax_encryption_at_rest_cluster t a r p c = Inr f"
  shows "\<exists>vs. map snd (dax_details_read c) = map Inr vs \<and>
           finding_details f ''Other'' = Inr (PDict (zip (map fst (dax_details_read c)) vs))"
proof (cases "first_error (dax1_reads c)")
  case None
  from dax1_values [OF None, of t a r p] assms show ?thesis by auto
next
  case (Some e)
  from dax1_raises [OF Some, of t a r p] assms show ?thesis by simp
qed

lemma dax2_details:
  assumes "dax_encryption_in_transit_cluster t a r p c = Inr f"
  shows "\<exists>vs. map snd (dax_details_read c) = map Inr vs \<and>
           finding_details f ''Other'' = Inr (PDict (zip (map fst (dax_details_read c)) vs))"
proof (cases "first_error (dax2_reads c)")
  case None
  from dax2_values [OF None, of t a r p] assms show ?thesis by auto
next
  case (Some e)
  from dax2_raises [OF Some, of t a r p] assms show ?thesis by simp
qed

lemma ec2_attributes_raise:
  "first_error (ec2_reads i) = Some e \<Longrightarrow> ec2_instance_attributes a r p i = Inl e"
  unfolding ec2_reads_def ec2_instance_attributes_def
  apply (cases "getitem i ''InstanceId''"; simp)
  apply (cases "getitem i ''InstanceType''"; simp)
  apply (cases "getitem i ''ImageId''"; simp)
  apply (cases "getitem i ''SubnetId''"; simp)
  apply (cases "getitem i ''VpcId''"; simp)
  apply (cases "ec2_launched_at i"; simp)
  done

lemma ec2_instance_raises:
  "first_error (ec2_reads i) = Some e \<Longrightarrow> ec2_instance nm pi t a r p i s = (([], Some e), s)"
  by (simp add: ec2_instance_def ec2_attributes_raise)

lemma ec2_attributes_values:
  "first_error (ec2_reads i) = None \<Longrightarrow> \<exists>inst. ec2_instance_attributes a r p i = Inr inst"
  unfolding ec2_reads_def ec2_instance_attributes_def
  apply (cases "getitem i ''InstanceId''"; simp)
  apply (cases "getitem i ''InstanceType''"; simp)
  apply (cases "getitem i ''ImageId''"; simp)
  apply (cases "getitem i ''SubnetId''"; simp)
  apply (cases "getitem i ''VpcId''"; simp)
  apply (cases "ec2_launched_at i"; simp)
  done

lemma ec2_instance_skips:
  assumes "first_error (ec2_reads (PDict d)) = None" and "map_of d ''PublicIpAddress'' = None"
  shows "ec2_instance nm pi t a r p (PDict d) s = (([], None), s)"
proof -
  from ec2_attributes_values [OF assms(1)] obtain inst
    where "ec2_instance_attributes a r p (PDict d) = Inr inst" ..
  with assms(2) show ?thesis by (simp add: ec2_instance_def getitem_def)
qed

lemma ec2_finding_details:
  "finding_details (ec2_failing_finding t a r p inst n port svc l) ''AwsEc2Instance''
     = Inr (PDict [(''Type'', PStr (instanceType inst)), (''ImageId'', PStr (instanceImage inst)),
                   (''VpcId'', PStr (vpcId inst)), (''SubnetId'', PStr (subnetId inst)),
                   (''LaunchedAt'', PStr l)])"
  "finding_details (ec2_passing_finding t a r p inst n port svc rsn l) ''AwsEc2Instance''
     = Inr (PDict [(''Type'', PStr (instanceType inst)), (''ImageId'', PStr (instanceImage inst)),
                   (''VpcId'', PStr (vpcId inst)), (''SubnetId'', PStr (subnetId inst)),
                   (''LaunchedAt'', PStr l)])"
  by (simp_all add: finding_details_def ec2_failing_finding_def ec2_passing_finding_def
        ec2_resources_def getitem_def list_index_def)

lemma ec2_details:
  assumes "ec2_instance_attributes a r p i = Inr inst"
    and "ec2_open_tcp_port pi t a r p inst ip = Inr f"
  shows "\<exists>vs. map snd (ec2_details_read pi i) = map Inr vs \<and>
           finding_details f ''AwsEc2Instance''
             = Inr (PDict (zip (map fst (ec2_details_read pi i)) vs))"
proof -
  from assms(1) obtain iid itype image subnet vpc launched where
    rd: "getitem i ''InstanceType'' = Inr itype" "getitem i ''ImageId'' = Inr image"
      "getitem i ''SubnetId'' = Inr subnet" "getitem i ''VpcId'' = Inr vpc"
      "ec2_launched_at i = Inr launched"
    and inst: "instanceType inst = py_str itype" "instanceImage inst = py_str image"
      "subnetId inst = py_str subnet" "vpcId inst = py_str vpc"
      "instanceLaunchedAt inst = launched"
    unfolding ec2_instance_attributes_def by (auto dest!: bindE_Inr)
  obtain index port where ip: "ip = (index, port)" by (cases ip)
  from assms(2) obtain l where l: "pi launched = Inr l"
    and fd: "finding_details f ''AwsEc2Instance''
      = Inr (PDict [(''Type'', PStr (instanceType inst)), (''ImageId'', PStr (instanceImage inst)),
                   (''VpcId'', PStr (vpcId inst)), (''SubnetId'', PStr (subnetId inst)),
                   (''LaunchedAt'', PStr l)])"
    unfolding ec2_open_tcp_port_def ip inst(5)
    by (auto dest!: bindE_Inr split: if_splits simp: Let_def ec2_finding_details)
  let ?vs = "[PStr (py_str itype), PStr (py_str image), PStr (py_str vpc),
              PStr (py_str subnet), PStr l]"
  from rd l have "map snd (ec2_details_read pi i) = map Inr ?vs"
    by (simp add: ec2_details_read_def str_of_def)
  moreover from fd inst have "finding_details f ''AwsEc2Instance''
             = Inr (PDict (zip (map fst (ec2_details_read pi i)) ?vs))"
    by (simp add: ec2_details_read_def)
  ultimately show ?thesis by blast
qed

lemma ec2_check_raises:
  assumes "listed_instances pg c0 = pre @ i # post"
    and "for_each (ec2_instance nm pi t a r p) pre (snd (ec2_paginate pg c0)) = ((fs, None), s)"
    and "first_error (ec2_reads i) = Some e"
  shows "ec2_attack_surface_open_tcp_port_check pg nm pi t c0 a r p = ((fs, Some e), s)"
proof -
  from assms(1) obtain instances s1 where pg: "ec2_paginate pg c0 = (Inr instances, s1)"
    and it: "py_iter instances = Inr (pre @ i # post)"
    unfolding listed_instances_def
    by (cases "ec2_paginate pg c0") (auto split: sum.splits)
  from assms(2) pg have "for_each (ec2_instance nm pi t a r p) pre s1 = ((fs, None), s)"
    by simp
  from for_each_append_raises [OF this ec2_instance_raises [OF assms(3)]]
  have "for_each (ec2_instance nm pi t a r p) (pre @ i # post) s1 = ((fs, Some e), s)"
    by simp
  with pg it show ?thesis by (simp add: ec2_attack_surface_open_tcp_port_check_def)
qed

lemma elbv2_attributes_raise:
  "first_error (elbv2_reads lb) = Some e \<Longrightarrow> elbv2_attributes lb = Inl e"
  unfolding elbv2_reads_def elbv2_attributes_def
  apply (cases "getitem lb ''LoadBalancerArn''"; simp)
  apply (cases "getitem lb ''LoadBalancerName''"; simp)
  apply (cases "getitem lb ''DNSName''"; simp)
  apply (cases "getitem lb ''Type''"; simp)
  apply (cases "getitem lb ''Scheme''"; simp)
  apply (cases "getitem lb ''VpcId''"; simp)
  apply (cases "getitem lb ''IpAddressType''"; simp)
  done

lemma elbv2_load_balancer_raises:
  "first_error (elbv2_reads lb) = Some e \<Longrightarrow>
     elbv2_load_balancer nm t a r p lb s = (([], Some e), s)"
  by (simp add: elbv2_load_balancer_def elbv2_attributes_raise)

lemma elbv2_finding_details:
  "finding_details (elbv2_failing_finding t a r p lb n port svc) ''AwsElbv2LoadBalancer''
     = Inr (PDict [(''DNSName'', PStr (elbv2DnsName lb)),
                   (''IpAddressType'', PStr (elbv2IpAddressType lb)),
                   (''Scheme'', PStr (elbv2Scheme lb)), (''Type'', PStr (elbv2LbType lb)),
                   (''VpcId'', PStr (elbv2VpcId lb))])"
  "finding_details (elbv2_passing_finding t a r p lb n port svc rsn) ''AwsElbv2LoadBalancer''
     = Inr (PDict [(''DNSName'', PStr (elbv2DnsName lb)),
                   (''IpAddressType'', PStr (elbv2IpAddressType lb)),
                   (''Scheme'', PStr (elbv2Scheme lb)), (''Type'', PStr (elbv2LbType lb)),
                   (''VpcId'', PStr (elbv2VpcId lb))])"
  by (simp_all add: finding_details_def elbv2_failing_finding_def elbv2_passing_finding_def
        elbv2_resources_def getitem_def list_index_def)

lemma elbv2_details:
  assumes "elbv2_attributes lb0 = Inr lb"
    and "elbv2_open_tcp_port t a r p lb ip = Inr f"
  shows "\<exists>vs. map snd (elbv2_details_read lb0) = map Inr vs \<and>
           finding_details f ''AwsElbv2LoadBalancer''
             = Inr (PDict (zip (map fst (elbv2_details_read lb0)) vs))"
proof -
  from assms(1) obtain dns lbType scheme vpc ipType where
    rd: "getitem lb0 ''DNSName'' = Inr dns" "getitem lb0 ''Type'' = Inr lbType"
      "getitem lb0 ''Scheme'' = Inr scheme" "getitem lb0 ''VpcId'' = Inr vpc"
      "getitem lb0 ''IpAddressType'' = Inr ipType"
    and lb: "elbv2DnsName lb = py_str dns" "elbv2LbType lb = py_str lbType"
      "elbv2Scheme lb = py_str scheme" "elbv2VpcId lb = py_str vpc"
      "elbv2IpAddressType lb = py_str ipType"
    unfolding elbv2_attributes_def by (auto dest!: bindE_Inr)
  obtain index port where ip: "ip = (index, port)" by (cases ip)
  from assms(2) have fd: "finding_details f ''AwsElbv2LoadBalancer''
     = Inr (PDict [(''DNSName'', PStr (elbv2DnsName lb)),
                   (''IpAddressType'', PStr (elbv2IpAddressType lb)),
                   (''Scheme'', PStr (elbv2Scheme lb)), (''Type'', PStr (elbv2LbType lb)),
                   (''VpcId'', PStr (elbv2VpcId lb))])"
    unfolding elbv2_open_tcp_port_def ip
    by (auto dest!: bindE_Inr split: if_splits simp: Let_def elbv2_finding_details)
  let ?vs = "[PStr (py_str dns), PStr (py_str ipType), PStr (py_str scheme),
              PStr (py_str lbType), PStr (py_str vpc)]"
  from rd have "map snd (elbv2_details_read lb0) = map Inr ?vs"
    by (simp add: elbv2_details_read_def str_of_def)
  moreover from fd lb have "finding_details f ''AwsElbv2LoadBalancer''
             = Inr (PDict (zip (map fst (elbv2_details_read lb0)) ?vs))"
    by (simp add: elbv2_details_read_def)
  ultimately show ?thesis by blast
qed

lemma elbv2_check_raises:
  assumes "listed_load_balancers lbs c0 = pre @ lb # post"
    and "for_each (elbv2_load_balancer nm t a r p) pre
           (snd (describe_load_balancers lbs c0)) = ((fs, None), s)"
    and "first_error (elbv2_reads lb) = Some e"
  shows "elbv2_attack_surface_open_tcp_port_check lbs nm t c0 a r p = ((fs, Some e), s)"
proof -
  from assms(1) obtain response s1 where
    dl: "describe_load_balancers lbs c0 = (Inr response, s1)"
    and it: "bindE (getitem response ''LoadBalancers'') py_iter = Inr (pre @ lb # post)"
    unfolding listed_load_balancers_def
    by (cases "describe_load_balancers lbs c0") (auto split: sum.splits)
  from assms(2) dl have "for_each (elbv2_load_balancer nm t a r p) pre s1 = ((fs, None), s)"
    by simp
  from for_each_append_raises [OF this elbv2_load_balancer_raises [OF assms(3)]]
  have "for_each (elbv2_load_balancer nm t a r p) (pre @ lb # post) s1 = ((fs, Some e), s)"
    by simp
  with dl it show ?thesis by (simp add: elbv2_attack_surface_open_tcp_port_check_def)
qed

text \<open>
  C7, as amended. No check renders a marker for a missing attribute: every attribute of a
  record is read with a plain subscript, and the first read that fails raises.

  The loop body of each of the four checks ends with the exception of the first failing
  read of the record, in the order the code reads them, and builds no finding. The check
  then ends with that exception, after the findings of the records listed before.

  A cluster record on which a DAX check reads everything, and so builds a finding, makes
  it raise \<open>KeyError('ClusterDiscoveryEndpoint')\<close> once that key is removed and
  \<open>IndexError\<close> once \<open>SecurityGroups\<close> is the empty list. No cluster record without
  \<open>ClusterDiscoveryEndpoint\<close> builds a finding.

  Every finding that a check yields carries as the details of its resource exactly the
  values read from one of the listed records, through \<open>str()\<close> where the code applies it.

  Absence is handled in two places only, both in the EC2 check. When the key
  \<open>BlockDeviceMappings\<close>, the key \<open>Ebs\<close> of the first block device or the key
  \<open>AttachTime\<close> of its \<open>Ebs\<close> entry is missing, the launch time is \<open>str()\<close> of
  \<open>LaunchTime\<close>. An instance record whose other reads succeed and that has no
  \<open>PublicIpAddress\<close> is skipped: no finding, no exception, the run unchanged.
\<close>

theorem missing_attributes_raise_fall_back_or_skip:
  "(first_error (dax1_reads c) = Some e \<longrightarrow> dax_encryption_at_rest_cluster t a r p c = Inl e) \<and>
   (first_error (dax2_reads c) = Some e \<longrightarrow> dax_encryption_in_transit_cluster t a r p c = Inl e) \<and>
   (first_error (ec2_reads i) = Some e \<longrightarrow>
      ec2_instance nm pi t a r p i s = (([], Some e), s)) \<and>
   (first_error (elbv2_reads lb) = Some e \<longrightarrow>
      elbv2_load_balancer nm t a r p lb s = (([], Some e), s)) \<and>
   (listed_clusters dax run = before @ c # rest \<and>
    map (dax_encryption_at_rest_cluster t a r p) before = map Inr fs \<and>
    first_error (dax1_reads c) = Some e \<longrightarrow>
      fst (dax_encryption_at_rest_check dax t run a r p) = (fs, Some e)) \<and>
   (listed_clusters dax run = before @ c # rest \<and>
    map (dax_encryption_in_transit_cluster t a r p) before = map Inr fs \<and>
    first_error (dax2_reads c) = Some e \<longrightarrow>
      fst (dax_encryption_in_transit_check dax t run a r p) = (fs, Some e)) \<and>
   (listed_instances pg run = before @ i # rest \<and>
    for_each (ec2_instance nm pi t a r p) before (snd (ec2_paginate pg run))
      = ((fs, None), s) \<and>
    first_error (ec2_reads i) = Some e \<longrightarrow>
      ec2_attack_surface_open_tcp_port_check pg nm pi t run a r p = ((fs, Some e), s)) \<and>
   (listed_load_balancers lbs run = before @ lb # rest \<and>
    for_each (elbv2_load_balancer nm t a r p) before (snd (describe_load_balancers lbs run))
      = ((fs, None), s) \<and>
    first_error (elbv2_reads lb) = Some e \<longrightarrow>
      elbv2_attack_surface_open_tcp_port_check lbs nm t run a r p = ((fs, Some e), s)) \<and>
   (first_error (dax1_reads c) = None \<longrightarrow>
      (\<exists>f. dax_encryption_at_rest_cluster t a r p c = Inr f) \<and>
      dax_encryption_at_rest_cluster t a r p (without_key ''ClusterDiscoveryEndpoint'' c)
        = Inl (KeyError (PStr ''ClusterDiscoveryEndpoint'')) \<and>
      dax_encryption_at_rest_cluster t a r p (with_key ''SecurityGroups'' (PList []) c) = Inl IndexError) \<and>
   (first_error (dax2_reads c) = None \<longrightarrow>
      (\<exists>f. dax_encryption_in_transit_cluster t a r p c = Inr f) \<and>
      dax_encryption_in_transit_cluster t a r p (without_key ''ClusterDiscoveryEndpoint'' c)
        = Inl (KeyError (PStr ''ClusterDiscoveryEndpoint'')) \<and>
      dax_encryption_in_transit_cluster t a r p (with_key ''SecurityGroups'' (PList []) c) = Inl IndexError) \<and>
   (map_of d ''ClusterDiscoveryEndpoint'' = None \<longrightarrow>
      (\<exists>e'. dax_encryption_at_rest_cluster t a r p (PDict d) = Inl e') \<and>
      (\<exists>e'. dax_encryption_in_transit_cluster t a r p (PDict d) = Inl e')) \<and>
   (f \<in> set (fst (fst (dax_encryption_at_rest_check dax t run a r p))) \<longrightarrow>
      (\<exists>cluster \<in> set (listed_clusters dax run). \<exists>vs.
         map snd (dax_details_read cluster) = map Inr vs \<and>
         finding_details f ''Other''
           = Inr (PDict (zip (map fst (dax_details_read cluster)) vs)))) \<and>
   (f \<in> set (fst (fst (dax_encryption_in_transit_check dax t run a r p))) \<longrightarrow>
      (\<exists>cluster \<in> set (listed_clusters dax run). \<exists>vs.
         map snd (dax_details_read cluster) = map Inr vs \<and>
         finding_details f ''Other''
           = Inr (PDict (zip (map fst (dax_details_read cluster)) vs)))) \<and>
   (f \<in> set (fst (fst (ec2_attack_surface_open_tcp_port_check pg nm pi t run a r p))) \<longrightarrow>
      (\<exists>instance \<in> set (listed_instances pg run). \<exists>vs.
         map snd (ec2_details_read pi instance) = map Inr vs \<and>
         finding_details f ''AwsEc2Instance''
           = Inr (PDict (zip (map fst (ec2_details_read pi instance)) vs)))) \<and>
   (f \<in> set (fst (fst (elbv2_attack_surface_open_tcp_port_check lbs nm t run a r p))) \<longrightarrow>
      (\<exists>balancer \<in> set (listed_load_balancers lbs run). \<exists>vs.
         map snd (elbv2_details_read balancer) = map Inr vs \<and>
         finding_details f ''AwsElbv2LoadBalancer''
           = Inr (PDict (zip (map fst (elbv2_details_read balancer)) vs)))) \<and>
   ((map_of d ''BlockDeviceMappings'' = None \<or>
     (\<exists>m ms. map_of d ''BlockDeviceMappings'' = Some (PList (PDict m # ms)) \<and>
        (map_of m ''Ebs'' = None \<or>
         (\<exists>ebs. map_of m ''Ebs'' = Some (PDict ebs) \<and> map_of ebs ''AttachTime'' = None)))) \<and>
    map_of d ''LaunchTime'' = Some launchTime \<longrightarrow>
      ec2_launched_at (PDict d) = Inr (py_str launchTime)) \<and>
   (first_error (ec2_reads (PDict d)) = None \<and> map_of d ''PublicIpAddress'' = None \<longrightarrow>
      ec2_instance nm pi t a r p (PDict d) s = (([], None), s))"
proof -
  have p1: "first_error (dax1_reads c) = Some e \<longrightarrow> dax_encryption_at_rest_cluster t a r p c = Inl e"
    by (simp add: dax1_raises)
  have p2: "first_error (dax2_reads c) = Some e \<longrightarrow> dax_encryption_in_transit_cluster t a r p c = Inl e"
    by (simp add: dax2_raises)
  have p3: "first_error (ec2_reads i) = Some e \<longrightarrow>
      ec2_instance nm pi t a r p i s = (([], Some e), s)"
    by (simp add: ec2_instance_raises)
  have p4: "first_error (elbv2_reads lb) = Some e \<longrightarrow>
      elbv2_load_balancer nm t a r p lb s = (([], Some e), s)"
    by (simp add: elbv2_load_balancer_raises)
  have p5: "listed_clusters dax run = before @ c # rest \<and>
    map (dax_encryption_at_rest_cluster t a r p) before = map Inr fs \<and>
    first_error (dax1_reads c) = Some e \<longrightarrow>
      fst (dax_encryption_at_rest_check dax t run a r p) = (fs, Some e)"
    using dax1_check_raises [OF _ _ dax1_raises] by blast
  have p6: "listed_clusters dax run = before @ c # rest \<and>
    map (dax_encryption_in_transit_cluster t a r p) before = map Inr fs \<and>
    first_error (dax2_reads c) = Some e \<longrightarrow>
      fst (dax_encryption_in_transit_check dax t run a r p) = (fs, Some e)"
    using dax2_check_raises [OF _ _ dax2_raises] by blast
  have p7: "listed_instances pg run = before @ i # rest \<and>
    for_each (ec2_instance nm pi t a r p) before (snd (ec2_paginate pg run))
      = ((fs, None), s) \<and>
    first_error (ec2_reads i) = Some e \<longrightarrow>
      ec2_attack_surface_open_tcp_port_check pg nm pi t run a r p = ((fs, Some e), s)"
    using ec2_check_raises by blast
  have p8: "listed_load_balancers lbs run = before @ lb # rest \<and>
    for_each (elbv2_load_balancer nm t a r p) before (snd (describe_load_balancers lbs run))
      = ((fs, None), s) \<and>
    first_error (elbv2_reads lb) = Some e \<longrightarrow>
      elbv2_attack_surface_open_tcp_port_check lbs nm t run a r p = ((fs, Some e), s)"
    using elbv2_check_raises by blast
  have p9: "first_error (dax1_reads c) = None \<longrightarrow>
      (\<exists>f. dax_encryption_at_rest_cluster t a r p c = Inr f) \<and>
      dax_encryption_at_rest_cluster t a r p (without_key ''ClusterDiscoveryEndpoint'' c)
        = Inl (KeyError (PStr ''ClusterDiscoveryEndpoint'')) \<and>
      dax_encryption_at_rest_cluster t a r p (with_key ''SecurityGroups'' (PList []) c) = Inl IndexError"
    using dax1_values [of c t a r p] dax1_raises [OF dax1_reads_without_endpoint, of c t a r p]
      dax1_raises [OF dax1_reads_no_security_group, of c t a r p] by blast
  have p10: "first_error (dax2_reads c) = None \<longrightarrow>
      (\<exists>f. dax_encryption_in_transit_cluster t a r p c = Inr f) \<and>
      dax_encryption_in_transit_cluster t a r p (without_key ''ClusterDiscoveryEndpoint'' c)
        = Inl (KeyError (PStr ''ClusterDiscoveryEndpoint'')) \<and>
      dax_encryption_in_transit_cluster t a r p (with_key ''SecurityGroups'' (PList []) c) = Inl IndexError"
    using dax2_values [of c t a r p] dax2_raises [OF dax2_reads_without_endpoint, of c t a r p]
      dax2_raises [OF dax2_reads_no_security_group, of c t a r p] by blast
  have p11: "map_of d ''ClusterDiscoveryEndpoint'' = None \<longrightarrow>
      (\<exists>e'. dax_encryption_at_rest_cluster t a r p (PDict d) = Inl e') \<and>
      (\<exists>e'. dax_encryption_in_transit_cluster t a r p (PDict d) = Inl e')"
    using dax_reads_need_endpoint [of d] dax1_raises [of "PDict d" _ t a r p]
      dax2_raises [of "PDict d" _ t a r p] by fastforce
  have p12: "f \<in> set (fst (fst (dax_encryption_at_rest_check dax t run a r p))) \<longrightarrow>
      (\<exists>cluster \<in> set (listed_clusters dax run). \<exists>vs.
         map snd (dax_details_read cluster) = map Inr vs \<and>
         finding_details f ''Other''
           = Inr (PDict (zip (map fst (dax_details_read cluster)) vs)))"
    using dax1_check_items [of dax t run a r p _ _ _ f] dax1_details
    by (metis prod.collapse)
  have p13: "f \<in> set (fst (fst (dax_encryption_in_transit_check dax t run a r p))) \<longrightarrow>
      (\<exists>cluster \<in> set (listed_clusters dax run). \<exists>vs.
         map snd (dax_details_read cluster) = map Inr vs \<and>
         finding_details f ''Other''
           = Inr (PDict (zip (map fst (dax_details_read cluster)) vs)))"
    using dax2_check_items [of dax t run a r p _ _ _ f] dax2_details
    by (metis prod.collapse)
  have p14: "f \<in> set (fst (fst (ec2_attack_surface_open_tcp_port_check pg nm pi t run a r p))) \<longrightarrow>
      (\<exists>instance \<in> set (listed_instances pg run). \<exists>vs.
         map snd (ec2_details_read pi instance) = map Inr vs \<and>
         finding_details f ''AwsEc2Instance''
           = Inr (PDict (zip (map fst (ec2_details_read pi instance)) vs)))"
    using ec2_check_items [of pg nm pi t run a r p _ _ _ f] ec2_details
    by (metis prod.collapse)
  have p15: "f \<in> set (fst (fst (elbv2_attack_surface_open_tcp_port_check lbs nm t run a r p))) \<longrightarrow>
      (\<exists>balancer \<in> set (listed_load_balancers lbs run). \<exists>vs.
         map snd (elbv2_details_read balancer) = map Inr vs \<and>
         finding_details f ''AwsElbv2LoadBalancer''
           = Inr (PDict (zip (map fst (elbv2_details_read balancer)) vs)))"
    using elbv2_check_items [of lbs nm t run a r p _ _ _ f] elbv2_details
    by (metis prod.collapse)
  have p16: "(map_of d ''BlockDeviceMappings'' = None \<or>
     (\<exists>m ms. map_of d ''BlockDeviceMappings'' = Some (PList (PDict m # ms)) \<and>
        (map_of m ''Ebs'' = None \<or>
         (\<exists>ebs. map_of m ''Ebs'' = Some (PDict ebs) \<and> map_of ebs ''AttachTime'' = None)))) \<and>
    map_of d ''LaunchTime'' = Some launchTime \<longrightarrow>
      ec2_launched_at (PDict d) = Inr (py_str launchTime)"
    by (auto simp: ec2_launched_at_def getitem_def list_index_def)
  have p17: "first_error (ec2_reads (PDict d)) = None \<and> map_of d ''PublicIpAddress'' = None \<longrightarrow>
      ec2_instance nm pi t a r p (PDict d) s = (([], None), s)"
    using ec2_instance_skips by blast
  show ?thesis by (intro conjI) (fact p1 p2 p3 p4 p5 p6 p7 p8 p9 p10 p11 p12 p13 p14 p15 p16 p17)+
qed

text \<open>C7 as stated fails: the check over a cluster that is being created raises
  \<open>KeyError\<close> and yields nothing.\<close>

theorem dax_check_raises_on_missing_endpoint:
  "dax_encryption_at_rest_check starting_clusters ''2021-01-01T00:00:00+00:00'' empty_run
     ''111111111111'' ''us-east-1'' ''aws'' =
   (([], Some (KeyError (PStr ''ClusterDiscoveryEndpoint''))),
    \<lparr>cache = [''describe_clusters'' \<mapsto> PDict [(''Clusters'', PList [starting_cluster])]],
     api_calls = [''dax.describe_clusters''], stdout = []\<rparr>)"
  by (simp add: dax_eval starting_clusters_def empty_run_def starting_cluster_def py_eval)

text \<open>A cluster in service listed before the cluster that is being created: one finding
  with the values of the first, then \<open>KeyError\<close>. The public instance before an instance
  without \<open>VpcId\<close>, and the public load balancer before a record of an ARN and a name:
  two findings each, then \<open>KeyError\<close>. The cluster in service with one key removed or its
  security groups emptied. The private instance: launch time from \<open>LaunchTime\<close>, skipped.\<close>

theorem missing_attributes_raise_fall_back_or_skip_witness:
  "(case dax_encryption_at_rest_check mixed_clusters ''2021-01-01T00:00:00+00:00'' empty_run ''111111111111'' ''us-east-1'' ''aws'' of
      ((fs, ex), s) \<Rightarrow>
        ex = Some (KeyError (PStr ''ClusterDiscoveryEndpoint'')) \<and>
        map (\<lambda>f. finding_details f ''Other'') fs =
          [Inr (PDict [(''ClusterName'', PStr ''carts''), (''TotalNodes'', PStr ''3''),
               (''NodeType'', PStr ''dax.r4.large''), (''Status'', PStr ''available''),
               (''Address'', PStr ''c.dax.example''), (''Port'', PStr ''8111''),
               (''URL'', PStr ''dax://c.dax.example''), (''SubnetGroup'', PStr ''default''),
               (''SecurityGroupIdentifier'', PStr ''sg-1''),
               (''IamRoleArn'', PStr ''arn:aws:iam::111111111111:role/dax''),
               (''ParameterGroupName'', PStr ''default.dax1.0'')])]) \<and>
   (case dax_encryption_in_transit_check mixed_clusters ''2021-01-01T00:00:00+00:00'' empty_run ''111111111111'' ''us-east-1'' ''aws'' of
      ((fs, ex), s) \<Rightarrow>
        ex = Some (KeyError (PStr ''ClusterDiscoveryEndpoint'')) \<and>
        map (\<lambda>f. finding_details f ''Other'') fs =
          [Inr (PDict [(''ClusterName'', PStr ''carts''), (''TotalNodes'', PStr ''3''),
               (''NodeType'', PStr ''dax.r4.large''), (''Status'', PStr ''available''),
               (''Address'', PStr ''c.dax.example''), (''Port'', PStr ''8111''),
               (''URL'', PStr ''dax://c.dax.example''), (''SubnetGroup'', PStr ''default''),
               (''SecurityGroupIdentifier'', PStr ''sg-1''),
               (''IamRoleArn'', PStr ''arn:aws:iam::111111111111:role/dax''),
               (''ParameterGroupName'', PStr ''default.dax1.0'')])]) \<and>
   (case ec2_attack_surface_open_tcp_port_check (Some two_instances) web_scan iso_of ''2021-01-01T00:00:00+00:00''
           empty_run ''111111111111'' ''us-east-1'' ''aws'' of
      ((fs, ex), s) \<Rightarrow>
        ex = Some (KeyError (PStr ''VpcId'')) \<and> length fs = 2 \<and>
        list_all (\<lambda>f. finding_details f ''AwsEc2Instance'' =
            Inr (PDict [(''Type'', PStr ''t3.micro''), (''ImageId'', PStr ''ami-1''),
               (''VpcId'', PStr ''vpc-1''), (''SubnetId'', PStr ''subnet-1''),
               (''LaunchedAt'', PStr ''2021-01-01T00:00:00+00:00'')])) fs) \<and>
   (case elbv2_attack_surface_open_tcp_port_check two_load_balancers web_scan ''2021-01-01T00:00:00+00:00''
           empty_run ''111111111111'' ''us-east-1'' ''aws'' of
      ((fs, ex), s) \<Rightarrow>
        ex = Some (KeyError (PStr ''DNSName'')) \<and> length fs = 2 \<and>
        list_all (\<lambda>f. finding_details f ''AwsElbv2LoadBalancer'' =
            Inr (PDict [(''DNSName'', PStr ''web.elb.example''), (''IpAddressType'', PStr ''ipv4''),
               (''Scheme'', PStr ''internet-facing''), (''Type'', PStr ''application''),
               (''VpcId'', PStr ''vpc-1'')])) fs) \<and>
   dax_encryption_at_rest_cluster ''2021-01-01T00:00:00+00:00'' ''111111111111'' ''us-east-1'' ''aws'' (without_key ''IamRoleArn'' (dax_cluster ''carts'' ''ENABLED''))
     = Inl (KeyError (PStr ''IamRoleArn'')) \<and>
   dax_encryption_in_transit_cluster ''2021-01-01T00:00:00+00:00'' ''111111111111'' ''us-east-1'' ''aws'' (without_key ''ParameterGroup'' (dax_cluster ''carts'' ''ENABLED''))
     = Inl (KeyError (PStr ''ParameterGroup'')) \<and>
   dax_encryption_at_rest_cluster ''2021-01-01T00:00:00+00:00'' ''111111111111'' ''us-east-1'' ''aws'' (without_key ''ClusterDiscoveryEndpoint'' (dax_cluster ''carts'' ''ENABLED''))
     = Inl (KeyError (PStr ''ClusterDiscoveryEndpoint'')) \<and>
   dax_encryption_at_rest_cluster ''2021-01-01T00:00:00+00:00'' ''111111111111'' ''us-east-1'' ''aws'' (with_key ''SecurityGroups'' (PList []) (dax_cluster ''carts'' ''ENABLED'')) = Inl IndexError \<and>
   dax_encryption_in_transit_cluster ''2021-01-01T00:00:00+00:00'' ''111111111111'' ''us-east-1'' ''aws'' (without_key ''ClusterDiscoveryEndpoint'' (dax_cluster ''carts'' ''ENABLED''))
     = Inl (KeyError (PStr ''ClusterDiscoveryEndpoint'')) \<and>
   dax_encryption_in_transit_cluster ''2021-01-01T00:00:00+00:00'' ''111111111111'' ''us-east-1'' ''aws'' (with_key ''SecurityGroups'' (PList []) (dax_cluster ''carts'' ''ENABLED'')) = Inl IndexError \<and>
   (\<exists>e. dax_encryption_at_rest_cluster ''2021-01-01T00:00:00+00:00'' ''111111111111'' ''us-east-1'' ''aws'' starting_cluster = Inl e) \<and>
   (\<exists>e. dax_encryption_in_transit_cluster ''2021-01-01T00:00:00+00:00'' ''111111111111'' ''us-east-1'' ''aws'' starting_cluster = Inl e) \<and>
   ec2_instance web_scan iso_of ''2021-01-01T00:00:00+00:00'' ''111111111111'' ''us-east-1'' ''aws'' instance_without_vpc empty_run
     = (([], Some (KeyError (PStr ''VpcId''))), empty_run) \<and>
   elbv2_load_balancer web_scan ''2021-01-01T00:00:00+00:00'' ''111111111111'' ''us-east-1'' ''aws'' bare_load_balancer empty_run
     = (([], Some (KeyError (PStr ''DNSName''))), empty_run) \<and>
   ec2_launched_at private_instance = Inr ''2021-01-01 00:00:00+00:00'' \<and>
   ec2_instance web_scan iso_of ''2021-01-01T00:00:00+00:00'' ''111111111111'' ''us-east-1'' ''aws'' private_instance empty_run = (([], None), empty_run)"
proof -
  let ?carts = "dax_cluster ''carts'' ''ENABLED''"
  let ?k1 = "dax_encryption_at_rest_check mixed_clusters ''2021-01-01T00:00:00+00:00'' empty_run ''111111111111'' ''us-east-1'' ''aws''"
  let ?k2 = "dax_encryption_in_transit_check mixed_clusters ''2021-01-01T00:00:00+00:00'' empty_run ''111111111111'' ''us-east-1'' ''aws''"
  let ?ke = "ec2_attack_surface_open_tcp_port_check (Some two_instances) web_scan iso_of ''2021-01-01T00:00:00+00:00''
           empty_run ''111111111111'' ''us-east-1'' ''aws''"
  let ?kl = "elbv2_attack_surface_open_tcp_port_check two_load_balancers web_scan ''2021-01-01T00:00:00+00:00''
           empty_run ''111111111111'' ''us-east-1'' ''aws''"
  let ?ie = "ec2_instance web_scan iso_of ''2021-01-01T00:00:00+00:00'' ''111111111111'' ''us-east-1'' ''aws''"
  let ?il = "elbv2_load_balancer web_scan ''2021-01-01T00:00:00+00:00'' ''111111111111'' ''us-east-1'' ''aws''"
  have listed: "listed_clusters mixed_clusters empty_run = [?carts, starting_cluster]"
    by (simp add: listed_clusters_def describe_clusters_def cache_get_def request_def
          mixed_clusters_def empty_run_def getitem_def)
  have rd_carts: "dax_details_read ?carts =
      [(''ClusterName'', Inr (PStr ''carts'')), (''TotalNodes'', Inr (PStr ''3'')),
       (''NodeType'', Inr (PStr ''dax.r4.large'')), (''Status'', Inr (PStr ''available'')),
       (''Address'', Inr (PStr ''c.dax.example'')), (''Port'', Inr (PStr ''8111'')),
       (''URL'', Inr (PStr ''dax://c.dax.example'')), (''SubnetGroup'', Inr (PStr ''default'')),
       (''SecurityGroupIdentifier'', Inr (PStr ''sg-1'')),
       (''IamRoleArn'', Inr (PStr ''arn:aws:iam::111111111111:role/dax'')),
       (''ParameterGroupName'', Inr (PStr ''default.dax1.0''))]"
    by (simp add: dax_details_read_def dax_cluster_def field2_def str_of_def getitem_def
          list_index_def py_str_def str_int_def dec_digits.simps)
  have rd_start: "map snd (dax_details_read starting_cluster) \<noteq> map Inr vs" for vs
    by (simp add: dax_details_read_def starting_cluster_def field2_def str_of_def getitem_def
          Cons_eq_map_conv)
  have r1_carts: "first_error (dax1_reads ?carts) = None"
    by (simp add: dax1_reads_def rd_carts) (simp add: dax_cluster_def field2_def getitem_def)
  have r2_carts: "first_error (dax2_reads ?carts) = None"
    by (simp add: dax2_reads_def rd_carts) (simp add: dax_cluster_def field2_def getitem_def)
  have r1_start: "first_error (dax1_reads starting_cluster) = Some (KeyError (PStr ''ClusterDiscoveryEndpoint''))"
    by (simp add: dax1_reads_def dax_details_read_def starting_cluster_def field2_def
          str_of_def getitem_def)
  have r2_start: "first_error (dax2_reads starting_cluster) = Some (KeyError (PStr ''ClusterDiscoveryEndpoint''))"
    by (simp add: dax2_reads_def dax_details_read_def starting_cluster_def field2_def
          str_of_def getitem_def)
  have r1_role: "first_error (dax1_reads (without_key ''IamRoleArn'' ?carts))
      = Some (KeyError (PStr ''IamRoleArn''))"
    by (simp add: dax1_reads_def dax_details_read_def dax_cluster_def without_key_def
          field2_def str_of_def getitem_def list_index_def)
  have r2_group: "first_error (dax2_reads (without_key ''ParameterGroup'' ?carts))
      = Some (KeyError (PStr ''ParameterGroup''))"
    by (simp add: dax2_reads_def dax_details_read_def dax_cluster_def without_key_def
          field2_def str_of_def getitem_def list_index_def)
  from missing_attributes_raise_fall_back_or_skip [where c = ?carts and t = "''2021-01-01T00:00:00+00:00''" and a = "''111111111111''"
      and r = "''us-east-1''" and p = "''aws''", THEN conjunct2, THEN conjunct2, THEN conjunct2, THEN conjunct2, THEN conjunct2, THEN conjunct2, THEN conjunct2, THEN conjunct2, THEN conjunct1, rule_format, OF r1_carts]
  obtain F1 where F1: "dax_encryption_at_rest_cluster ''2021-01-01T00:00:00+00:00'' ''111111111111'' ''us-east-1'' ''aws'' ?carts = Inr F1"
    and c9: "dax_encryption_at_rest_cluster ''2021-01-01T00:00:00+00:00'' ''111111111111'' ''us-east-1'' ''aws'' (without_key ''ClusterDiscoveryEndpoint'' ?carts)
               = Inl (KeyError (PStr ''ClusterDiscoveryEndpoint''))"
      "dax_encryption_at_rest_cluster ''2021-01-01T00:00:00+00:00'' ''111111111111'' ''us-east-1'' ''aws'' (with_key ''SecurityGroups'' (PList []) ?carts) = Inl IndexError"
    by blast
  from missing_attributes_raise_fall_back_or_skip [where c = ?carts and t = "''2021-01-01T00:00:00+00:00''" and a = "''111111111111''"
      and r = "''us-east-1''" and p = "''aws''", THEN conjunct2, THEN conjunct2, THEN conjunct2, THEN conjunct2, THEN conjunct2, THEN conjunct2, THEN conjunct2, THEN conjunct2, THEN conjunct2, THEN conjunct1, rule_format, OF r2_carts]
  obtain F2 where F2: "dax_encryption_in_transit_cluster ''2021-01-01T00:00:00+00:00'' ''111111111111'' ''us-east-1'' ''aws'' ?carts = Inr F2"
    and c10: "dax_encryption_in_transit_cluster ''2021-01-01T00:00:00+00:00'' ''111111111111'' ''us-east-1'' ''aws'' (without_key ''ClusterDiscoveryEndpoint'' ?carts)
               = Inl (KeyError (PStr ''ClusterDiscoveryEndpoint''))"
      "dax_encryption_in_transit_cluster ''2021-01-01T00:00:00+00:00'' ''111111111111'' ''us-east-1'' ''aws'' (with_key ''SecurityGroups'' (PList []) ?carts) = Inl IndexError"
    by blast
  have k1: "fst ?k1 = ([F1], Some (KeyError (PStr ''ClusterDiscoveryEndpoint'')))"
    by (rule missing_attributes_raise_fall_back_or_skip [where before = "[?carts]" and c = starting_cluster
          and rest = "[]", THEN conjunct2, THEN conjunct2, THEN conjunct2, THEN conjunct2, THEN conjunct1, rule_format])
       (simp add: listed F1 r1_start)
  have k2: "fst ?k2 = ([F2], Some (KeyError (PStr ''ClusterDiscoveryEndpoint'')))"
    by (rule missing_attributes_raise_fall_back_or_skip [where before = "[?carts]" and c = starting_cluster
          and rest = "[]", THEN conjunct2, THEN conjunct2, THEN conjunct2, THEN conjunct2, THEN conjunct2, THEN conjunct1, rule_format])
       (simp add: listed F2 r2_start)
  have "F1 \<in> set (fst (fst ?k1))" by (simp add: k1)
  from missing_attributes_raise_fall_back_or_skip [where f = F1, THEN conjunct2, THEN conjunct2, THEN conjunct2, THEN conjunct2, THEN conjunct2, THEN conjunct2, THEN conjunct2, THEN conjunct2, THEN conjunct2, THEN conjunct2, THEN conjunct2, THEN conjunct1, rule_format, OF this]
  have d1: "finding_details F1 ''Other'' = Inr (PDict [(''ClusterName'', PStr ''carts''), (''TotalNodes'', PStr ''3''),
               (''NodeType'', PStr ''dax.r4.large''), (''Status'', PStr ''available''),
               (''Address'', PStr ''c.dax.example''), (''Port'', PStr ''8111''),
               (''URL'', PStr ''dax://c.dax.example''), (''SubnetGroup'', PStr ''default''),
               (''SecurityGroupIdentifier'', PStr ''sg-1''),
               (''IamRoleArn'', PStr ''arn:aws:iam::111111111111:role/dax''),
               (''ParameterGroupName'', PStr ''default.dax1.0'')])"
    by (auto simp: listed rd_carts rd_start Cons_eq_map_conv)
  have "F2 \<in> set (fst (fst ?k2))" by (simp add: k2)
  from missing_attributes_raise_fall_back_or_skip [where f = F2, THEN conjunct2, THEN conjunct2, THEN conjunct2, THEN conjunct2, THEN conjunct2, THEN conjunct2, THEN conjunct2, THEN conjunct2, THEN conjunct2, THEN conjunct2, THEN conjunct2, THEN conjunct2, THEN conjunct1, rule_format, OF this]
  have d2: "finding_details F2 ''Other'' = Inr (PDict [(''ClusterName'', PStr ''carts''), (''TotalNodes'', PStr ''3''),
               (''NodeType'', PStr ''dax.r4.large''), (''Status'', PStr ''available''),
               (''Address'', PStr ''c.dax.example''), (''Port'', PStr ''8111''),
               (''URL'', PStr ''dax://c.dax.example''), (''SubnetGroup'', PStr ''default''),
               (''SecurityGroupIdentifier'', PStr ''sg-1''),
               (''IamRoleArn'', PStr ''arn:aws:iam::111111111111:role/dax''),
               (''ParameterGroupName'', PStr ''default.dax1.0'')])"
    by (auto simp: listed rd_carts rd_start Cons_eq_map_conv)
  obtain d where d: "starting_cluster = PDict d" "map_of d ''ClusterDiscoveryEndpoint'' = None"
    by (simp add: starting_cluster_def)
  from missing_attributes_raise_fall_back_or_skip [where d = d and t = "''2021-01-01T00:00:00+00:00''" and a = "''111111111111''"
      and r = "''us-east-1''" and p = "''aws''", THEN conjunct2, THEN conjunct2, THEN conjunct2, THEN conjunct2, THEN conjunct2, THEN conjunct2, THEN conjunct2, THEN conjunct2, THEN conjunct2, THEN conjunct2, THEN conjunct1, rule_format, OF d(2)]
  have c11: "(\<exists>e. dax_encryption_at_rest_cluster ''2021-01-01T00:00:00+00:00'' ''111111111111'' ''us-east-1'' ''aws'' starting_cluster = Inl e) \<and>
             (\<exists>e. dax_encryption_in_transit_cluster ''2021-01-01T00:00:00+00:00'' ''111111111111'' ''us-east-1'' ''aws'' starting_cluster = Inl e)"
    by (simp add: d(1))
  have listed_i: "listed_instances (Some two_instances) empty_run
      = [web_instance, instance_without_vpc]"
    by (simp add: listed_instances_def ec2_paginate_def cache_get_def request_def
          two_instances_def empty_run_def getitem_def)
  let ?se = "snd (ec2_paginate (Some two_instances) empty_run)"
  obtain fsE exE sE where pe: "for_each ?ie [web_instance] ?se = ((fsE, exE), sE)"
    by (metis prod.exhaust)
  have "snd (fst (for_each ?ie [web_instance] ?se)) = None \<and>
        length (fst (fst (for_each ?ie [web_instance] ?se))) = 2"
    by (simp add: ec2_eval two_instances_def empty_run_def web_instance_def web_scan_def
          iso_of_def py_eval)
  with pe have pev: "exE = None" "length fsE = 2" by simp_all
  have rE: "first_error (ec2_reads instance_without_vpc) = Some (KeyError (PStr ''VpcId''))"
    by (simp add: ec2_reads_def instance_without_vpc_def without_key_def web_instance_def
          getitem_def)
  have kE: "?ke = ((fsE, Some (KeyError (PStr ''VpcId''))), sE)"
    by (rule missing_attributes_raise_fall_back_or_skip [where before = "[web_instance]"
          and i = instance_without_vpc and rest = "[]", THEN conjunct2, THEN conjunct2, THEN conjunct2, THEN conjunct2, THEN conjunct2, THEN conjunct2, THEN conjunct1, rule_format])
       (intro conjI, simp add: listed_i, rule pe [unfolded pev(1)], rule rE)
  have rdE_web: "ec2_details_read iso_of web_instance =
      [(''Type'', Inr (PStr ''t3.micro'')), (''ImageId'', Inr (PStr ''ami-1'')),
       (''VpcId'', Inr (PStr ''vpc-1'')), (''SubnetId'', Inr (PStr ''subnet-1'')),
       (''LaunchedAt'', Inr (PStr ''2021-01-01T00:00:00+00:00''))]"
    by (simp add: ec2_details_read_def ec2_launched_at_def web_instance_def iso_of_def
          str_of_def getitem_def list_index_def py_str_def)
  have rdE_wo: "map snd (ec2_details_read iso_of instance_without_vpc) \<noteq> map Inr vs" for vs
    by (simp add: ec2_details_read_def instance_without_vpc_def without_key_def
          web_instance_def str_of_def getitem_def Cons_eq_map_conv)
  have dE: "finding_details f ''AwsEc2Instance'' = Inr (PDict [(''Type'', PStr ''t3.micro''), (''ImageId'', PStr ''ami-1''),
               (''VpcId'', PStr ''vpc-1''), (''SubnetId'', PStr ''subnet-1''),
               (''LaunchedAt'', PStr ''2021-01-01T00:00:00+00:00'')])" if "f \<in> set fsE" for f
  proof -
    from that have "f \<in> set (fst (fst ?ke))" by (simp add: kE)
    from missing_attributes_raise_fall_back_or_skip [where f = f, THEN conjunct2, THEN conjunct2, THEN conjunct2, THEN conjunct2, THEN conjunct2, THEN conjunct2, THEN conjunct2, THEN conjunct2, THEN conjunct2, THEN conjunct2, THEN conjunct2, THEN conjunct2, THEN conjunct2, THEN conjunct1, rule_format, OF this]
    show ?thesis by (auto simp: listed_i rdE_web rdE_wo Cons_eq_map_conv)
  qed
  have listed_l: "listed_load_balancers two_load_balancers empty_run
      = [web_load_balancer, bare_load_balancer]"
    by (simp add: listed_load_balancers_def describe_load_balancers_def cache_get_def
          request_def two_load_balancers_def empty_run_def getitem_def)
  let ?sl = "snd (describe_load_balancers two_load_balancers empty_run)"
  obtain fsL exL sL where pl: "for_each ?il [web_load_balancer] ?sl = ((fsL, exL), sL)"
    by (metis prod.exhaust)
  have "snd (fst (for_each ?il [web_load_balancer] ?sl)) = None \<and>
        length (fst (fst (for_each ?il [web_load_balancer] ?sl))) = 2"
    by (simp add: elbv2_load_balancer_def elbv2_attributes_def describe_load_balancers_def
          cache_get_def request_def scan_host_def first_key_def yield1_def
          elbv2_open_tcp_port_def int_of_string_def py_strip_def py_isspace_def py_isdigit_def
          service_name_def upper_def upper_char_def Let_def enumerate_eq_zip
          two_load_balancers_def empty_run_def web_load_balancer_def web_scan_def py_eval)
  with pl have plv: "exL = None" "length fsL = 2" by simp_all
  have rL: "first_error (elbv2_reads bare_load_balancer) = Some (KeyError (PStr ''DNSName''))"
    by (simp add: elbv2_reads_def bare_load_balancer_def getitem_def)
  have kL: "?kl = ((fsL, Some (KeyError (PStr ''DNSName''))), sL)"
    by (rule missing_attributes_raise_fall_back_or_skip [where before = "[web_load_balancer]"
          and lb = bare_load_balancer and rest = "[]", THEN conjunct2, THEN conjunct2, THEN conjunct2, THEN conjunct2, THEN conjunct2, THEN conjunct2, THEN conjunct2, THEN conjunct1, rule_format])
       (intro conjI, simp add: listed_l, rule pl [unfolded plv(1)], rule rL)
  have rdL_web: "elbv2_details_read web_load_balancer =
      [(''DNSName'', Inr (PStr ''web.elb.example'')), (''IpAddressType'', Inr (PStr ''ipv4'')),
       (''Scheme'', Inr (PStr ''internet-facing'')), (''Type'', Inr (PStr ''application'')),
       (''VpcId'', Inr (PStr ''vpc-1''))]"
    by (simp add: elbv2_details_read_def web_load_balancer_def str_of_def getitem_def
          py_str_def)
  have rdL_bare: "map snd (elbv2_details_read bare_load_balancer) \<noteq> map Inr vs" for vs
    by (simp add: elbv2_details_read_def bare_load_balancer_def str_of_def getitem_def
          Cons_eq_map_conv)
  have dL: "finding_details f ''AwsElbv2LoadBalancer'' = Inr (PDict [(''DNSName'', PStr ''web.elb.example''), (''IpAddressType'', PStr ''ipv4''),
               (''Scheme'', PStr ''internet-facing''), (''Type'', PStr ''application''),
               (''VpcId'', PStr ''vpc-1'')])"
    if "f \<in> set fsL" for f
  proof -
    from that have "f \<in> set (fst (fst ?kl))" by (simp add: kL)
    from missing_attributes_raise_fall_back_or_skip [where f = f, THEN conjunct2, THEN conjunct2, THEN conjunct2, THEN conjunct2, THEN conjunct2, THEN conjunct2, THEN conjunct2, THEN conjunct2, THEN conjunct2, THEN conjunct2, THEN conjunct2, THEN conjunct2, THEN conjunct2, THEN conjunct2, THEN conjunct1, rule_format, OF this]
    show ?thesis by (auto simp: listed_l rdL_web rdL_bare Cons_eq_map_conv)
  qed
  obtain di where di: "private_instance = PDict di" "map_of di ''PublicIpAddress'' = None"
    "map_of di ''LaunchTime'' = Some (PStr ''2021-01-01 00:00:00+00:00'')"
    "map_of di ''BlockDeviceMappings'' =
       Some (PList [PDict [(''DeviceName'', PStr ''/dev/xvda''),
                           (''Ebs'', PDict [(''Status'', PStr ''attached'')])]])"
    by (simp add: private_instance_def)
  have "first_error (ec2_reads private_instance) = None"
    by (simp add: ec2_reads_def ec2_launched_at_def private_instance_def getitem_def
          list_index_def)
  with di(1) have rP: "first_error (ec2_reads (PDict di)) = None" by simp
  have w1: "(case dax_encryption_at_rest_check mixed_clusters ''2021-01-01T00:00:00+00:00'' empty_run ''111111111111'' ''us-east-1'' ''aws'' of
      ((fs, ex), s) \<Rightarrow>
        ex = Some (KeyError (PStr ''ClusterDiscoveryEndpoint'')) \<and>
        map (\<lambda>f. finding_details f ''Other'') fs =
          [Inr (PDict [(''ClusterName'', PStr ''carts''), (''TotalNodes'', PStr ''3''),
               (''NodeType'', PStr ''dax.r4.large''), (''Status'', PStr ''available''),
               (''Address'', PStr ''c.dax.example''), (''Port'', PStr ''8111''),
               (''URL'', PStr ''dax://c.dax.example''), (''SubnetGroup'', PStr ''default''),
               (''SecurityGroupIdentifier'', PStr ''sg-1''),
               (''IamRoleArn'', PStr ''arn:aws:iam::111111111111:role/dax''),
               (''ParameterGroupName'', PStr ''default.dax1.0'')])])"
    using k1 d1 by (simp add: case_prod_beta)
  have w2: "(case dax_encryption_in_transit_check mixed_clusters ''2021-01-01T00:00:00+00:00'' empty_run ''111111111111'' ''us-east-1'' ''aws'' of
      ((fs, ex), s) \<Rightarrow>
        ex = Some (KeyError (PStr ''ClusterDiscoveryEndpoint'')) \<and>
        map (\<lambda>f. finding_details f ''Other'') fs =
          [Inr (PDict [(''ClusterName'', PStr ''carts''), (''TotalNodes'', PStr ''3''),
               (''NodeType'', PStr ''dax.r4.large''), (''Status'', PStr ''available''),
               (''Address'', PStr ''c.dax.example''), (''Port'', PStr ''8111''),
               (''URL'', PStr ''dax://c.dax.example''), (''SubnetGroup'', PStr ''default''),
               (''SecurityGroupIdentifier'', PStr ''sg-1''),
               (''IamRoleArn'', PStr ''arn:aws:iam::111111111111:role/dax''),
               (''ParameterGroupName'', PStr ''default.dax1.0'')])])"
    using k2 d2 by (simp add: case_prod_beta)
  have w3: "(case ec2_attack_surface_open_tcp_port_check (Some two_instances) web_scan iso_of ''2021-01-01T00:00:00+00:00''
           empty_run ''111111111111'' ''us-east-1'' ''aws'' of
      ((fs, ex), s) \<Rightarrow>
        ex = Some (KeyError (PStr ''VpcId'')) \<and> length fs = 2 \<and>
        list_all (\<lambda>f. finding_details f ''AwsEc2Instance'' =
            Inr (PDict [(''Type'', PStr ''t3.micro''), (''ImageId'', PStr ''ami-1''),
               (''VpcId'', PStr ''vpc-1''), (''SubnetId'', PStr ''subnet-1''),
               (''LaunchedAt'', PStr ''2021-01-01T00:00:00+00:00'')])) fs)"
    using kE pev dE by (simp add: list_all_iff)
  have w4: "(case elbv2_attack_surface_open_tcp_port_check two_load_balancers web_scan ''2021-01-01T00:00:00+00:00''
           empty_run ''111111111111'' ''us-east-1'' ''aws'' of
      ((fs, ex), s) \<Rightarrow>
        ex = Some (KeyError (PStr ''DNSName'')) \<and> length fs = 2 \<and>
        list_all (\<lambda>f. finding_details f ''AwsElbv2LoadBalancer'' =
            Inr (PDict [(''DNSName'', PStr ''web.elb.example''), (''IpAddressType'', PStr ''ipv4''),
               (''Scheme'', PStr ''internet-facing''), (''Type'', PStr ''application''),
               (''VpcId'', PStr ''vpc-1'')])) fs)"
    using kL plv dL by (simp add: list_all_iff)
  have w5: "dax_encryption_at_rest_cluster ''2021-01-01T00:00:00+00:00'' ''111111111111'' ''us-east-1'' ''aws'' (without_key ''IamRoleArn'' (dax_cluster ''carts'' ''ENABLED''))
     = Inl (KeyError (PStr ''IamRoleArn''))"
    by (rule missing_attributes_raise_fall_back_or_skip [THEN conjunct1, rule_format, OF r1_role])
  have w6: "dax_encryption_in_transit_cluster ''2021-01-01T00:00:00+00:00'' ''111111111111'' ''us-east-1'' ''aws'' (without_key ''ParameterGroup'' (dax_cluster ''carts'' ''ENABLED''))
     = Inl (KeyError (PStr ''ParameterGroup''))"
    by (rule missing_attributes_raise_fall_back_or_skip [THEN conjunct2, THEN conjunct1, rule_format, OF r2_group])
  have w7: "dax_encryption_at_rest_cluster ''2021-01-01T00:00:00+00:00'' ''111111111111'' ''us-east-1'' ''aws'' (without_key ''ClusterDiscoveryEndpoint'' (dax_cluster ''carts'' ''ENABLED''))
     = Inl (KeyError (PStr ''ClusterDiscoveryEndpoint''))"
    by (rule c9)
  have w8: "dax_encryption_at_rest_cluster ''2021-01-01T00:00:00+00:00'' ''111111111111'' ''us-east-1'' ''aws'' (with_key ''SecurityGroups'' (PList []) (dax_cluster ''carts'' ''ENABLED'')) = Inl IndexError"
    by (rule c9)
  have w9: "dax_encryption_in_transit_cluster ''2021-01-01T00:00:00+00:00'' ''111111111111'' ''us-east-1'' ''aws'' (without_key ''ClusterDiscoveryEndpoint'' (dax_cluster ''carts'' ''ENABLED''))
     = Inl (KeyError (PStr ''ClusterDiscoveryEndpoint''))"
    by (rule c10)
  have w10: "dax_encryption_in_transit_cluster ''2021-01-01T00:00:00+00:00'' ''111111111111'' ''us-east-1'' ''aws'' (with_key ''SecurityGroups'' (PList []) (dax_cluster ''carts'' ''ENABLED'')) = Inl IndexError"
    by (rule c10)
  have w11: "(\<exists>e. dax_encryption_at_rest_cluster ''2021-01-01T00:00:00+00:00'' ''111111111111'' ''us-east-1'' ''aws'' starting_cluster = Inl e)"
    using c11 by blast
  have w12: "(\<exists>e. dax_encryption_in_transit_cluster ''2021-01-01T00:00:00+00:00'' ''111111111111'' ''us-east-1'' ''aws'' starting_cluster = Inl e)"
    using c11 by blast
  have w13: "ec2_instance web_scan iso_of ''2021-01-01T00:00:00+00:00'' ''111111111111'' ''us-east-1'' ''aws'' instance_without_vpc empty_run
     = (([], Some (KeyError (PStr ''VpcId''))), empty_run)"
    by (rule missing_attributes_raise_fall_back_or_skip [THEN conjunct2, THEN conjunct2, THEN conjunct1, rule_format, OF rE])
  have w14: "elbv2_load_balancer web_scan ''2021-01-01T00:00:00+00:00'' ''111111111111'' ''us-east-1'' ''aws'' bare_load_balancer empty_run
     = (([], Some (KeyError (PStr ''DNSName''))), empty_run)"
    by (rule missing_attributes_raise_fall_back_or_skip [THEN conjunct2, THEN conjunct2, THEN conjunct2, THEN conjunct1, rule_format, OF rL])
  have w15: "ec2_launched_at private_instance = Inr ''2021-01-01 00:00:00+00:00''"
    using missing_attributes_raise_fall_back_or_skip [where d = di and launchTime = "PStr ''2021-01-01 00:00:00+00:00''",
        THEN conjunct2, THEN conjunct2, THEN conjunct2, THEN conjunct2, THEN conjunct2, THEN conjunct2, THEN conjunct2, THEN conjunct2, THEN conjunct2, THEN conjunct2, THEN conjunct2, THEN conjunct2, THEN conjunct2, THEN conjunct2, THEN conjunct2, THEN conjunct1, rule_format] di
    by (simp add: py_str_def)
  have w16: "ec2_instance web_scan iso_of ''2021-01-01T00:00:00+00:00'' ''111111111111'' ''us-east-1'' ''aws'' private_instance empty_run = (([], None), empty_run)"
    using missing_attributes_raise_fall_back_or_skip [where d = di, THEN conjunct2, THEN conjunct2, THEN conjunct2, THEN conjunct2, THEN conjunct2, THEN conjunct2, THEN conjunct2, THEN conjunct2, THEN conjunct2, THEN conjunct2, THEN conjunct2, THEN conjunct2, THEN conjunct2, THEN conjunct2, THEN conjunct2, THEN conjunct2, rule_format] di rP
    by simp
  show ?thesis by (intro conjI) (fact w1 w2 w3 w4 w5 w6 w7 w8 w9 w10 w11 w12 w13 w14 w15 w16)+
qed

section \<open>The playbook\<close>

lemmas action_defs = bindS_def returnS_def liftE_def invoke_def print_value_def sleep_def
  try_print_raise_def try_print_def

lemmas kwargs_defs = create_log_group_kwargs_def describe_log_groups_kwargs_def
  create_policy_kwargs_def create_role_kwargs_def attach_role_policy_kwargs_def
  create_flow_logs_kwargs_def update_findings_kwargs_def

text \<open>Each branch is the shape with the arguments that the branch writes.\<close>

lemma cross_account_pipeline_shape:
  "cross_account_pipeline aws logs iam ec2 sh fname fid vpc =
     provisioning_shape aws logs iam ec2 sh
       (create_log_group_kwargs vpc) (describe_log_groups_kwargs vpc) (create_policy_kwargs vpc)
       (create_role_kwargs vpc) attach_role_policy_kwargs (create_flow_logs_kwargs vpc)
       (update_findings_kwargs fid fname)"
  unfolding cross_account_pipeline_def provisioning_shape_def Let_def kwargs_defs
  by (rule refl)

lemma local_pipeline_shape:
  "local_pipeline aws logs iam ec2 sh fname fid vpc =
     provisioning_shape aws logs iam ec2 sh
       (create_log_group_kwargs vpc) (describe_log_groups_kwargs vpc) (create_policy_kwargs vpc)
       (create_role_kwargs vpc) attach_role_policy_kwargs (create_flow_logs_kwargs vpc)
       (update_findings_kwargs fid fname)"
  unfolding local_pipeline_def provisioning_shape_def Let_def kwargs_defs
  by (rule refl)

lemma shape_reports_once:
  "reports_once aws ec2 sh k6 k7 tr0
     (provisioning_shape aws logs iam ec2 sh k1 k2 k3 k4 k5 k6 k7 tr0)"
  unfolding provisioning_shape_def reports_once_def
  apply (auto simp add: action_defs split: sum.splits prod.splits)
   apply (intro exI conjI, rule refl, rule refl, simp)
  apply (intro exI conjI, rule refl, rule refl, simp)
  done

lemma shape_clients:
  "provisioning_shape aws logs iam ec2 sh k1 k2 k3 k4 k5 k6 k7 tr0 = (r, tr) \<Longrightarrow>
     take (length tr0) tr = tr0 \<and>
     set (clients (drop (length tr0) tr)) \<subseteq> {logs, iam, ec2, sh} \<and>
     ''assume_role'' \<notin> set (ops (drop (length tr0) tr))"
  unfolding provisioning_shape_def
  by (auto simp add: action_defs split: sum.splits prod.splits)

lemma shape_first:
  "provisioning_shape aws logs iam ec2 sh k1 k2 k3 k4 k5 k6 k7 tr0 = (r, tr) \<Longrightarrow>
     take 1 (drop (length tr0) tr) = [Called logs ''create_log_group'' k1] \<and>
     (\<forall>e. aws tr0 logs ''create_log_group'' k1 = Inl e \<longrightarrow>
        r = Inl e \<and>
        drop (length tr0) tr = [Called logs ''create_log_group'' k1, Printed (Inl e)])"
  unfolding provisioning_shape_def
  by (auto simp add: action_defs split: sum.splits prod.splits)

lemma py_ne_PStr: "py_ne (PStr s) v = (v \<noteq> PStr s)"
  by (cases v) (auto simp: py_ne_def)

lemma take_Suc_snoc:
  assumes "take (Suc (length a)) tr = a @ [c]"
  shows "take (length a) tr = a \<and> take 1 (drop (length a) tr) = [c] \<and>
         drop (length a) tr = c # drop (Suc (length a)) tr"
proof -
  have "tr = (a @ [c]) @ drop (Suc (length a)) tr"
    using assms append_take_drop_id [of "Suc (length a)" tr] by simp
  then obtain rest where tr: "tr = a @ c # rest" by simp
  then show ?thesis by simp
qed

lemmas run_eval = provisioning_shape_def action_defs getitem_def list_index_def py_str_def

section \<open>Credentials\<close>

text \<open>
  C4. For every resource of a finding that the handler works on (the resource has an
  \<open>Id\<close>), with the clients of \<open>lambda_handler\<close>. When the owner of the finding is
  the account of the function, the run is the pipeline with clients of the ambient
  identity: its first request is \<open>create_log_group\<close> by such a client, no role is
  assumed and every client used is ambient. Otherwise the first request is
  \<open>assume_role\<close> for the role \<open>XA-ElectricEye-Response\<close> of the owner, and it is the
  only one. If it raises, or its answer lacks a credential, that exception is the result
  and nothing is provisioned. If it returns an access key, a secret key and a session
  token, the run goes on as the pipeline with clients built from exactly these three: the
  next request is \<open>create_log_group\<close> by such a client, every client used for
  provisioning carries them, and so carries non-empty credentials when the three returned
  values are non-empty strings; only the reporting client is ambient.
\<close>

theorem credentials_follow_the_owner:
  assumes "getitem resources ''Id'' = Inr rid"
    and "remediate_resource aws (Client ''sts'' Ambient) (Client ''securityhub'' Ambient)
           awsRegion lambdaFunctionName masterAccountId findingId findingOwner resources tr0
         = (r, tr)"
  shows "take (length tr0) tr = tr0 \<and>
     (masterAccountId = PStr findingOwner \<longrightarrow>
        (r, tr) =
          local_pipeline aws (Client ''logs'' Ambient) (Client ''iam'' Ambient)
            (Client ''ec2'' Ambient) (Client ''securityhub'' Ambient) lambdaFunctionName
            findingId (vpc_of awsRegion findingOwner rid) tr0 \<and>
        take 1 (drop (length tr0) tr) =
          [Called (Client ''logs'' Ambient) ''create_log_group''
             (create_log_group_kwargs (vpc_of awsRegion findingOwner rid))] \<and>
        ''assume_role'' \<notin> set (ops (drop (length tr0) tr)) \<and>
        (\<forall>c \<in> set (clients (drop (length tr0) tr)). \<exists>service. c = Client service Ambient)) \<and>
     (masterAccountId \<noteq> PStr findingOwner \<longrightarrow>
        take 1 (drop (length tr0) tr) =
          [Called (Client ''sts'' Ambient) ''assume_role'' (assume_role_kwargs findingOwner)] \<and>
        ''assume_role'' \<notin> set (ops (drop (Suc (length tr0)) tr)) \<and>
        (\<forall>e. returned_credentials
               (aws tr0 (Client ''sts'' Ambient) ''assume_role''
                  (assume_role_kwargs findingOwner)) = Inl e \<longrightarrow>
           r = Inl e \<and>
           drop (length tr0) tr =
             [Called (Client ''sts'' Ambient) ''assume_role''
                (assume_role_kwargs findingOwner)]) \<and>
        (\<forall>accessKey secretKey sessionToken.
           returned_credentials
             (aws tr0 (Client ''sts'' Ambient) ''assume_role''
                (assume_role_kwargs findingOwner))
             = Inr (accessKey, secretKey, sessionToken) \<longrightarrow>
           (r, tr) =
             cross_account_pipeline aws
               (Client ''logs'' (Session accessKey secretKey sessionToken))
               (Client ''iam'' (Session accessKey secretKey sessionToken))
               (Client ''ec2'' (Session accessKey secretKey sessionToken))
               (Client ''securityhub'' Ambient) lambdaFunctionName findingId
               (vpc_of awsRegion findingOwner rid)
               (tr0 @ [Called (Client ''sts'' Ambient) ''assume_role''
                         (assume_role_kwargs findingOwner)]) \<and>
           take 1 (drop (Suc (length tr0)) tr) =
             [Called (Client ''logs'' (Session accessKey secretKey sessionToken))
                ''create_log_group''
                (create_log_group_kwargs (vpc_of awsRegion findingOwner rid))] \<and>
           (\<forall>c \<in> set (clients (drop (Suc (length tr0)) tr)).
              c = Client ''securityhub'' Ambient \<or>
              (\<exists>service. c = Client service (Session accessKey secretKey sessionToken))) \<and>
           (nonempty_text accessKey \<and> nonempty_text secretKey \<and> nonempty_text sessionToken \<longrightarrow>
              (\<forall>c \<in> set (clients (drop (Suc (length tr0)) tr)).
                 c = Client ''securityhub'' Ambient \<or> carries_nonempty_credentials c))))"
proof (cases "masterAccountId = PStr findingOwner")
  case True
  let ?vpc = "vpc_of awsRegion findingOwner rid"
  let ?run = "local_pipeline aws (Client ''logs'' Ambient) (Client ''iam'' Ambient)
         (Client ''ec2'' Ambient) (Client ''securityhub'' Ambient) lambdaFunctionName
         findingId ?vpc tr0"
  from assms True have run: "?run = (r, tr)"
    by (simp add: remediate_resource_def action_defs py_ne_PStr Let_def vpc_of_def)
  from shape_clients [OF run [unfolded local_pipeline_shape]]
    shape_first [OF run [unfolded local_pipeline_shape]] run True
  show ?thesis by auto
next
  case False
  let ?vpc = "vpc_of awsRegion findingOwner rid"
  let ?sts = "Client ''sts'' Ambient" and ?sh = "Client ''securityhub'' Ambient"
  let ?k = "assume_role_kwargs findingOwner"
  let ?tr1 = "tr0 @ [Called ?sts ''assume_role'' ?k]"
  show ?thesis
  proof (cases "returned_credentials (aws tr0 ?sts ''assume_role'' ?k)")
    case (Inl e)
    with assms False have "r = Inl e" "tr = ?tr1"
      by (auto simp add: remediate_resource_def action_defs py_ne_PStr Let_def field2_def
            assume_role_kwargs_def returned_credentials_def bindE_def split: sum.splits)
    with False Inl show ?thesis by simp
  next
    case (Inr cr)
    obtain ak sk tok where cr: "cr = (ak, sk, tok)" by (cases cr) auto
    let ?run = "cross_account_pipeline aws (Client ''logs'' (Session ak sk tok))
           (Client ''iam'' (Session ak sk tok)) (Client ''ec2'' (Session ak sk tok)) ?sh
           lambdaFunctionName findingId ?vpc ?tr1"
    from Inr cr obtain ma where ma: "aws tr0 ?sts ''assume_role'' ?k = Inr ma"
      "field2 ma ''Credentials'' ''AccessKeyId'' = Inr ak"
      "field2 ma ''Credentials'' ''SecretAccessKey'' = Inr sk"
      "field2 ma ''Credentials'' ''SessionToken'' = Inr tok"
      unfolding returned_credentials_def by (auto dest!: bindE_Inr)
    with assms False have run: "?run = (r, tr)"
      by (simp add: remediate_resource_def action_defs py_ne_PStr Let_def field2_def
            assume_role_kwargs_def vpc_of_def)
    from shape_clients [OF run [unfolded cross_account_pipeline_shape]]
    have t: "take (Suc (length tr0)) tr = ?tr1"
      and c: "set (clients (drop (Suc (length tr0)) tr)) \<subseteq>
               {Client ''logs'' (Session ak sk tok), Client ''iam'' (Session ak sk tok),
                Client ''ec2'' (Session ak sk tok), ?sh}"
      and n: "''assume_role'' \<notin> set (ops (drop (Suc (length tr0)) tr))"
      by simp_all
    from shape_first [OF run [unfolded cross_account_pipeline_shape]]
    have f: "take 1 (drop (Suc (length tr0)) tr) =
               [Called (Client ''logs'' (Session ak sk tok)) ''create_log_group''
                  (create_log_group_kwargs ?vpc)]"
      by simp
    have ne: "nonempty_text ak \<and> nonempty_text sk \<and> nonempty_text tok \<longrightarrow>
        (\<forall>c \<in> set (clients (drop (Suc (length tr0)) tr)).
           c = ?sh \<or> carries_nonempty_credentials c)"
      using c by (auto simp: carries_nonempty_credentials_def)
    from take_Suc_snoc [OF t] c n f ne run Inr cr False show ?thesis by auto
  qed
qed

text \<open>Account 999999999999 handles a finding of account 111111111111: the role is
  assumed first and the three provisioning clients carry the credentials it returned,
  which are not empty. It handles a finding of its own: no role is assumed, the log group
  is created first and every client is ambient.\<close>

theorem credentials_follow_the_owner_witness:
  "(case remediate_resource fresh_account (Client ''sts'' Ambient) (Client ''securityhub'' Ambient)
           ''us-east-1'' ''fixer'' (PStr ''999999999999'') ''finding-1'' ''111111111111''
           vpc_resource [] of
      (r, tr) \<Rightarrow>
        r = Inr () \<and>
        ops tr = ''assume_role'' # provisioning_steps @ [''update_findings''] \<and>
        clients tr =
          [own ''sts'', member ''logs'', member ''logs'', member ''iam'', member ''iam'',
           member ''iam'', member ''ec2'', own ''securityhub''] \<and>
        take 1 tr = [Called (Client ''sts'' Ambient) ''assume_role''
                       (assume_role_kwargs ''111111111111'')] \<and>
        take 1 (drop 1 tr) = [Called (member ''logs'') ''create_log_group''
                                (create_log_group_kwargs ''vpc-1'')] \<and>
        list_all (\<lambda>c. c = own ''securityhub'' \<or> carries_nonempty_credentials c)
          (clients (drop 1 tr))) \<and>
   (case remediate_resource fresh_account (Client ''sts'' Ambient) (Client ''securityhub'' Ambient)
           ''us-east-1'' ''fixer'' (PStr ''999999999999'') ''finding-2'' ''999999999999''
           own_vpc_resource [] of
      (r, tr) \<Rightarrow>
        r = Inr () \<and>
        ops tr = provisioning_steps @ [''update_findings''] \<and>
        clients tr =
          [own ''logs'', own ''logs'', own ''iam'', own ''iam'', own ''iam'', own ''ec2'',
           own ''securityhub''] \<and>
        take 1 tr = [Called (own ''logs'') ''create_log_group''
                       (create_log_group_kwargs ''vpc-1'')])"
proof -
  let ?sts = "Client ''sts'' Ambient" and ?sh = "Client ''securityhub'' Ambient"
  let ?x = "remediate_resource fresh_account ?sts ?sh ''us-east-1'' ''fixer''
           (PStr ''999999999999'') ''finding-1'' ''111111111111'' vpc_resource []"
  let ?l = "remediate_resource fresh_account ?sts ?sh ''us-east-1'' ''fixer''
           (PStr ''999999999999'') ''finding-2'' ''999999999999'' own_vpc_resource []"
  obtain r tr where x: "?x = (r, tr)" by (metis prod.exhaust)
  obtain r' tr' where l: "?l = (r', tr')" by (metis prod.exhaust)
  have idx: "getitem vpc_resource ''Id'' = Inr (PStr ''arn:aws:ec2:us-east-1:111111111111:vpc/vpc-1'')"
    by (simp add: vpc_resource_def getitem_def)
  have idl: "getitem own_vpc_resource ''Id''
               = Inr (PStr ''arn:aws:ec2:us-east-1:999999999999:vpc/vpc-1'')"
    by (simp add: own_vpc_resource_def getitem_def)
  have vx: "vpc_of ''us-east-1'' ''111111111111''
              (PStr ''arn:aws:ec2:us-east-1:111111111111:vpc/vpc-1'') = ''vpc-1''"
    by (simp add: vpc_of_def py_str_def)
  have vl: "vpc_of ''us-east-1'' ''999999999999''
              (PStr ''arn:aws:ec2:us-east-1:999999999999:vpc/vpc-1'') = ''vpc-1''"
    by (simp add: vpc_of_def py_str_def)
  have cr: "returned_credentials (fresh_account [] ?sts ''assume_role''
               (assume_role_kwargs ''111111111111''))
            = Inr (PStr ''ASIAEXAMPLE'', PStr ''wJalrEXAMPLEKEY'', PStr ''FwoGZXEXAMPLETOKEN'')"
    by (simp add: returned_credentials_def fresh_account_def field2_def getitem_def)
  have ne: "nonempty_text (PStr ''ASIAEXAMPLE'') \<and> nonempty_text (PStr ''wJalrEXAMPLEKEY'') \<and>
            nonempty_text (PStr ''FwoGZXEXAMPLETOKEN'')"
    by (simp add: nonempty_text_def)
  have evx: "fst ?x = Inr () \<and>
        ops (snd ?x) = ''assume_role'' # provisioning_steps @ [''update_findings''] \<and>
        clients (snd ?x) =
          [own ''sts'', member ''logs'', member ''logs'', member ''iam'', member ''iam'',
           member ''iam'', member ''ec2'', own ''securityhub'']"
    by (simp add: remediate_resource_def vpc_resource_def py_ne_PStr Let_def
          cross_account_pipeline_shape run_eval fresh_account_def provisioning_steps_def
          own_def member_def)
  have evl: "fst ?l = Inr () \<and>
        ops (snd ?l) = provisioning_steps @ [''update_findings''] \<and>
        clients (snd ?l) =
          [own ''logs'', own ''logs'', own ''iam'', own ''iam'', own ''iam'', own ''ec2'',
           own ''securityhub'']"
    by (simp add: remediate_resource_def own_vpc_resource_def py_ne_PStr Let_def
          local_pipeline_shape run_eval fresh_account_def provisioning_steps_def own_def)
  from credentials_follow_the_owner [OF idx x] cr ne vx
  have px: "take 1 tr = [Called ?sts ''assume_role'' (assume_role_kwargs ''111111111111'')] \<and>
        take 1 (drop 1 tr) = [Called (member ''logs'') ''create_log_group''
                                (create_log_group_kwargs ''vpc-1'')] \<and>
        (\<forall>c \<in> set (clients (drop 1 tr)).
           c = own ''securityhub'' \<or> carries_nonempty_credentials c)"
    by (simp add: member_def own_def)
  from credentials_follow_the_owner [OF idl l] vl
  have pl: "take 1 tr' = [Called (own ''logs'') ''create_log_group''
                       (create_log_group_kwargs ''vpc-1'')]"
    by (simp add: own_def)
  from evx evl px pl x l show ?thesis by (simp add: list_all_iff)
qed

section \<open>Fail-stop\<close>

lemma shape_fail_stop:
  "fail_stop aws tr0 (provisioning_shape aws logs iam ec2 sh k1 k2 k3 k4 k5 k6 k7 tr0)"
  unfolding provisioning_shape_def fail_stop_def
  by (auto simp add: action_defs provisioning_steps_def ends_with_failed_request_def
        Cons_eq_append_conv split: sum.splits prod.splits)

text \<open>
  C3. Each branch runs its steps fail-stop: whichever of the six provisioning requests
  (create log group, describe log groups, create policy, create role, attach role policy,
  create flow logs) is answered with an exception, nothing follows it but the print of
  that exception, which is re-raised as the result; the requests already made stay in the
  trace and the run requests nothing outside the fixed sequence, so nothing is rolled back.
\<close>

theorem provisioning_is_fail_stop:
  "fail_stop aws tr0
     (cross_account_pipeline aws logs iam ec2 securityhub lambdaFunctionName findingId vpc tr0) \<and>
   fail_stop aws tr0
     (local_pipeline aws logs iam ec2 securityhub lambdaFunctionName findingId vpc tr0)"
  by (simp add: cross_account_pipeline_shape local_pipeline_shape shape_fail_stop)

text \<open>With a policy of that name in place, the third request fails: the log group stays
  created and described, no role is created, and the exception is the result.\<close>

theorem provisioning_is_fail_stop_witness:
  "(case local_pipeline policy_exists (own ''logs'') (own ''iam'') (own ''ec2'')
           (own ''securityhub'') ''fixer'' ''finding-1'' ''vpc-1'' [] of
      (r, tr) \<Rightarrow>
        r = Inl (ClientError ''EntityAlreadyExists'') \<and>
        ops tr = [''create_log_group'', ''describe_log_groups'', ''create_policy''] \<and>
        ends_with_failed_request (ClientError ''EntityAlreadyExists'') tr)"
proof -
  let ?run = "local_pipeline policy_exists (own ''logs'') (own ''iam'') (own ''ec2'')
           (own ''securityhub'') ''fixer'' ''finding-1'' ''vpc-1'' []"
  obtain r tr where run: "?run = (r, tr)" by (metis prod.exhaust)
  have ev: "fst ?run = Inl (ClientError ''EntityAlreadyExists'') \<and>
        ops (snd ?run) = [''create_log_group'', ''describe_log_groups'', ''create_policy'']"
    by (simp add: local_pipeline_shape run_eval policy_exists_def fresh_account_def)
  from provisioning_is_fail_stop
    [of policy_exists "[]" "own ''logs''" "own ''iam''" "own ''ec2''" "own ''securityhub''"
        "''fixer''" "''finding-1''" "''vpc-1''"]
  have "fail_stop policy_exists [] (r, tr)" using run by simp
  with ev run have "ends_with_failed_request (ClientError ''EntityAlreadyExists'') tr"
    by (simp add: fail_stop_def)
  with ev run show ?thesis by simp
qed

section \<open>Reporting\<close>

text \<open>
  C5. In each branch the run succeeds exactly when it reaches the report: then
  \<open>update_findings\<close> is requested once, after \<open>create_flow_logs\<close>, for the finding
  id, with RecordState ARCHIVED and a note that names the log group the flow logs are
  sent to; what the request returns or raises is printed and the run still succeeds. A
  run that fails in a provisioning step requests no update and returns the exception.
\<close>

theorem report_is_sent_once_and_never_fails_the_run:
  "reports_once aws ec2 securityhub (create_flow_logs_kwargs vpc)
     (update_findings_kwargs findingId lambdaFunctionName) tr0
     (cross_account_pipeline aws logs iam ec2 securityhub lambdaFunctionName findingId vpc tr0) \<and>
   reports_once aws ec2 securityhub (create_flow_logs_kwargs vpc)
     (update_findings_kwargs findingId lambdaFunctionName) tr0
     (local_pipeline aws logs iam ec2 securityhub lambdaFunctionName findingId vpc tr0) \<and>
   field2 (update_findings_kwargs findingId lambdaFunctionName logGroupName) ''Note'' ''Text'' =
     Inr (PStr (''A new CloudWatch logs group and IAM role was created for the VPC and flow logs are enabled and being sent to '' @ logGroupName @ '' and the finding was archived.'')) \<and>
   getitem (update_findings_kwargs findingId lambdaFunctionName logGroupName) ''RecordState'' =
     Inr (PStr ''ARCHIVED'') \<and>
   field2 (update_findings_kwargs findingId lambdaFunctionName logGroupName) ''Filters'' ''Id'' =
     Inr (PList [PDict [(''Value'', PStr findingId), (''Comparison'', PStr ''EQUALS'')]]) \<and>
   getitem (create_flow_logs_kwargs vpc cwlRoleArn logGroupName) ''LogGroupName'' =
     Inr (PStr logGroupName)"
  by (simp add: cross_account_pipeline_shape local_pipeline_shape shape_reports_once)
     (simp add: update_findings_kwargs_def create_flow_logs_kwargs_def field2_def getitem_def)

text \<open>Security Hub refuses the update after all six steps succeeded: the exception is
  printed last and the run succeeds, with one update requested.\<close>

theorem report_is_sent_once_and_never_fails_the_run_witness:
  "(case local_pipeline hub_denies (own ''logs'') (own ''iam'') (own ''ec2'')
           (own ''securityhub'') ''fixer'' ''finding-1'' ''vpc-1'' [] of
      (r, tr) \<Rightarrow>
        r = Inr () \<and>
        ops tr = provisioning_steps @ [''update_findings''] \<and>
        last tr = Printed (Inl (ClientError ''AccessDeniedException'')) \<and>
        filter (\<lambda>operation. operation = ''update_findings'') (ops tr) = [''update_findings''])"
proof -
  let ?run = "local_pipeline hub_denies (own ''logs'') (own ''iam'') (own ''ec2'')
           (own ''securityhub'') ''fixer'' ''finding-1'' ''vpc-1'' []"
  obtain r tr where run: "?run = (r, tr)" by (metis prod.exhaust)
  have ev: "fst ?run = Inr () \<and> ops (snd ?run) = provisioning_steps @ [''update_findings''] \<and>
        last (snd ?run) = Printed (Inl (ClientError ''AccessDeniedException''))"
    by (simp add: local_pipeline_shape run_eval hub_denies_def fresh_account_def
          provisioning_steps_def)
  from report_is_sent_once_and_never_fails_the_run
    [of hub_denies "own ''ec2''" "own ''securityhub''" "''vpc-1''" "''finding-1''" "''fixer''"
        "[]" "own ''logs''" "own ''iam''"]
  have "reports_once hub_denies (own ''ec2'') (own ''securityhub'')
          (create_flow_logs_kwargs ''vpc-1'') (update_findings_kwargs ''finding-1'' ''fixer'')
          [] (r, tr)"
    using run by simp
  with ev run have
    "filter (\<lambda>operation. operation = ''update_findings'') (ops tr) = [''update_findings'']"
    by (simp add: reports_once_def)
  with ev run show ?thesis by simp
qed

section \<open>Running the playbook again\<close>

text \<open>
  C8, as amended. Neither branch looks anything up before it creates: the first request
  of a run is always \<open>create_log_group\<close> for \<open>VPCFlowLogs/\<close> and the VPC id. When
  the services answer it with an exception, as they do for a log group that exists, the
  exception is printed and re-raised and the run requests nothing else: no policy and no
  role is created, nothing is reused, and the result is the exception of the services.
\<close>

theorem creation_is_requested_without_lookup:
  "(cross_account_pipeline aws logs iam ec2 securityhub lambdaFunctionName findingId vpc tr0
      = (r, tr) \<longrightarrow>
      take 1 (drop (length tr0) tr)
        = [Called logs ''create_log_group'' (create_log_group_kwargs vpc)] \<and>
      (\<forall>e. aws tr0 logs ''create_log_group'' (create_log_group_kwargs vpc) = Inl e \<longrightarrow>
         r = Inl e \<and>
         drop (length tr0) tr
           = [Called logs ''create_log_group'' (create_log_group_kwargs vpc), Printed (Inl e)])) \<and>
   (local_pipeline aws logs iam ec2 securityhub lambdaFunctionName findingId vpc tr0
      = (r', tr') \<longrightarrow>
      take 1 (drop (length tr0) tr')
        = [Called logs ''create_log_group'' (create_log_group_kwargs vpc)] \<and>
      (\<forall>e. aws tr0 logs ''create_log_group'' (create_log_group_kwargs vpc) = Inl e \<longrightarrow>
         r' = Inl e \<and>
         drop (length tr0) tr'
           = [Called logs ''create_log_group'' (create_log_group_kwargs vpc), Printed (Inl e)]))"
  using shape_first [of aws logs iam ec2 securityhub "create_log_group_kwargs vpc"
          "describe_log_groups_kwargs vpc" "create_policy_kwargs vpc" "create_role_kwargs vpc"
          attach_role_policy_kwargs "create_flow_logs_kwargs vpc"
          "update_findings_kwargs findingId lambdaFunctionName" tr0]
  unfolding cross_account_pipeline_shape local_pipeline_shape
  by blast

lemma first_run_remembers:
  "fst (local_pipeline remembers (own ''logs'') (own ''iam'') (own ''ec2'')
          (own ''securityhub'') ''fixer'' ''finding-1'' ''vpc-1'' []) = Inr () \<and>
   ops (snd (local_pipeline remembers (own ''logs'') (own ''iam'') (own ''ec2'')
          (own ''securityhub'') ''fixer'' ''finding-1'' ''vpc-1'' []))
     = provisioning_steps @ [''update_findings'']"
  by (simp add: local_pipeline_shape run_eval remembers_def fresh_account_def
        provisioning_steps_def)

text \<open>C8 as stated fails. The playbook runs twice on one VPC, with services that refuse
  to create what exists. The second run looks nothing up: its only request is
  \<open>create_log_group\<close>, and its result is the exception of the services.\<close>

theorem second_run_requests_creation_again:
  "(case local_pipeline remembers (own ''logs'') (own ''iam'') (own ''ec2'')
           (own ''securityhub'') ''fixer'' ''finding-1'' ''vpc-1'' [] of
      (r1, tr1) \<Rightarrow>
        (case local_pipeline remembers (own ''logs'') (own ''iam'') (own ''ec2'')
                (own ''securityhub'') ''fixer'' ''finding-1'' ''vpc-1'' tr1 of
           (r2, tr2) \<Rightarrow>
             r1 = Inr () \<and>
             ops tr1 = provisioning_steps @ [''update_findings''] \<and>
             r2 = Inl (ClientError ''ResourceAlreadyExistsException'') \<and>
             ops (drop (length tr1) tr2) = [''create_log_group'']))"
proof -
  let ?p = "local_pipeline remembers (own ''logs'') (own ''iam'') (own ''ec2'')
           (own ''securityhub'') ''fixer'' ''finding-1'' ''vpc-1''"
  obtain r1 tr1 where run1: "?p [] = (r1, tr1)" by (metis prod.exhaust)
  with first_run_remembers have ev1: "r1 = Inr ()"
    "ops tr1 = provisioning_steps @ [''update_findings'']" by simp_all
  have "remembers tr1 (own ''logs'') ''create_log_group'' (create_log_group_kwargs ''vpc-1'')
          = Inl (ClientError ''ResourceAlreadyExistsException'')"
    by (simp add: remembers_def ev1 provisioning_steps_def)
  then have "?p tr1 = (Inl (ClientError ''ResourceAlreadyExistsException''),
      tr1 @ [Called (own ''logs'') ''create_log_group'' (create_log_group_kwargs ''vpc-1''),
             Printed (Inl (ClientError ''ResourceAlreadyExistsException''))])"
    by (simp add: local_pipeline_shape provisioning_shape_def action_defs)
  with run1 ev1 show ?thesis by simp
qed

text \<open>The same two runs, the second one by the theorem.\<close>

theorem creation_is_requested_without_lookup_witness:
  "(case local_pipeline remembers (own ''logs'') (own ''iam'') (own ''ec2'')
           (own ''securityhub'') ''fixer'' ''finding-1'' ''vpc-1'' [] of
      (r1, tr1) \<Rightarrow>
        (case local_pipeline remembers (own ''logs'') (own ''iam'') (own ''ec2'')
                (own ''securityhub'') ''fixer'' ''finding-1'' ''vpc-1'' tr1 of
           (r2, tr2) \<Rightarrow>
             r1 = Inr () \<and>
             r2 = Inl (ClientError ''ResourceAlreadyExistsException'') \<and>
             drop (length tr1) tr2 =
               [Called (own ''logs'') ''create_log_group'' (create_log_group_kwargs ''vpc-1''),
                Printed (Inl (ClientError ''ResourceAlreadyExistsException''))]))"
proof -
  let ?p = "local_pipeline remembers (own ''logs'') (own ''iam'') (own ''ec2'')
           (own ''securityhub'') ''fixer'' ''finding-1'' ''vpc-1''"
  obtain r1 tr1 where run1: "?p [] = (r1, tr1)" by (metis prod.exhaust)
  obtain r2 tr2 where run2: "?p tr1 = (r2, tr2)" by (metis prod.exhaust)
  from run1 first_run_remembers have ev1: "r1 = Inr ()"
    "ops tr1 = provisioning_steps @ [''update_findings'']" by simp_all
  have refused:
    "remembers tr1 (own ''logs'') ''create_log_group'' (create_log_group_kwargs ''vpc-1'')
          = Inl (ClientError ''ResourceAlreadyExistsException'')"
    by (simp add: remembers_def ev1 provisioning_steps_def)
  from creation_is_requested_without_lookup
    [where aws = remembers and logs = "own ''logs''" and iam = "own ''iam''"
       and ?ec2.0 = "own ''ec2''" and securityhub = "own ''securityhub''"
       and lambdaFunctionName = "''fixer''" and findingId = "''finding-1''"
       and vpc = "''vpc-1''" and ?tr0.0 = tr1 and r' = r2 and tr' = tr2, THEN conjunct2]
    run2 refused
  have "r2 = Inl (ClientError ''ResourceAlreadyExistsException'') \<and>
        drop (length tr1) tr2 =
          [Called (own ''logs'') ''create_log_group'' (create_log_group_kwargs ''vpc-1''),
           Printed (Inl (ClientError ''ResourceAlreadyExistsException''))]"
    by blast
  with run1 run2 ev1 show ?thesis by simp
qed

section \<open>The two branches\<close>

text \<open>
  C9. The branch for a finding of another account and the branch for the account of the
  function are the same pipeline: given the same clients, function name, finding id and
  VPC id they are one and the same action, so they send the same requests in the same
  order with the same names, policy documents and arguments. What differs between the
  branches is the credentials of the clients they are given.
\<close>

theorem branches_are_one_pipeline:
  "cross_account_pipeline aws logs iam ec2 securityhub lambdaFunctionName findingId vpc =
   local_pipeline aws logs iam ec2 securityhub lambdaFunctionName findingId vpc"
  unfolding cross_account_pipeline_def local_pipeline_def
  by (rule refl)

end
